theory Spec2Isabelle
  imports Complex_Main "HOL-Library.Word"
begin

section \<open>The scene manager of SceneManager.cpp\<close>

text \<open>
  The class \<open>SceneManager\<close> keeps a fixed array of loaded textures with a manual
  count, a vector of materials, a pointer to the shader manager and a pointer to the
  basic meshes. Its methods talk to three libraries: the image decoder (stb_image), the
  graphics API (OpenGL) and the two companion classes \<open>ShaderManager\<close> and
  \<open>ShapeMeshes\<close>. The model below keeps the members as a record and writes every call
  that leaves the class into a log, in program order, so that statements about what is
  uploaded or drawn, and in which order, are statements about that log.
\<close>

subsection \<open>Values\<close>

text \<open>
  A \<open>float\<close> is represented by the real number its literal denotes. The catalog code
  only stores and copies floats. The products of floats in \<open>SetupSceneLights\<close> are
  products of the machine, which round: the multiplication is the parameter \<open>fmul\<close> of
  that function, and nothing is assumed of it.
\<close>

type_synonym float = real
type_synonym vec2 = "float \<times> float"
type_synonym vec3 = "float \<times> float \<times> float"
type_synonym vec4 = "float \<times> float \<times> float \<times> float"
type_synonym GLuint = "32 word"

text \<open>
  GLM is a vendored library. A matrix is kept as the expression that builds it, so the
  order of the factors of the model matrix is visible in the logged upload, and no
  rounding behaviour of single precision arithmetic is assumed.
\<close>

datatype angle = glm_radians float

datatype mat4 =
    glm_scale vec3
  | glm_rotate angle vec3
  | glm_translate vec3
  | mat4_mul mat4 mat4

datatype MeshType = Plane | Sphere | Cylinder | Box

text \<open>
  \<open>TEXTURE_INFO\<close>: the handle is passed to \<open>glGenTextures\<close> by address, hence a
  \<open>GLuint\<close>. \<open>OBJECT_MATERIAL\<close>: the field \<open>tag\<close> of the source is \<open>mtag\<close> here,
  since both structs share one name space.
\<close>

record TEXTURE_INFO =
  ID :: GLuint
  tag :: string

record OBJECT_MATERIAL =
  diffuseColor :: vec3
  specularColor :: vec3
  shininess :: float
  mtag :: string

text \<open>What \<open>stbi_load\<close> reports of a decoded file (the pixels themselves are not modelled).\<close>

record image =
  width :: int
  height :: int
  colorChannels :: int

subsection \<open>Calls that leave the class\<close>

datatype piece = S string | I int

datatype call =
    stbi_set_flip_vertically_on_load bool
  | stbi_load string
  | stbi_image_free
  | glGenTextures GLuint
  | glBindTexture GLuint
  | glTexParameteri string string
  | glTexImage2D string int int string
  | glGenerateMipmap
  | glActiveTexture int
  | setMat4Value string mat4
  | setVec4Value string vec4
  | setVec3Value string vec3
  | setVec2Value string vec2
  | setFloatValue string float
  | setIntValue string int
  | setBoolValue string bool
  | setSampler2DValue string int
  | LoadPlaneMesh | LoadCylinderMesh | LoadBoxMesh | LoadSphereMesh
  | DrawPlaneMesh | DrawSphereMesh | DrawCylinderMesh | DrawBoxMesh
  | cout "piece list"
  | cerr "piece list"

text \<open>
  \<open>glGenTextures n\<close> logs the name the driver wrote through the pointer;
  \<open>glActiveTexture i\<close> stands for \<open>glActiveTexture(GL_TEXTURE0 + i)\<close>; every
  \<open>glBindTexture\<close>, \<open>glTexParameteri\<close>, \<open>glTexImage2D\<close> and \<open>glGenerateMipmap\<close> of
  the source has the target \<open>GL_TEXTURE_2D\<close>.
\<close>

subsection \<open>State\<close>

datatype ShaderManager = ShaderManager
datatype ShapeMeshes = ShapeMeshes

text \<open>
  The members of the class, then the surroundings: \<open>files\<close> is what the decoder makes
  of each path (\<open>None\<close>: \<open>stbi_load\<close> returns a null pointer), \<open>gl_names k\<close> is the name
  the driver hands out at the \<open>k\<close>-th \<open>glGenTextures\<close>, \<open>gl_generated\<close> counts those
  calls, and \<open>calls\<close> is the log. A pointer is an \<open>option\<close>, \<open>None\<close> being \<open>NULL\<close>.

  The declaration of \<open>m_textureIDs\<close> is in SceneManager.h, which is not among the
  sources: the capacity of the array is the length of the list (16 in the
  specification), and an index outside it is a fault.
\<close>

record state =
  m_pShaderManager :: "ShaderManager option"
  m_basicMeshes :: "ShapeMeshes option"
  m_textureIDs :: "TEXTURE_INFO list"
  m_loadedTextures :: int
  m_objectMaterials :: "OBJECT_MATERIAL list"
  files :: "string \<Rightarrow> image option"
  gl_names :: "nat \<Rightarrow> GLuint"
  gl_generated :: nat
  calls :: "call list"

datatype fault = NullDereference | OutOfBounds

definition emit :: "call \<Rightarrow> state \<Rightarrow> state" where
  "emit c s = s\<lparr>calls := calls s @ [c]\<rparr>"

definition emits :: "call list \<Rightarrow> state \<Rightarrow> state" where
  "emits cs s = s\<lparr>calls := calls s @ cs\<rparr>"

definition tex_at :: "state \<Rightarrow> int \<Rightarrow> fault + TEXTURE_INFO" where
  "tex_at s i =
     (if 0 \<le> i \<and> nat i < length (m_textureIDs s) then Inr (m_textureIDs s ! nat i)
      else Inl OutOfBounds)"

text \<open>The names of the uniforms (the globals of the anonymous namespace).\<close>

definition g_ModelName :: string where "g_ModelName = ''model''"
definition g_ColorValueName :: string where "g_ColorValueName = ''objectColor''"
definition g_TextureValueName :: string where "g_TextureValueName = ''objectTexture''"
definition g_UseTextureName :: string where "g_UseTextureName = ''bUseTexture''"
definition g_UseLightingName :: string where "g_UseLightingName = ''bUseLighting''"

subsection \<open>Constructor and destructor\<close>

text \<open>
  The constructor assigns the two pointers; the vector starts empty. The array and the
  count are as their declarations in the header leave them, so they stay as they are in
  the state the constructor is applied to.
\<close>

definition SceneManager :: "ShaderManager option \<Rightarrow> state \<Rightarrow> state" where
  "SceneManager pShaderManager s =
     s\<lparr>m_pShaderManager := pShaderManager, m_basicMeshes := Some ShapeMeshes,
       m_objectMaterials := []\<rparr>"

definition SceneManager_destructor :: "state \<Rightarrow> state" where
  "SceneManager_destructor s = s\<lparr>m_pShaderManager := None, m_basicMeshes := None\<rparr>"

subsection \<open>Textures\<close>

text \<open>
  \<open>CreateGLTexture\<close>: the part after a successful \<open>glTexImage2D\<close> is \<open>register_texture\<close>.
  The write to \<open>m_textureIDs[m_loadedTextures]\<close> has no bounds check in the source: an
  index outside the array is the fault \<open>OutOfBounds\<close>.
\<close>

definition register_texture :: "GLuint \<Rightarrow> string \<Rightarrow> state \<Rightarrow> fault + (bool \<times> state)" where
  "register_texture textureID tg s0 =
     (let s1 = emits [glGenerateMipmap, stbi_image_free, glBindTexture 0] s0;
          n = m_loadedTextures s1
      in if 0 \<le> n \<and> nat n < length (m_textureIDs s1)
         then Inr (True,
                s1\<lparr>m_textureIDs := (m_textureIDs s1)[nat n := \<lparr>ID = textureID, tag = tg\<rparr>],
                   m_loadedTextures := n + 1\<rparr>)
         else Inl OutOfBounds)"

definition CreateGLTexture :: "string \<Rightarrow> string \<Rightarrow> state \<Rightarrow> fault + (bool \<times> state)" where
  "CreateGLTexture filename tg s0 =
     (let s1 = emits [stbi_set_flip_vertically_on_load True, stbi_load filename] s0
      in case files s1 filename of
           None \<Rightarrow> Inr (False, emit (cout [S ''Could not load image:'', S filename]) s1)
         | Some img \<Rightarrow>
             (let s2 = emit (cout [S ''Successfully loaded image:'', S filename,
                                   S '', width:'', I (width img), S '', height:'', I (height img),
                                   S '', channels:'', I (colorChannels img)]) s1;
                  textureID = gl_names s2 (gl_generated s2);
                  s3 = emits [glGenTextures textureID, glBindTexture textureID,
                              glTexParameteri ''GL_TEXTURE_WRAP_S'' ''GL_REPEAT'',
                              glTexParameteri ''GL_TEXTURE_WRAP_T'' ''GL_REPEAT'',
                              glTexParameteri ''GL_TEXTURE_MIN_FILTER'' ''GL_LINEAR'',
                              glTexParameteri ''GL_TEXTURE_MAG_FILTER'' ''GL_LINEAR'']
                         (s2\<lparr>gl_generated := gl_generated s2 + 1\<rparr>)
              in if colorChannels img = 3
                 then register_texture textureID tg
                        (emit (glTexImage2D ''GL_RGB8'' (width img) (height img) ''GL_RGB'') s3)
                 else if colorChannels img = 4
                 then register_texture textureID tg
                        (emit (glTexImage2D ''GL_RGBA8'' (width img) (height img) ''GL_RGBA'') s3)
                 else Inr (False,
                        emit (cout [S ''Not implemented to handle image with '',
                                    I (colorChannels img), S '' channels'']) s3)))"

text \<open>
  \<open>BindGLTextures\<close> and \<open>DestroyGLTextures\<close>: the \<open>for\<close> loops, from index \<open>i\<close> on.
\<close>

function BindGLTextures_from :: "int \<Rightarrow> state \<Rightarrow> fault + state" where
  "BindGLTextures_from i s =
     (if i < m_loadedTextures s
      then (case tex_at s i of
              Inl e \<Rightarrow> Inl e
            | Inr t \<Rightarrow> BindGLTextures_from (i + 1)
                        (emits [glActiveTexture i, glBindTexture (ID t)] s))
      else Inr s)"
  by pat_completeness auto
termination
  by (relation "measure (\<lambda>(i, s). nat (m_loadedTextures s - i))") (auto simp: emits_def)

definition BindGLTextures :: "state \<Rightarrow> fault + state" where
  "BindGLTextures s = BindGLTextures_from 0 s"

function DestroyGLTextures_from :: "int \<Rightarrow> state \<Rightarrow> fault + state" where
  "DestroyGLTextures_from i s =
     (if i < m_loadedTextures s
      then (case tex_at s i of
              Inl e \<Rightarrow> Inl e
            | Inr t \<Rightarrow>
                (let name = gl_names s (gl_generated s)
                 in DestroyGLTextures_from (i + 1)
                      (emit (glGenTextures name)
                         (s\<lparr>m_textureIDs := (m_textureIDs s)[nat i := t\<lparr>ID := name\<rparr>],
                            gl_generated := gl_generated s + 1\<rparr>))))
      else Inr s)"
  by pat_completeness auto
termination
  by (relation "measure (\<lambda>(i, s). nat (m_loadedTextures s - i))") (auto simp: emit_def)

definition DestroyGLTextures :: "state \<Rightarrow> fault + state" where
  "DestroyGLTextures s = DestroyGLTextures_from 0 s"

text \<open>
  The lookups: the \<open>while\<close> loops with their three variables. The result of
  \<open>FindTextureID\<close> is an \<open>int\<close>, so the unsigned handle is read as a signed number.
\<close>

function FindTextureID_loop :: "string \<Rightarrow> state \<Rightarrow> int \<Rightarrow> int \<Rightarrow> bool \<Rightarrow> fault + int" where
  "FindTextureID_loop tg s textureID index bFound =
     (if index < m_loadedTextures s \<and> bFound = False
      then (case tex_at s index of
              Inl e \<Rightarrow> Inl e
            | Inr t \<Rightarrow>
                if tag t = tg then FindTextureID_loop tg s (sint (ID t)) index True
                else FindTextureID_loop tg s textureID (index + 1) bFound)
      else Inr textureID)"
  by pat_completeness auto
termination
  by (relation "measure (\<lambda>(tg, s, textureID, index, bFound).
        if bFound then 0 else 1 + nat (m_loadedTextures s - index))") auto

definition FindTextureID :: "string \<Rightarrow> state \<Rightarrow> fault + int" where
  "FindTextureID tg s = FindTextureID_loop tg s (- 1) 0 False"

function FindTextureSlot_loop :: "string \<Rightarrow> state \<Rightarrow> int \<Rightarrow> int \<Rightarrow> bool \<Rightarrow> fault + int" where
  "FindTextureSlot_loop tg s textureSlot index bFound =
     (if index < m_loadedTextures s \<and> bFound = False
      then (case tex_at s index of
              Inl e \<Rightarrow> Inl e
            | Inr t \<Rightarrow>
                if tag t = tg then FindTextureSlot_loop tg s index index True
                else FindTextureSlot_loop tg s textureSlot (index + 1) bFound)
      else Inr textureSlot)"
  by pat_completeness auto
termination
  by (relation "measure (\<lambda>(tg, s, textureSlot, index, bFound).
        if bFound then 0 else 1 + nat (m_loadedTextures s - index))") auto

definition FindTextureSlot :: "string \<Rightarrow> state \<Rightarrow> fault + int" where
  "FindTextureSlot tg s = FindTextureSlot_loop tg s (- 1) 0 False"

subsection \<open>Materials\<close>

text \<open>
  \<open>FindMaterial\<close>: the \<open>while\<close> loop with its variables \<open>index\<close> and \<open>bFound\<close> and the
  reference parameter \<open>material\<close>, whose final value is returned with the flag. The
  comparison \<open>index < m_objectMaterials.size()\<close> is unsigned, so a negative index would
  end the loop. Only the three coefficients are copied; the tag of \<open>material\<close> stays.
\<close>

function FindMaterial_loop ::
  "string \<Rightarrow> state \<Rightarrow> int \<Rightarrow> bool \<Rightarrow> OBJECT_MATERIAL \<Rightarrow> OBJECT_MATERIAL" where
  "FindMaterial_loop tg s index bFound material =
     (if (0 \<le> index \<and> index < int (length (m_objectMaterials s))) \<and> bFound = False
      then (if mtag (m_objectMaterials s ! nat index) = tg
            then FindMaterial_loop tg s index True
                   (material\<lparr>diffuseColor := diffuseColor (m_objectMaterials s ! nat index),
                             specularColor := specularColor (m_objectMaterials s ! nat index),
                             shininess := shininess (m_objectMaterials s ! nat index)\<rparr>)
            else FindMaterial_loop tg s (index + 1) bFound material)
      else material)"
  by pat_completeness auto
termination
  by (relation "measure (\<lambda>(tg, s, index, bFound, material).
        if bFound then 0 else 1 + nat (int (length (m_objectMaterials s)) - index))") auto

definition FindMaterial :: "string \<Rightarrow> OBJECT_MATERIAL \<Rightarrow> state \<Rightarrow> bool \<times> OBJECT_MATERIAL" where
  "FindMaterial tg material s =
     (if length (m_objectMaterials s) = 0 then (False, material)
      else (True, FindMaterial_loop tg s 0 False material))"

definition DefineObjectMaterials :: "state \<Rightarrow> state" where
  "DefineObjectMaterials s0 =
     (let plasticMaterial = \<lparr>diffuseColor = (0.8, 0.4, 0.8), specularColor = (0.2, 0.2, 0.2),
                              shininess = 1.0, mtag = ''plastic''\<rparr>;
          s1 = s0\<lparr>m_objectMaterials := m_objectMaterials s0 @ [plasticMaterial]\<rparr>;
          woodMaterial = \<lparr>diffuseColor = (0.6, 0.5, 0.2), specularColor = (0.1, 0.2, 0.2),
                           shininess = 1.0, mtag = ''wood''\<rparr>;
          s2 = s1\<lparr>m_objectMaterials := m_objectMaterials s1 @ [woodMaterial]\<rparr>;
          metalMaterial = \<lparr>diffuseColor = (0.3, 0.3, 0.2), specularColor = (0.7, 0.7, 0.8),
                            shininess = 8.0, mtag = ''metal''\<rparr>;
          s3 = s2\<lparr>m_objectMaterials := m_objectMaterials s2 @ [metalMaterial]\<rparr>;
          glassMaterial = \<lparr>diffuseColor = (0.3, 0.3, 0.2), specularColor = (0.9, 0.9, 0.8),
                            shininess = 10.0, mtag = ''glass''\<rparr>;
          s4 = s3\<lparr>m_objectMaterials := m_objectMaterials s3 @ [glassMaterial]\<rparr>;
          tileMaterial = \<lparr>diffuseColor = (0.5, 0.5, 0.5), specularColor = (0.7, 0.7, 0.7),
                           shininess = 6.0, mtag = ''tile''\<rparr>;
          s5 = s4\<lparr>m_objectMaterials := m_objectMaterials s4 @ [tileMaterial]\<rparr>;
          stoneMaterial = \<lparr>diffuseColor = (0.5, 0.5, 0.5), specularColor = (0.73, 0.3, 0.3),
                            shininess = 6.0, mtag = ''stone''\<rparr>
      in s5\<lparr>m_objectMaterials := m_objectMaterials s5 @ [stoneMaterial]\<rparr>)"

subsection \<open>Uploads to the shader\<close>

definition SetTransformations :: "vec3 \<Rightarrow> float \<Rightarrow> float \<Rightarrow> float \<Rightarrow> vec3 \<Rightarrow> state \<Rightarrow> state" where
  "SetTransformations scaleXYZ XrotationDegrees YrotationDegrees ZrotationDegrees positionXYZ s =
     (let scale = glm_scale scaleXYZ;
          rotationX = glm_rotate (glm_radians XrotationDegrees) (1.0, 0.0, 0.0);
          rotationY = glm_rotate (glm_radians YrotationDegrees) (0.0, 1.0, 0.0);
          rotationZ = glm_rotate (glm_radians ZrotationDegrees) (0.0, 0.0, 1.0);
          translation = glm_translate positionXYZ;
          modelView = mat4_mul (mat4_mul (mat4_mul (mat4_mul translation rotationZ) rotationY)
                                  rotationX) scale
      in if m_pShaderManager s \<noteq> None then emit (setMat4Value g_ModelName modelView) s
         else s)"

definition SetShaderColor :: "float \<Rightarrow> float \<Rightarrow> float \<Rightarrow> float \<Rightarrow> state \<Rightarrow> state" where
  "SetShaderColor redColorValue greenColorValue blueColorValue alphaValue s =
     (let currentColor = (redColorValue, greenColorValue, blueColorValue, alphaValue)
      in if m_pShaderManager s \<noteq> None
         then emits [setIntValue g_UseTextureName 0, setVec4Value g_ColorValueName currentColor] s
         else s)"

definition SetShaderTexture :: "string \<Rightarrow> state \<Rightarrow> fault + state" where
  "SetShaderTexture textureTag s0 =
     (if m_pShaderManager s0 \<noteq> None
      then (let s1 = emit (setIntValue g_UseTextureName 1) s0
            in case FindTextureSlot textureTag s1 of
                 Inl e \<Rightarrow> Inl e
               | Inr textureID \<Rightarrow> Inr (emit (setSampler2DValue g_TextureValueName textureID) s1))
      else Inr s0)"

definition SetTextureUVScale :: "float \<Rightarrow> float \<Rightarrow> state \<Rightarrow> state" where
  "SetTextureUVScale u v s =
     (if m_pShaderManager s \<noteq> None then emit (setVec2Value ''UVscale'' (u, v)) s else s)"

text \<open>
  \<open>SetShaderMaterial\<close>: the local \<open>material\<close> is declared without an initialiser;
  \<open>uninit\<close> stands for its contents before \<open>FindMaterial\<close> runs. The three calls through
  \<open>m_pShaderManager\<close> are made without a test of the pointer: on a null pointer the
  first of them is the fault \<open>NullDereference\<close>.
\<close>

definition SetShaderMaterial :: "string \<Rightarrow> OBJECT_MATERIAL \<Rightarrow> state \<Rightarrow> fault + state" where
  "SetShaderMaterial materialTag uninit s =
     (if length (m_objectMaterials s) > 0
      then (case FindMaterial materialTag uninit s of
              (bReturn, material) \<Rightarrow>
                if bReturn = True
                then (if m_pShaderManager s = None then Inl NullDereference
                      else Inr (emits [setVec3Value ''material.diffuseColor'' (diffuseColor material),
                                       setVec3Value ''material.specularColor'' (specularColor material),
                                       setFloatValue ''material.shininess'' (shininess material)] s))
                else Inr s)
      else Inr s)"

subsection \<open>Preparing the scene\<close>

text \<open>
  \<open>LoadSceneTextures\<close> calls \<open>CreateGLTexture\<close> eleven times, drops each result, and
  binds. The eleven calls are the list \<open>scene_textures\<close>, run in order by \<open>load_textures\<close>.
\<close>

definition scene_textures :: "(string \<times> string) list" where
  "scene_textures =
     [(''textures/Lid.png'', ''Lid''),
      (''textures/Stone.png'', ''Stone''),
      (''textures/Pasta.png'', ''pasta''),
      (''textures/glass.png'', ''glass''),
      (''textures/jar.png'', ''jar''),
      (''textures/beanContainer.png'', ''beancontainer''),
      (''textures/beanContainer1.png'', ''beancontainer1''),
      (''textures/painting.png'', ''painting''),
      (''textures/table.png'', ''table''),
      (''textures/wall.png'', ''wall''),
      (''textures/plastic.png'', ''plastic'')]"

fun load_textures :: "(string \<times> string) list \<Rightarrow> state \<Rightarrow> fault + state" where
  "load_textures [] s = Inr s"
| "load_textures ((filename, tg) # rest) s =
     (case CreateGLTexture filename tg s of
        Inl e \<Rightarrow> Inl e
      | Inr (bReturn, s') \<Rightarrow> load_textures rest s')"

definition LoadSceneTextures :: "state \<Rightarrow> fault + state" where
  "LoadSceneTextures s =
     (case load_textures scene_textures s of
        Inl e \<Rightarrow> Inl e
      | Inr s' \<Rightarrow> BindGLTextures s')"

definition SetupSceneLights :: "(float \<Rightarrow> float \<Rightarrow> float) \<Rightarrow> state \<Rightarrow> fault + state" where
  "SetupSceneLights fmul s =
     (if m_pShaderManager s = None then Inl NullDereference
      else (let warmLightX = 1.0; warmLightY = 0.994; warmLightZ = 0.75;
                coolLightX = 0.6; coolLightY = 0.77; coolLightZ = 0.9
            in Inr (emits
              [setBoolValue g_UseLightingName True,
               setVec3Value ''pointLights[0].position'' (- 20.5, 10.0, - 10.0),
               setVec3Value ''pointLights[0].direction'' (20.5, - 10.0, 10.0),
               setBoolValue ''pointLights[0].bUseDirection'' True,
               setVec3Value ''pointLights[0].ambient''
                 (fmul warmLightX 0.51, fmul warmLightY 0.51, fmul warmLightZ 0.51),
               setVec3Value ''pointLights[0].diffuse''
                 (fmul warmLightX 0.56, fmul warmLightY 0.56, fmul warmLightZ 0.56),
               setVec3Value ''pointLights[0].specular''
                 (fmul warmLightX 0.54, fmul warmLightY 0.54, fmul warmLightZ 0.54),
               setFloatValue ''pointLights[0].focalStrength'' 102.0,
               setFloatValue ''pointLights[0].specularIntensity'' 2.1,
               setBoolValue ''pointLights[0].bActive'' True,
               setVec3Value ''pointLights[1].position'' (4.0, 4.0, 4.0),
               setBoolValue ''pointLights[1].bUseDirection'' False,
               setVec3Value ''pointLights[1].ambient''
                 (fmul coolLightX 0.5, fmul coolLightY 0.5, fmul coolLightZ 0.5),
               setVec3Value ''pointLights[1].diffuse''
                 (fmul coolLightX 0.2, fmul coolLightY 0.2, fmul coolLightZ 0.2),
               setVec3Value ''pointLights[1].specular''
                 (fmul coolLightX 0.0, fmul coolLightY 0.0, fmul coolLightZ 0.0),
               setFloatValue ''pointLights[1].focalStrength'' 12.0,
               setFloatValue ''pointLights[1].specularIntensity'' 0.0,
               setBoolValue ''pointLights[1].bActive'' True] s)))"

definition PrepareScene :: "(float \<Rightarrow> float \<Rightarrow> float) \<Rightarrow> state \<Rightarrow> fault + state" where
  "PrepareScene fmul s0 =
     (case LoadSceneTextures s0 of
        Inl e \<Rightarrow> Inl e
      | Inr s1 \<Rightarrow>
          (case SetupSceneLights fmul (DefineObjectMaterials s1) of
             Inl e \<Rightarrow> Inl e
           | Inr s2 \<Rightarrow>
               if m_basicMeshes s2 = None then Inl NullDereference
               else Inr (emits [LoadPlaneMesh, LoadCylinderMesh, LoadBoxMesh, LoadSphereMesh] s2)))"

subsection \<open>Rendering\<close>

record DrawCmd =
  type :: MeshType
  scale :: vec3
  rotationDeg :: vec3
  translation :: vec3
  material :: string
  texture :: string

definition draw_call :: "MeshType \<Rightarrow> call" where
  "draw_call t = (case t of Plane \<Rightarrow> DrawPlaneMesh | Sphere \<Rightarrow> DrawSphereMesh
                  | Cylinder \<Rightarrow> DrawCylinderMesh | Box \<Rightarrow> DrawBoxMesh)"

text \<open>The lambda \<open>drawOne\<close> of \<open>RenderScene\<close>, the literal list \<open>cmds\<close>, and the loop over it.\<close>

definition drawOne :: "OBJECT_MATERIAL \<Rightarrow> DrawCmd \<Rightarrow> state \<Rightarrow> fault + state" where
  "drawOne uninit c s0 =
     (case rotationDeg c of (rx, ry, rz) \<Rightarrow>
        (let s1 = SetTransformations (scale c) rx ry rz (translation c) s0
         in case SetShaderMaterial (material c) uninit s1 of
              Inl e \<Rightarrow> Inl e
            | Inr s2 \<Rightarrow>
                (case SetShaderTexture (texture c) s2 of
                   Inl e \<Rightarrow> Inl e
                 | Inr s3 \<Rightarrow> Inr (emit (draw_call (type c)) s3))))"

definition cmd :: "MeshType \<Rightarrow> vec3 \<Rightarrow> vec3 \<Rightarrow> vec3 \<Rightarrow> string \<Rightarrow> string \<Rightarrow> DrawCmd" where
  "cmd t sc rot tr m tx =
     \<lparr>type = t, scale = sc, rotationDeg = rot, translation = tr, material = m, texture = tx\<rparr>"

definition cmds :: "DrawCmd list" where
  "cmds =
     [cmd Plane (20.0, 1.0, 10.0) (90.0, 0.0, 0.0) (0.0, 9.0, - 10.0) ''stone'' ''wall'',
      cmd Plane (20.0, 1.0, 10.0) (0.0, 0.0, 0.0) (0.0, 0.0, 0.0) ''wood'' ''table'',
      cmd Sphere (0.3, 0.3, 0.3) (0.0, 0.0, 0.0) (- 6.0, 0.3, - 3.0) ''stone'' ''Stone'',
      cmd Cylinder (1.0, 2.5, 1.0) (0.0, 0.0, 0.0) (- 3.0, 0.3, 0.0) ''glass'' ''glass'',
      cmd Cylinder (3.0, 1.0, 3.0) (0.0, 0.0, 0.0) (1.0, 0.2, 0.98) ''plastic'' ''beancontainer1'',
      cmd Cylinder (3.0, 3.0, 3.0) (0.0, 2.0, 0.0) (1.0, 1.2, 0.98) ''plastic'' ''beancontainer'',
      cmd Cylinder (2.8, 0.5, 2.8) (0.0, 0.0, 0.0) (1.0, 4.2, 0.98) ''plastic'' ''plastic'',
      cmd Cylinder (1.5, 3.5, 1.5) (0.0, 0.0, 0.0) (6.0, 0.1, 0.0) ''glass'' ''jar'',
      cmd Cylinder (1.0, 0.3, 1.0) (0.0, 0.0, 0.0) (6.0, 3.5, 0.0) ''plastic'' ''Lid'',
      cmd Box (3.5, 0.01, 5.5) (90.0, 180.0, 0.0) (6.0, 8.5, - 10.0) ''plastic'' ''painting'',
      cmd Box (1.5, 0.4, 3.0) (0.0, 80.0, 0.0) (3.0, 0.3, 5.5) ''plastic'' ''pasta'',
      cmd Box (1.5, 0.4, 3.0) (0.0, 65.0, 0.0) (3.0, 0.6, 5.5) ''plastic'' ''pasta'',
      cmd Box (1.5, 0.4, 3.0) (0.0, 65.0, 0.0) (3.0, 1.0, 5.5) ''plastic'' ''pasta'']"

fun draw_all :: "OBJECT_MATERIAL \<Rightarrow> DrawCmd list \<Rightarrow> state \<Rightarrow> fault + state" where
  "draw_all uninit [] s = Inr s"
| "draw_all uninit (c # cs) s =
     (case drawOne uninit c s of
        Inl e \<Rightarrow> Inl e
      | Inr s' \<Rightarrow> draw_all uninit cs s')"

definition RenderScene :: "OBJECT_MATERIAL \<Rightarrow> state \<Rightarrow> fault + state" where
  "RenderScene uninit s =
     (if m_basicMeshes s = None
      then Inr (emit (cerr [S (''ERROR: m_basicMeshes is null!'' @ [CHR 0x0A])]) s)
      else draw_all uninit cmds s)"

text \<open>
  The equations of the loops are unfolded by hand (\<open>subst\<close>), one iteration at a time.
\<close>

declare BindGLTextures_from.simps [simp del]
declare DestroyGLTextures_from.simps [simp del]
declare FindTextureID_loop.simps [simp del]
declare FindTextureSlot_loop.simps [simp del]
declare FindMaterial_loop.simps [simp del]

section \<open>The matrices of GLM\<close>

text \<open>
  Modelled from the spec: GLM is a vendored library and is not among the sources. The
  specification (sections 3 and 6) names what \<open>SetTransformations\<close> uses of it: the
  conversion of degrees to radians and the homogeneous 4x4 matrices of a scale, of a
  rotation about an axis and of a translation, composed by the matrix product. Their
  meaning is given here over the reals, without the rounding of single precision: a
  matrix is the tuple of its four rows, \<open>glm::rotate\<close> is the rotation about the
  normalised axis (as GLM computes it from the cosine, the sine and the axis), and a
  point is transformed as the column vector \<open>(x, y, z, 1)\<close>.
\<close>

type_synonym matrix = "vec4 \<times> vec4 \<times> vec4 \<times> vec4"

definition dot4 :: "vec4 \<Rightarrow> vec4 \<Rightarrow> real" where
  "dot4 a b = (case a of (a0, a1, a2, a3) \<Rightarrow> case b of (b0, b1, b2, b3) \<Rightarrow>
                 a0 * b0 + a1 * b1 + a2 * b2 + a3 * b3)"

definition columns :: "matrix \<Rightarrow> matrix" where
  "columns m =
     (case m of ((a0, a1, a2, a3), (b0, b1, b2, b3), (c0, c1, c2, c3), (d0, d1, d2, d3)) \<Rightarrow>
        ((a0, b0, c0, d0), (a1, b1, c1, d1), (a2, b2, c2, d2), (a3, b3, c3, d3)))"

definition mat_vec :: "matrix \<Rightarrow> vec4 \<Rightarrow> vec4" where
  "mat_vec m v = (case m of (r0, r1, r2, r3) \<Rightarrow> (dot4 r0 v, dot4 r1 v, dot4 r2 v, dot4 r3 v))"

definition mat_mul :: "matrix \<Rightarrow> matrix \<Rightarrow> matrix" where
  "mat_mul a b =
     (case a of (r0, r1, r2, r3) \<Rightarrow> case columns b of (c0, c1, c2, c3) \<Rightarrow>
        ((dot4 r0 c0, dot4 r0 c1, dot4 r0 c2, dot4 r0 c3),
         (dot4 r1 c0, dot4 r1 c1, dot4 r1 c2, dot4 r1 c3),
         (dot4 r2 c0, dot4 r2 c1, dot4 r2 c2, dot4 r2 c3),
         (dot4 r3 c0, dot4 r3 c1, dot4 r3 c2, dot4 r3 c3)))"

fun radians_value :: "angle \<Rightarrow> real" where
  "radians_value (glm_radians degrees) = degrees * pi / 180"

definition scale_matrix :: "vec3 \<Rightarrow> matrix" where
  "scale_matrix v = (case v of (x, y, z) \<Rightarrow>
     ((x, 0, 0, 0), (0, y, 0, 0), (0, 0, z, 0), (0, 0, 0, 1)))"

definition translate_matrix :: "vec3 \<Rightarrow> matrix" where
  "translate_matrix v = (case v of (x, y, z) \<Rightarrow>
     ((1, 0, 0, x), (0, 1, 0, y), (0, 0, 1, z), (0, 0, 0, 1)))"

definition rotate_matrix :: "real \<Rightarrow> vec3 \<Rightarrow> matrix" where
  "rotate_matrix a v = (case v of (x, y, z) \<Rightarrow>
     (let c = cos a; s = sin a; l = sqrt (x * x + y * y + z * z);
          ax = x / l; ay = y / l; az = z / l;
          tx = (1 - c) * ax; ty = (1 - c) * ay; tz = (1 - c) * az
      in ((c + tx * ax, ty * ax - s * az, tz * ax + s * ay, 0),
          (tx * ay + s * az, c + ty * ay, tz * ay - s * ax, 0),
          (tx * az - s * ay, ty * az + s * ax, c + tz * az, 0),
          (0, 0, 0, 1))))"

primrec mat4_value :: "mat4 \<Rightarrow> matrix" where
  "mat4_value (glm_scale v) = scale_matrix v"
| "mat4_value (glm_rotate a v) = rotate_matrix (radians_value a) v"
| "mat4_value (glm_translate v) = translate_matrix v"
| "mat4_value (mat4_mul a b) = mat_mul (mat4_value a) (mat4_value b)"

definition transform_point :: "matrix \<Rightarrow> vec3 \<Rightarrow> vec3" where
  "transform_point m p = (case p of (x, y, z) \<Rightarrow>
     (case mat_vec m (x, y, z, 1) of (x', y', z', w') \<Rightarrow> (x', y', z')))"

text \<open>
  The model transform in the words of the specification (section 3):
  \<open>Model = Translate \<times> RotateZ \<times> RotateY \<times> RotateX \<times> Scale\<close>, the rotations being the
  usual rotations about the coordinate axes by an angle in radians, and the angles
  supplied in degrees.
\<close>

definition Scale :: "vec3 \<Rightarrow> matrix" where
  "Scale v = (case v of (x, y, z) \<Rightarrow>
     ((x, 0, 0, 0), (0, y, 0, 0), (0, 0, z, 0), (0, 0, 0, 1)))"

definition Translate :: "vec3 \<Rightarrow> matrix" where
  "Translate v = (case v of (x, y, z) \<Rightarrow>
     ((1, 0, 0, x), (0, 1, 0, y), (0, 0, 1, z), (0, 0, 0, 1)))"

definition RotateX :: "real \<Rightarrow> matrix" where
  "RotateX a = ((1, 0, 0, 0), (0, cos a, - sin a, 0), (0, sin a, cos a, 0), (0, 0, 0, 1))"

definition RotateY :: "real \<Rightarrow> matrix" where
  "RotateY a = ((cos a, 0, sin a, 0), (0, 1, 0, 0), (- sin a, 0, cos a, 0), (0, 0, 0, 1))"

definition RotateZ :: "real \<Rightarrow> matrix" where
  "RotateZ a = ((cos a, - sin a, 0, 0), (sin a, cos a, 0, 0), (0, 0, 1, 0), (0, 0, 0, 1))"

definition Model :: "vec3 \<Rightarrow> real \<Rightarrow> real \<Rightarrow> real \<Rightarrow> vec3 \<Rightarrow> matrix" where
  "Model scaleXYZ xDegrees yDegrees zDegrees positionXYZ =
     mat_mul (mat_mul (mat_mul (mat_mul (Translate positionXYZ)
                                         (RotateZ (zDegrees * pi / 180)))
                                (RotateY (yDegrees * pi / 180)))
                       (RotateX (xDegrees * pi / 180)))
             (Scale scaleXYZ)"

section \<open>Auxiliary definitions\<close>

text \<open>
  Concrete states for the worked instances, the calls a command is expected to make,
  and projections of a result. None of them is part of the program.
\<close>

text \<open>
  A manager with sixteen empty texture slots, no file that decodes, and a driver that
  hands out the names 1, 2, 3, ...
\<close>

definition fresh_state :: state where
  "fresh_state =
     \<lparr>m_pShaderManager = None, m_basicMeshes = None,
      m_textureIDs = replicate 16 \<lparr>ID = 0, tag = []\<rparr>, m_loadedTextures = 0,
      m_objectMaterials = [], files = (\<lambda>f. None), gl_names = (\<lambda>k. word_of_nat k + 1),
      gl_generated = 0, calls = []\<rparr>"

definition some_material :: OBJECT_MATERIAL where
  "some_material = \<lparr>diffuseColor = (0, 0, 0), specularColor = (0, 0, 0), shininess = 0, mtag = []\<rparr>"

definition three_textures :: state where
  "three_textures =
     fresh_state\<lparr>m_textureIDs := [\<lparr>ID = 7, tag = ''wall''\<rparr>, \<lparr>ID = 9, tag = ''pasta''\<rparr>,
                                  \<lparr>ID = 11, tag = ''pasta''\<rparr>] @ replicate 13 \<lparr>ID = 0, tag = []\<rparr>,
                 m_loadedTextures := 3\<rparr>"

text \<open>What one draw command sends out, part by part.\<close>

definition slot_of :: "string \<Rightarrow> state \<Rightarrow> int" where
  "slot_of tg s = (case FindTextureSlot tg s of Inr v \<Rightarrow> v | Inl e \<Rightarrow> - 1)"

definition model_matrix :: "DrawCmd \<Rightarrow> mat4" where
  "model_matrix c =
     (case rotationDeg c of (rx, ry, rz) \<Rightarrow>
        mat4_mul (mat4_mul (mat4_mul (mat4_mul (glm_translate (translation c))
                                                (glm_rotate (glm_radians rz) (0, 0, 1)))
                                      (glm_rotate (glm_radians ry) (0, 1, 0)))
                            (glm_rotate (glm_radians rx) (1, 0, 0)))
                 (glm_scale (scale c)))"

definition material_uploads :: "OBJECT_MATERIAL \<Rightarrow> state \<Rightarrow> string \<Rightarrow> call list" where
  "material_uploads uninit s tg =
     (if m_objectMaterials s = [] then []
      else [setVec3Value ''material.diffuseColor'' (diffuseColor (snd (FindMaterial tg uninit s))),
            setVec3Value ''material.specularColor'' (specularColor (snd (FindMaterial tg uninit s))),
            setFloatValue ''material.shininess'' (shininess (snd (FindMaterial tg uninit s)))])"

definition drawOne_calls :: "OBJECT_MATERIAL \<Rightarrow> state \<Rightarrow> DrawCmd \<Rightarrow> call list" where
  "drawOne_calls uninit s c =
     [setMat4Value ''model'' (model_matrix c)] @ material_uploads uninit s (material c) @
     [setIntValue ''bUseTexture'' 1, setSampler2DValue ''objectTexture'' (slot_of (texture c) s),
      draw_call (type c)]"



definition calls_of :: "fault + state \<Rightarrow> call list" where
  "calls_of r = (case r of Inl e \<Rightarrow> [] | Inr s \<Rightarrow> calls s)"

definition returned :: "fault + state \<Rightarrow> bool" where
  "returned r = (case r of Inl e \<Rightarrow> False | Inr s \<Rightarrow> True)"

definition ready_state :: state where
  "ready_state = DefineObjectMaterials (SceneManager (Some ShaderManager) three_textures)"

definition CreateGLTexture_calls :: "string \<Rightarrow> image \<Rightarrow> GLuint \<Rightarrow> call list" where
  "CreateGLTexture_calls filename img textureID =
     [stbi_set_flip_vertically_on_load True, stbi_load filename,
      cout [S ''Successfully loaded image:'', S filename,
            S '', width:'', I (width img), S '', height:'', I (height img),
            S '', channels:'', I (colorChannels img)],
      glGenTextures textureID, glBindTexture textureID,
      glTexParameteri ''GL_TEXTURE_WRAP_S'' ''GL_REPEAT'',
      glTexParameteri ''GL_TEXTURE_WRAP_T'' ''GL_REPEAT'',
      glTexParameteri ''GL_TEXTURE_MIN_FILTER'' ''GL_LINEAR'',
      glTexParameteri ''GL_TEXTURE_MAG_FILTER'' ''GL_LINEAR'',
      (if colorChannels img = 3
       then glTexImage2D ''GL_RGB8'' (width img) (height img) ''GL_RGB''
       else glTexImage2D ''GL_RGBA8'' (width img) (height img) ''GL_RGBA''),
      glGenerateMipmap, stbi_image_free, glBindTexture 0]"

text \<open>
  A disk for the worked instances: the eleven files of the scene decode (the glass with
  an alpha channel), one grey-scale file decodes to a single channel, nothing else
  decodes.
\<close>

definition disk :: "string \<Rightarrow> image option" where
  "disk f =
     (if f = ''textures/glass.png'' then Some \<lparr>width = 64, height = 64, colorChannels = 4\<rparr>
      else if f \<in> set (map fst scene_textures)
      then Some \<lparr>width = 64, height = 64, colorChannels = 3\<rparr>
      else if f = ''textures/grey.png'' then Some \<lparr>width = 64, height = 64, colorChannels = 1\<rparr>
      else None)"

definition with_disk :: state where
  "with_disk = fresh_state\<lparr>files := disk\<rparr>"

definition flag_of :: "fault + (bool \<times> state) \<Rightarrow> bool option" where
  "flag_of r = (case r of Inl e \<Rightarrow> None | Inr (b, s) \<Rightarrow> Some b)"

definition catalog_of :: "fault + (bool \<times> state) \<Rightarrow> (GLuint \<times> string) list \<times> int" where
  "catalog_of r =
     (case r of Inl e \<Rightarrow> ([], - 1)
      | Inr (b, s) \<Rightarrow> (map (\<lambda>t. (ID t, tag t)) (take (nat (m_loadedTextures s)) (m_textureIDs s)),
                       m_loadedTextures s))"

definition bind_calls :: "state \<Rightarrow> nat \<Rightarrow> call list" where
  "bind_calls s j = [glActiveTexture (int j), glBindTexture (ID (m_textureIDs s ! j))]"

definition entries_of :: "fault + state \<Rightarrow> (GLuint \<times> string) list" where
  "entries_of r =
     (case r of Inl e \<Rightarrow> []
      | Inr s \<Rightarrow> map (\<lambda>t. (ID t, tag t)) (take (nat (m_loadedTextures s)) (m_textureIDs s)))"

text \<open>
  The entries that loading a list of files registers, in the words of the
  specification (section 4.1): a file that does not decode is skipped without any
  effect, a decoded image of a channel count other than 3 and 4 is rejected and no
  entry is created, and every other file appends the pair of its handle and its tag.
  The handle is the name the driver generates; one name is generated for every
  decoded image, also for one that is then rejected. \<open>g\<close> counts the names generated
  so far.
\<close>

fun registered_entries ::
  "(string \<Rightarrow> image option) \<Rightarrow> (nat \<Rightarrow> GLuint) \<Rightarrow> nat \<Rightarrow> (string \<times> string) list \<Rightarrow> TEXTURE_INFO list" where
  "registered_entries fs names g [] = []"
| "registered_entries fs names g ((filename, tg) # rest) =
     (case fs filename of
        None \<Rightarrow> registered_entries fs names g rest
      | Some img \<Rightarrow>
          if colorChannels img = 3 \<or> colorChannels img = 4
          then \<lparr>ID = names g, tag = tg\<rparr> # registered_entries fs names (Suc g) rest
          else registered_entries fs names (Suc g) rest)"

definition scene_entries :: "state \<Rightarrow> TEXTURE_INFO list" where
  "scene_entries s = registered_entries (files s) (gl_names s) (gl_generated s) scene_textures"

definition decodes :: "state \<Rightarrow> string \<Rightarrow> bool" where
  "decodes s f = (case files s f of None \<Rightarrow> False
                  | Some img \<Rightarrow> colorChannels img = 3 \<or> colorChannels img = 4)"

definition count_of :: "fault + state \<Rightarrow> int" where
  "count_of r = (case r of Inl e \<Rightarrow> - 1 | Inr s \<Rightarrow> m_loadedTextures s)"

definition without_lid :: state where
  "without_lid = with_disk\<lparr>files := disk(''textures/Lid.png'' := None)\<rparr>"

definition two_files_fail :: state where
  "two_files_fail =
     with_disk\<lparr>files := disk(''textures/Lid.png'' := None,
                               ''textures/jar.png'' :=
                                 Some \<lparr>width = 64, height = 64, colorChannels = 1\<rparr>)\<rparr>"

definition catalogs :: "state \<Rightarrow> TEXTURE_INFO list \<times> int \<times> OBJECT_MATERIAL list" where
  "catalogs s = (m_textureIDs s, m_loadedTextures s, m_objectMaterials s)"

definition catalogs_after :: "fault + state \<Rightarrow> (TEXTURE_INFO list \<times> int \<times> OBJECT_MATERIAL list) option" where
  "catalogs_after r = (case r of Inl e \<Rightarrow> None | Inr s \<Rightarrow> Some (catalogs s))"

section \<open>Properties\<close>

subsection \<open>The material catalog\<close>

lemma FindMaterial_loop_found: "FindMaterial_loop tg s index True m = m"
  by (subst FindMaterial_loop.simps) simp

lemma FindMaterial_loop_from:
  "i \<le> length (m_objectMaterials s) \<Longrightarrow>
   FindMaterial_loop tg s (int i) False m =
     (case List.find (\<lambda>e. mtag e = tg) (drop i (m_objectMaterials s)) of
        None \<Rightarrow> m
      | Some e \<Rightarrow> m\<lparr>diffuseColor := diffuseColor e, specularColor := specularColor e,
                     shininess := shininess e\<rparr>)"
proof (induction "length (m_objectMaterials s) - i" arbitrary: i)
  case 0
  then show ?case by (subst FindMaterial_loop.simps) simp
next
  case (Suc n)
  then have lt: "i < length (m_objectMaterials s)" by simp
  then have d: "drop i (m_objectMaterials s) = m_objectMaterials s ! i # drop (Suc i) (m_objectMaterials s)"
    by (simp add: Cons_nth_drop_Suc)
  show ?case
  proof (cases "mtag (m_objectMaterials s ! i) = tg")
    case True
    with lt d show ?thesis
      by (subst FindMaterial_loop.simps) (simp add: FindMaterial_loop_found)
  next
    case False
    from Suc have "n = length (m_objectMaterials s) - Suc i" by simp
    from Suc.hyps(1)[OF this] lt have "FindMaterial_loop tg s (int (Suc i)) False m =
     (case List.find (\<lambda>e. mtag e = tg) (drop (Suc i) (m_objectMaterials s)) of
        None \<Rightarrow> m
      | Some e \<Rightarrow> m\<lparr>diffuseColor := diffuseColor e, specularColor := specularColor e,
                     shininess := shininess e\<rparr>)" by simp
    with False lt d show ?thesis by (subst FindMaterial_loop.simps) (simp add: add.commute)
  qed
qed

lemma FindMaterial_eq:
  "FindMaterial tg m s =
     (m_objectMaterials s \<noteq> [],
      case List.find (\<lambda>e. mtag e = tg) (m_objectMaterials s) of
        None \<Rightarrow> m
      | Some e \<Rightarrow> m\<lparr>diffuseColor := diffuseColor e, specularColor := specularColor e,
                     shininess := shininess e\<rparr>)"
  using FindMaterial_loop_from[of 0 s tg m] by (simp add: FindMaterial_def)

lemma find_first_match:
  "i < length xs \<Longrightarrow> P (xs ! i) \<Longrightarrow> (\<forall>j<i. \<not> P (xs ! j)) \<Longrightarrow> List.find P xs = Some (xs ! i)"
  by (auto simp: find_Some_iff)

lemma find_no_match: "(\<forall>x\<in>set xs. \<not> P x) \<Longrightarrow> List.find P xs = None"
  by (simp add: find_None_iff)

lemma DefineObjectMaterials_catalog:
  "m_objectMaterials (DefineObjectMaterials s) =
     m_objectMaterials s @
       [\<lparr>diffuseColor = (0.8, 0.4, 0.8), specularColor = (0.2, 0.2, 0.2), shininess = 1.0, mtag = ''plastic''\<rparr>,
        \<lparr>diffuseColor = (0.6, 0.5, 0.2), specularColor = (0.1, 0.2, 0.2), shininess = 1.0, mtag = ''wood''\<rparr>,
        \<lparr>diffuseColor = (0.3, 0.3, 0.2), specularColor = (0.7, 0.7, 0.8), shininess = 8.0, mtag = ''metal''\<rparr>,
        \<lparr>diffuseColor = (0.3, 0.3, 0.2), specularColor = (0.9, 0.9, 0.8), shininess = 10.0, mtag = ''glass''\<rparr>,
        \<lparr>diffuseColor = (0.5, 0.5, 0.5), specularColor = (0.7, 0.7, 0.7), shininess = 6.0, mtag = ''tile''\<rparr>,
        \<lparr>diffuseColor = (0.5, 0.5, 0.5), specularColor = (0.73, 0.3, 0.3), shininess = 6.0, mtag = ''stone''\<rparr>]"
  by (simp add: DefineObjectMaterials_def Let_def)

lemma DefineObjectMaterials_other:
  "DefineObjectMaterials s = s\<lparr>m_objectMaterials := m_objectMaterials (DefineObjectMaterials s)\<rparr>"
  by (simp add: DefineObjectMaterials_def Let_def)

text \<open>
  Claim C2. \<open>FindMaterial\<close> returns false exactly when the material catalog is empty.
  On a catalog in which no entry has the tag it still returns true and leaves the
  out-parameter as it was. When an entry has the tag, the diffuse colour, the specular
  colour and the shininess of the first such entry are copied into the out-parameter
  (its tag is not assigned). After \<open>DefineObjectMaterials\<close> on a newly constructed manager
  the lookup of \<open>stone\<close> gives diffuse (0.5, 0.5, 0.5), specular (0.73, 0.3, 0.3) and
  shininess 6.0, and the lookup of \<open>wood\<close> gives diffuse (0.6, 0.5, 0.2).
\<close>

theorem FindMaterial_catalog_lookup:
  "fst (FindMaterial tg m s) = (m_objectMaterials s \<noteq> [])
   \<and> ((\<forall>e\<in>set (m_objectMaterials s). mtag e \<noteq> tg) \<longrightarrow> snd (FindMaterial tg m s) = m)
   \<and> (\<forall>i. i < length (m_objectMaterials s) \<and> mtag (m_objectMaterials s ! i) = tg
          \<and> (\<forall>j<i. mtag (m_objectMaterials s ! j) \<noteq> tg) \<longrightarrow>
        snd (FindMaterial tg m s) =
          m\<lparr>diffuseColor := diffuseColor (m_objectMaterials s ! i),
            specularColor := specularColor (m_objectMaterials s ! i),
            shininess := shininess (m_objectMaterials s ! i)\<rparr>)
   \<and> FindMaterial ''stone'' m (DefineObjectMaterials (SceneManager p s)) =
        (True, m\<lparr>diffuseColor := (0.5, 0.5, 0.5), specularColor := (0.73, 0.3, 0.3),
                 shininess := 6.0\<rparr>)
   \<and> FindMaterial ''wood'' m (DefineObjectMaterials (SceneManager p s)) =
        (True, m\<lparr>diffuseColor := (0.6, 0.5, 0.2), specularColor := (0.1, 0.2, 0.2),
                 shininess := 1.0\<rparr>)"
proof (intro conjI allI impI)
  show "fst (FindMaterial tg m s) = (m_objectMaterials s \<noteq> [])"
    by (simp add: FindMaterial_eq)
next
  assume "\<forall>e\<in>set (m_objectMaterials s). mtag e \<noteq> tg"
  then have "List.find (\<lambda>e. mtag e = tg) (m_objectMaterials s) = None"
    by (simp add: find_None_iff)
  then show "snd (FindMaterial tg m s) = m"
    by (simp add: FindMaterial_eq)
next
  fix i
  assume a: "i < length (m_objectMaterials s) \<and> mtag (m_objectMaterials s ! i) = tg
          \<and> (\<forall>j<i. mtag (m_objectMaterials s ! j) \<noteq> tg)"
  then have "List.find (\<lambda>e. mtag e = tg) (m_objectMaterials s) = Some (m_objectMaterials s ! i)"
    using find_first_match[of i "m_objectMaterials s" "\<lambda>e. mtag e = tg"] by simp
  then show "snd (FindMaterial tg m s) =
          m\<lparr>diffuseColor := diffuseColor (m_objectMaterials s ! i),
            specularColor := specularColor (m_objectMaterials s ! i),
            shininess := shininess (m_objectMaterials s ! i)\<rparr>"
    by (simp add: FindMaterial_eq)
next
  show "FindMaterial ''stone'' m (DefineObjectMaterials (SceneManager p s)) =
        (True, m\<lparr>diffuseColor := (0.5, 0.5, 0.5), specularColor := (0.73, 0.3, 0.3),
                 shininess := 6.0\<rparr>)"
    by (simp add: FindMaterial_eq DefineObjectMaterials_catalog SceneManager_def)
next
  show "FindMaterial ''wood'' m (DefineObjectMaterials (SceneManager p s)) =
        (True, m\<lparr>diffuseColor := (0.6, 0.5, 0.2), specularColor := (0.1, 0.2, 0.2),
                 shininess := 1.0\<rparr>)"
    by (simp add: FindMaterial_eq DefineObjectMaterials_catalog SceneManager_def)
qed

text \<open>
  An instance: \<open>brick\<close> is no tag of the six materials, and \<open>glass\<close> is first found at
  index 3 when the six materials have been defined twice.
\<close>

theorem FindMaterial_catalog_lookup_witness:
  "snd (FindMaterial ''brick'' some_material (DefineObjectMaterials (SceneManager None fresh_state)))
     = some_material
   \<and> fst (FindMaterial ''brick'' some_material (DefineObjectMaterials (SceneManager None fresh_state)))
   \<and> \<not> fst (FindMaterial ''brick'' some_material (SceneManager None fresh_state))
   \<and> snd (FindMaterial ''glass'' some_material
            (DefineObjectMaterials (DefineObjectMaterials (SceneManager None fresh_state))))
     = some_material\<lparr>diffuseColor := (0.3, 0.3, 0.2), specularColor := (0.9, 0.9, 0.8),
                      shininess := 10.0\<rparr>"
proof -
  let ?s0 = "SceneManager None fresh_state"
  let ?s1 = "DefineObjectMaterials ?s0"
  let ?s2 = "DefineObjectMaterials ?s1"
  have c1: "m_objectMaterials ?s0 = []" by (simp add: SceneManager_def)
  have n1: "\<forall>e\<in>set (m_objectMaterials ?s1). mtag e \<noteq> ''brick''"
    by (simp add: DefineObjectMaterials_catalog c1)
  have f2: "3 < length (m_objectMaterials ?s2) \<and> mtag (m_objectMaterials ?s2 ! 3) = ''glass''
          \<and> (\<forall>j<3. mtag (m_objectMaterials ?s2 ! j) \<noteq> ''glass'')"
    by (simp add: DefineObjectMaterials_catalog c1 less_Suc_eq numeral_3_eq_3)
  have g: "m_objectMaterials ?s2 ! 3 =
     \<lparr>diffuseColor = (0.3, 0.3, 0.2), specularColor = (0.9, 0.9, 0.8), shininess = 10.0, mtag = ''glass''\<rparr>"
    by (simp add: DefineObjectMaterials_catalog c1)
  from FindMaterial_catalog_lookup[of "''brick''" some_material ?s1] n1
  have w1: "snd (FindMaterial ''brick'' some_material ?s1) = some_material"
    and w2: "fst (FindMaterial ''brick'' some_material ?s1)"
    by (simp_all add: DefineObjectMaterials_catalog)
  from FindMaterial_catalog_lookup[of "''brick''" some_material ?s0] c1
  have w3: "\<not> fst (FindMaterial ''brick'' some_material ?s0)" by simp
  from FindMaterial_catalog_lookup[of "''glass''" some_material ?s2] f2
  have w4: "snd (FindMaterial ''glass'' some_material ?s2) =
     some_material\<lparr>diffuseColor := diffuseColor (m_objectMaterials ?s2 ! 3),
            specularColor := specularColor (m_objectMaterials ?s2 ! 3),
            shininess := shininess (m_objectMaterials ?s2 ! 3)\<rparr>" by blast
  from w1 w2 w3 w4 g show ?thesis by simp
qed

subsection \<open>The texture lookups\<close>

lemma tex_at_inside:
  "0 \<le> i \<Longrightarrow> i < m_loadedTextures s \<Longrightarrow> m_loadedTextures s \<le> int (length (m_textureIDs s)) \<Longrightarrow>
   tex_at s i = Inr (m_textureIDs s ! nat i)"
  by (simp add: tex_at_def)

lemma FindTextureSlot_loop_done: "FindTextureSlot_loop tg s textureSlot index True = Inr textureSlot"
  by (subst FindTextureSlot_loop.simps) simp

lemma FindTextureID_loop_done: "FindTextureID_loop tg s textureID index True = Inr textureID"
  by (subst FindTextureID_loop.simps) simp

lemma FindTextureSlot_loop_miss:
  assumes "m_loadedTextures s \<le> int (length (m_textureIDs s))" and "0 \<le> k"
    and "\<forall>j. k \<le> j \<and> j < m_loadedTextures s \<longrightarrow> tag (m_textureIDs s ! nat j) \<noteq> tg"
  shows "FindTextureSlot_loop tg s textureSlot k False = Inr textureSlot"
  using assms
proof (induction "nat (m_loadedTextures s - k)" arbitrary: k)
  case 0
  then show ?case by (subst FindTextureSlot_loop.simps) simp
next
  case (Suc n)
  then have lt: "k < m_loadedTextures s" by linarith
  with Suc.prems have at: "tex_at s k = Inr (m_textureIDs s ! nat k)"
    by (simp add: tex_at_inside)
  from Suc.prems lt have ne: "tag (m_textureIDs s ! nat k) \<noteq> tg" by simp
  from Suc.hyps(2) have "n = nat (m_loadedTextures s - (k + 1))" by linarith
  from Suc.hyps(1)[OF this] Suc.prems
  have "FindTextureSlot_loop tg s textureSlot (k + 1) False = Inr textureSlot" by simp
  with lt at ne show ?case by (subst FindTextureSlot_loop.simps) simp
qed

lemma FindTextureSlot_loop_hit:
  assumes "m_loadedTextures s \<le> int (length (m_textureIDs s))" and "0 \<le> k" and "k \<le> i"
    and "i < m_loadedTextures s" and "tag (m_textureIDs s ! nat i) = tg"
    and "\<forall>j. k \<le> j \<and> j < i \<longrightarrow> tag (m_textureIDs s ! nat j) \<noteq> tg"
  shows "FindTextureSlot_loop tg s textureSlot k False = Inr i"
  using assms
proof (induction "nat (i - k)" arbitrary: k)
  case 0
  then have "k = i" by linarith
  with 0 have at: "tex_at s k = Inr (m_textureIDs s ! nat k)" by (simp add: tex_at_inside)
  with 0 \<open>k = i\<close> show ?case
    by (subst FindTextureSlot_loop.simps) (simp add: FindTextureSlot_loop_done)
next
  case (Suc n)
  then have lt: "k < i" by linarith
  with Suc.prems have at: "tex_at s k = Inr (m_textureIDs s ! nat k)"
    by (simp add: tex_at_inside)
  from Suc.prems lt have ne: "tag (m_textureIDs s ! nat k) \<noteq> tg" by simp
  from Suc.hyps(2) have "n = nat (i - (k + 1))" by linarith
  from Suc.hyps(1)[OF this] Suc.prems lt
  have "FindTextureSlot_loop tg s textureSlot (k + 1) False = Inr i" by simp
  with lt at ne Suc.prems show ?case by (subst FindTextureSlot_loop.simps) simp
qed

lemma FindTextureID_loop_miss:
  assumes "m_loadedTextures s \<le> int (length (m_textureIDs s))" and "0 \<le> k"
    and "\<forall>j. k \<le> j \<and> j < m_loadedTextures s \<longrightarrow> tag (m_textureIDs s ! nat j) \<noteq> tg"
  shows "FindTextureID_loop tg s textureID k False = Inr textureID"
  using assms
proof (induction "nat (m_loadedTextures s - k)" arbitrary: k)
  case 0
  then show ?case by (subst FindTextureID_loop.simps) simp
next
  case (Suc n)
  then have lt: "k < m_loadedTextures s" by linarith
  with Suc.prems have at: "tex_at s k = Inr (m_textureIDs s ! nat k)"
    by (simp add: tex_at_inside)
  from Suc.prems lt have ne: "tag (m_textureIDs s ! nat k) \<noteq> tg" by simp
  from Suc.hyps(2) have "n = nat (m_loadedTextures s - (k + 1))" by linarith
  from Suc.hyps(1)[OF this] Suc.prems
  have "FindTextureID_loop tg s textureID (k + 1) False = Inr textureID" by simp
  with lt at ne show ?case by (subst FindTextureID_loop.simps) simp
qed

lemma FindTextureID_loop_hit:
  assumes "m_loadedTextures s \<le> int (length (m_textureIDs s))" and "0 \<le> k" and "k \<le> i"
    and "i < m_loadedTextures s" and "tag (m_textureIDs s ! nat i) = tg"
    and "\<forall>j. k \<le> j \<and> j < i \<longrightarrow> tag (m_textureIDs s ! nat j) \<noteq> tg"
  shows "FindTextureID_loop tg s textureID k False = Inr (sint (ID (m_textureIDs s ! nat i)))"
  using assms
proof (induction "nat (i - k)" arbitrary: k)
  case 0
  then have "k = i" by linarith
  with 0 have at: "tex_at s k = Inr (m_textureIDs s ! nat k)" by (simp add: tex_at_inside)
  with 0 \<open>k = i\<close> show ?case
    by (subst FindTextureID_loop.simps) (simp add: FindTextureID_loop_done)
next
  case (Suc n)
  then have lt: "k < i" by linarith
  with Suc.prems have at: "tex_at s k = Inr (m_textureIDs s ! nat k)"
    by (simp add: tex_at_inside)
  from Suc.prems lt have ne: "tag (m_textureIDs s ! nat k) \<noteq> tg" by simp
  from Suc.hyps(2) have "n = nat (i - (k + 1))" by linarith
  from Suc.hyps(1)[OF this] Suc.prems lt
  have "FindTextureID_loop tg s textureID (k + 1) False = Inr (sint (ID (m_textureIDs s ! nat i)))"
    by simp
  with lt at ne Suc.prems show ?case by (subst FindTextureID_loop.simps) simp
qed

text \<open>Every tag either occurs below the count, with a least index, or does not.\<close>

lemma least_index:
  fixes n :: int
  assumes "\<exists>j. 0 \<le> j \<and> j < n \<and> P j"
  shows "\<exists>i. 0 \<le> i \<and> i < n \<and> P i \<and> (\<forall>j. 0 \<le> j \<and> j < i \<longrightarrow> \<not> P j)"
proof -
  from assms obtain j where j: "0 \<le> j" "j < n" "P j" by blast
  define Q where "Q k = (P (int k))" for k
  from j have "Q (nat j)" by (simp add: Q_def)
  then have "Q (LEAST k. Q k)" and "\<forall>k. k < (LEAST k. Q k) \<longrightarrow> \<not> Q k" and "(LEAST k. Q k) \<le> nat j"
    by (auto intro: LeastI dest: not_less_Least simp: Least_le)
  with j show ?thesis
    apply (intro exI[of _ "int (LEAST k. Q k)"])
    apply (auto simp: Q_def)
    apply (metis nat_less_iff nat_0_le int_nat_eq)
    done
qed

lemma below_three: "0 \<le> j \<and> j < (3::int) \<longleftrightarrow> j = 0 \<or> j = 1 \<or> j = 2"
  by arith

text \<open>
  Claim C9. With the count within the array: for a tag that no loaded entry has,
  \<open>FindTextureID\<close> and \<open>FindTextureSlot\<close> both return -1; for a tag that some loaded entry
  has, \<open>FindTextureSlot\<close> returns the least index with that tag and \<open>FindTextureID\<close> the
  handle stored at that index (read as an \<open>int\<close>). Both are functions of the state that
  yield a value only: their bodies assign no member and make no call to the outside.
\<close>

theorem texture_lookup_first_match:
  assumes "m_loadedTextures s \<le> int (length (m_textureIDs s))"
  shows "((\<forall>j. 0 \<le> j \<and> j < m_loadedTextures s \<longrightarrow> tag (m_textureIDs s ! nat j) \<noteq> tg) \<longrightarrow>
            FindTextureID tg s = Inr (- 1) \<and> FindTextureSlot tg s = Inr (- 1))
       \<and> (\<forall>i. 0 \<le> i \<and> i < m_loadedTextures s \<and> tag (m_textureIDs s ! nat i) = tg
              \<and> (\<forall>j. 0 \<le> j \<and> j < i \<longrightarrow> tag (m_textureIDs s ! nat j) \<noteq> tg) \<longrightarrow>
            FindTextureSlot tg s = Inr i
            \<and> FindTextureID tg s = Inr (sint (ID (m_textureIDs s ! nat i))))"
proof (intro conjI allI impI)
  assume "\<forall>j. 0 \<le> j \<and> j < m_loadedTextures s \<longrightarrow> tag (m_textureIDs s ! nat j) \<noteq> tg"
  with assms show "FindTextureID tg s = Inr (- 1)"
    unfolding FindTextureID_def by (intro FindTextureID_loop_miss) simp_all
next
  assume "\<forall>j. 0 \<le> j \<and> j < m_loadedTextures s \<longrightarrow> tag (m_textureIDs s ! nat j) \<noteq> tg"
  with assms show "FindTextureSlot tg s = Inr (- 1)"
    unfolding FindTextureSlot_def by (intro FindTextureSlot_loop_miss) simp_all
next
  fix i
  assume "0 \<le> i \<and> i < m_loadedTextures s \<and> tag (m_textureIDs s ! nat i) = tg
              \<and> (\<forall>j. 0 \<le> j \<and> j < i \<longrightarrow> tag (m_textureIDs s ! nat j) \<noteq> tg)"
  with assms show "FindTextureSlot tg s = Inr i"
    unfolding FindTextureSlot_def by (intro FindTextureSlot_loop_hit) simp_all
next
  fix i
  assume "0 \<le> i \<and> i < m_loadedTextures s \<and> tag (m_textureIDs s ! nat i) = tg
              \<and> (\<forall>j. 0 \<le> j \<and> j < i \<longrightarrow> tag (m_textureIDs s ! nat j) \<noteq> tg)"
  with assms show "FindTextureID tg s = Inr (sint (ID (m_textureIDs s ! nat i)))"
    unfolding FindTextureID_def by (intro FindTextureID_loop_hit) simp_all
qed

text \<open>
  An instance: three loaded textures, two of them tagged \<open>pasta\<close> (at 1 and 2), none
  tagged \<open>jar\<close>.
\<close>

theorem texture_lookup_first_match_witness:
  "FindTextureSlot ''pasta'' three_textures = Inr 1
   \<and> FindTextureID ''pasta'' three_textures = Inr 9
   \<and> FindTextureSlot ''jar'' three_textures = Inr (- 1)
   \<and> FindTextureID ''jar'' three_textures = Inr (- 1)"
proof -
  have wf: "m_loadedTextures three_textures \<le> int (length (m_textureIDs three_textures))"
    by (simp add: three_textures_def fresh_state_def)
  have n: "m_loadedTextures three_textures = 3"
    by (simp add: three_textures_def fresh_state_def)
  have miss: "\<forall>j. 0 \<le> j \<and> j < m_loadedTextures three_textures \<longrightarrow>
                tag (m_textureIDs three_textures ! nat j) \<noteq> ''jar''"
    unfolding n below_three by (auto simp: three_textures_def fresh_state_def)
  have hit: "0 \<le> (1::int) \<and> 1 < m_loadedTextures three_textures
       \<and> tag (m_textureIDs three_textures ! nat 1) = ''pasta''
       \<and> (\<forall>j. 0 \<le> j \<and> j < 1 \<longrightarrow> tag (m_textureIDs three_textures ! nat j) \<noteq> ''pasta'')"
  proof -
    have "\<And>j::int. 0 \<le> j \<and> j < 1 \<Longrightarrow> j = 0" by arith
    then show ?thesis by (auto simp: three_textures_def fresh_state_def)
  qed
  have h9: "sint (ID (m_textureIDs three_textures ! nat 1)) = 9"
    by (simp add: three_textures_def fresh_state_def)
  from texture_lookup_first_match[OF wf, of "''jar''"] miss
  have a: "FindTextureID ''jar'' three_textures = Inr (- 1)"
    and b: "FindTextureSlot ''jar'' three_textures = Inr (- 1)" by blast+
  from texture_lookup_first_match[OF wf, of "''pasta''"] hit
  have c: "FindTextureSlot ''pasta'' three_textures = Inr 1"
    and d: "FindTextureID ''pasta'' three_textures = Inr (sint (ID (m_textureIDs three_textures ! nat 1)))"
    by blast+
  from a b c d h9 show ?thesis by simp
qed

subsection \<open>Uploads without a shader manager\<close>

lemma SetTransformations_null:
  "m_pShaderManager s = None \<Longrightarrow> SetTransformations sc rx ry rz pos s = s"
  by (simp add: SetTransformations_def Let_def)

lemma SetShaderColor_null: "m_pShaderManager s = None \<Longrightarrow> SetShaderColor r g b a s = s"
  by (simp add: SetShaderColor_def Let_def)

lemma SetShaderTexture_null: "m_pShaderManager s = None \<Longrightarrow> SetShaderTexture tg s = Inr s"
  by (simp add: SetShaderTexture_def)

lemma SetTextureUVScale_null: "m_pShaderManager s = None \<Longrightarrow> SetTextureUVScale u v s = s"
  by (simp add: SetTextureUVScale_def)

lemma SetShaderMaterial_null:
  "m_pShaderManager s = None \<Longrightarrow>
   SetShaderMaterial tg uninit s = (if m_objectMaterials s = [] then Inr s else Inl NullDereference)"
  by (simp add: SetShaderMaterial_def FindMaterial_eq)

text \<open>
  Claim C3. Without a shader manager, \<open>SetTransformations\<close>, \<open>SetShaderColor\<close>,
  \<open>SetShaderTexture\<close> and \<open>SetTextureUVScale\<close> test the pointer and return with the state
  as it was. \<open>SetShaderMaterial\<close> does not test the pointer: it returns with the state as
  it was only on an empty material catalog, and on any other catalog it calls through
  the null pointer.
\<close>

theorem uploads_without_shader:
  assumes "m_pShaderManager s = None"
  shows "SetTransformations sc rx ry rz pos s = s
       \<and> SetShaderColor r g b a s = s
       \<and> SetShaderTexture textureTag s = Inr s
       \<and> SetTextureUVScale u v s = s
       \<and> SetShaderMaterial materialTag uninit s =
           (if m_objectMaterials s = [] then Inr s else Inl NullDereference)"
  using assms
  by (simp add: SetTransformations_null SetShaderColor_null SetShaderTexture_null
      SetTextureUVScale_null SetShaderMaterial_null)

text \<open>
  The failing input: a manager constructed with a null shader manager, its materials
  defined, asked to upload the material \<open>stone\<close>.
\<close>

theorem uploads_without_shader_witness:
  "SetShaderMaterial ''stone'' some_material
     (DefineObjectMaterials (SceneManager None fresh_state)) = Inl NullDereference
   \<and> SetShaderTexture ''wall'' (DefineObjectMaterials (SceneManager None fresh_state))
       = Inr (DefineObjectMaterials (SceneManager None fresh_state))"
proof -
  let ?s = "DefineObjectMaterials (SceneManager None fresh_state)"
  have null: "m_pShaderManager ?s = None"
    by (simp add: DefineObjectMaterials_def SceneManager_def Let_def)
  have ne: "m_objectMaterials ?s \<noteq> []"
    by (simp add: DefineObjectMaterials_catalog)
  from uploads_without_shader[OF null, of _ _ _ _ _ _ _ _ _ "''wall''" _ _ "''stone''" some_material] ne
  show ?thesis by simp
qed

subsection \<open>Rendering without meshes\<close>

text \<open>
  Claim C7. With a null mesh pointer \<open>RenderScene\<close> writes one line to the error stream
  and returns: no draw call, no upload, no fault, and every member of the manager as
  it was. The same holds for the state it returns, so for every later call.
\<close>

theorem RenderScene_without_meshes:
  assumes "m_basicMeshes s = None"
  shows "RenderScene uninit s =
           Inr (s\<lparr>calls := calls s @ [cerr [S (''ERROR: m_basicMeshes is null!'' @ [CHR 0x0A])]]\<rparr>)
       \<and> m_basicMeshes
           (s\<lparr>calls := calls s @ [cerr [S (''ERROR: m_basicMeshes is null!'' @ [CHR 0x0A])]]\<rparr>) = None"
  using assms by (simp add: RenderScene_def emit_def)

text \<open>Two calls in a row on a manager without meshes: two lines, nothing else.\<close>

theorem RenderScene_without_meshes_witness:
  "RenderScene some_material fresh_state =
     Inr (fresh_state\<lparr>calls := [cerr [S (''ERROR: m_basicMeshes is null!'' @ [CHR 0x0A])]]\<rparr>)
   \<and> RenderScene some_material
       (fresh_state\<lparr>calls := [cerr [S (''ERROR: m_basicMeshes is null!'' @ [CHR 0x0A])]]\<rparr>) =
     Inr (fresh_state\<lparr>calls := [cerr [S (''ERROR: m_basicMeshes is null!'' @ [CHR 0x0A])],
                                cerr [S (''ERROR: m_basicMeshes is null!'' @ [CHR 0x0A])]]\<rparr>)"
proof -
  let ?s1 = "fresh_state\<lparr>calls := [cerr [S (''ERROR: m_basicMeshes is null!'' @ [CHR 0x0A])]]\<rparr>"
  have n0: "m_basicMeshes fresh_state = None" by (simp add: fresh_state_def)
  have n1: "m_basicMeshes ?s1 = None" by (simp add: fresh_state_def)
  from RenderScene_without_meshes[OF n0, of some_material]
       RenderScene_without_meshes[OF n1, of some_material]
  show ?thesis by (simp add: fresh_state_def)
qed

subsection \<open>Rendering with meshes\<close>

lemma FindTextureSlot_loop_calls:
  "FindTextureSlot_loop tg (s\<lparr>calls := cs\<rparr>) textureSlot index bFound =
   FindTextureSlot_loop tg s textureSlot index bFound"
proof (induction tg s textureSlot index bFound rule: FindTextureSlot_loop.induct)
  case (1 tg s textureSlot index bFound)
  have at: "tex_at (s\<lparr>calls := cs\<rparr>) index = tex_at s index" by (simp add: tex_at_def)
  show ?case
  proof (cases "index < m_loadedTextures s \<and> bFound = False")
    case False
    then show ?thesis
      by (subst FindTextureSlot_loop.simps, subst (2) FindTextureSlot_loop.simps) auto
  next
    case True
    show ?thesis
    proof (cases "tex_at s index")
      case (Inl e)
      with True at show ?thesis
        by (subst FindTextureSlot_loop.simps, subst (2) FindTextureSlot_loop.simps) simp
    next
      case (Inr t)
      with True at 1[OF True Inr] show ?thesis
        by (subst FindTextureSlot_loop.simps, subst (2) FindTextureSlot_loop.simps) simp
    qed
  qed
qed

lemma FindTextureSlot_emits: "FindTextureSlot tg (emits cs s) = FindTextureSlot tg s"
  by (simp add: FindTextureSlot_def emits_def FindTextureSlot_loop_calls)

lemma FindTextureSlot_emit: "FindTextureSlot tg (emit c s) = FindTextureSlot tg s"
  by (simp add: FindTextureSlot_def emit_def FindTextureSlot_loop_calls)

lemma FindTextureSlot_returns:
  assumes "m_loadedTextures s \<le> int (length (m_textureIDs s))"
  shows "\<exists>v. FindTextureSlot tg s = Inr v"
proof (cases "\<exists>j. 0 \<le> j \<and> j < m_loadedTextures s \<and> tag (m_textureIDs s ! nat j) = tg")
  case True
  from least_index[OF this] obtain i where
    "0 \<le> i" "i < m_loadedTextures s" "tag (m_textureIDs s ! nat i) = tg"
    "\<forall>j. 0 \<le> j \<and> j < i \<longrightarrow> tag (m_textureIDs s ! nat j) \<noteq> tg" by blast
  with assms have "FindTextureSlot tg s = Inr i"
    unfolding FindTextureSlot_def by (intro FindTextureSlot_loop_hit) simp_all
  then show ?thesis by blast
next
  case False
  with assms have "FindTextureSlot tg s = Inr (- 1)"
    unfolding FindTextureSlot_def by (intro FindTextureSlot_loop_miss) auto
  then show ?thesis by blast
qed

lemma FindMaterial_emits: "FindMaterial tg m (emits cs s) = FindMaterial tg m s"
  by (simp add: FindMaterial_eq emits_def)

lemma FindMaterial_emit: "FindMaterial tg m (emit c s) = FindMaterial tg m s"
  by (simp add: FindMaterial_eq emit_def)

lemma drawOne_calls_emits: "drawOne_calls uninit (emits cs s) c = drawOne_calls uninit s c"
  by (simp add: drawOne_calls_def material_uploads_def slot_of_def FindTextureSlot_emits
      FindMaterial_emits) (simp add: emits_def)

lemma emits_emits: "emits ys (emits xs s) = emits (xs @ ys) s"
  by (simp add: emits_def)

lemma emit_emits: "emit c (emits xs s) = emits (xs @ [c]) s"
  by (simp add: emits_def emit_def)

lemma emits_emit: "emits xs (emit c s) = emits (c # xs) s"
  by (simp add: emits_def emit_def)

lemma drawOne_with_shader:
  assumes sh: "m_pShaderManager s \<noteq> None"
    and wf: "m_loadedTextures s \<le> int (length (m_textureIDs s))"
  shows "drawOne uninit c s = Inr (emits (drawOne_calls uninit s c) s)"
proof -
  obtain rx ry rz where rot: "rotationDeg c = (rx, ry, rz)" by (cases "rotationDeg c") auto
  let ?s1 = "emit (setMat4Value ''model'' (model_matrix c)) s"
  have t: "SetTransformations (scale c) rx ry rz (translation c) s = ?s1"
    using sh by (simp add: SetTransformations_def Let_def model_matrix_def rot g_ModelName_def)
  let ?s2 = "emits (material_uploads uninit s (material c)) ?s1"
  have m: "SetShaderMaterial (material c) uninit ?s1 = Inr ?s2"
    using sh by (auto simp: SetShaderMaterial_def FindMaterial_emit material_uploads_def
        FindMaterial_eq emit_def emits_def)
  from FindTextureSlot_returns[OF wf] obtain v where v: "FindTextureSlot (texture c) s = Inr v"
    by blast
  then have sl: "slot_of (texture c) s = v" by (simp add: slot_of_def)
  have sh2: "m_pShaderManager ?s2 \<noteq> None" using sh by (simp add: emit_def emits_def)
  have x: "SetShaderTexture (texture c) ?s2 =
      Inr (emits [setIntValue ''bUseTexture'' 1, setSampler2DValue ''objectTexture'' v] ?s2)"
    using sh2 v
    by (simp add: SetShaderTexture_def Let_def FindTextureSlot_emit FindTextureSlot_emits
        g_UseTextureName_def g_TextureValueName_def emit_emits emits_emit emits_emits)
  show ?thesis
    by (simp add: drawOne_def rot t m x) (simp add: sl drawOne_calls_def emit_def emits_def)
qed

lemma draw_all_with_shader:
  assumes "m_pShaderManager s \<noteq> None"
    and "m_loadedTextures s \<le> int (length (m_textureIDs s))"
  shows "draw_all uninit cs s = Inr (emits (concat (map (drawOne_calls uninit s) cs)) s)"
  using assms
proof (induction cs arbitrary: s)
  case Nil
  then show ?case by (simp add: emits_def)
next
  case (Cons c cs)
  let ?s' = "emits (drawOne_calls uninit s c) s"
  have a: "m_pShaderManager ?s' \<noteq> None" using Cons.prems by (simp add: emits_def)
  have b: "m_loadedTextures ?s' \<le> int (length (m_textureIDs ?s'))"
    using Cons.prems by (simp add: emits_def)
  from Cons.IH[OF a b] drawOne_with_shader[OF Cons.prems, of uninit c]
  show ?case by (simp add: drawOne_calls_emits emits_emits)
qed

lemma RenderScene_with_shader:
  assumes "m_basicMeshes s \<noteq> None" and "m_pShaderManager s \<noteq> None"
    and "m_loadedTextures s \<le> int (length (m_textureIDs s))"
  shows "RenderScene uninit s = Inr (emits (concat (map (drawOne_calls uninit s) cmds)) s)"
  using assms by (auto simp: RenderScene_def draw_all_with_shader)






text \<open>
  An instance: the manager with three loaded textures (\<open>wall\<close> in slot 0), a shader
  manager attached and the six materials defined. The first seven calls are those of
  the wall plane.
\<close>

lemma ready_state_fields:
  "m_basicMeshes ready_state = Some ShapeMeshes"
  "m_pShaderManager ready_state = Some ShaderManager"
  "m_loadedTextures ready_state = 3"
  "m_textureIDs ready_state = m_textureIDs three_textures"
  "calls ready_state = []"
  by (simp_all add: ready_state_def DefineObjectMaterials_def SceneManager_def Let_def
      three_textures_def fresh_state_def)

lemma ready_state_materials:
  "m_objectMaterials ready_state =
       [\<lparr>diffuseColor = (0.8, 0.4, 0.8), specularColor = (0.2, 0.2, 0.2), shininess = 1.0, mtag = ''plastic''\<rparr>,
        \<lparr>diffuseColor = (0.6, 0.5, 0.2), specularColor = (0.1, 0.2, 0.2), shininess = 1.0, mtag = ''wood''\<rparr>,
        \<lparr>diffuseColor = (0.3, 0.3, 0.2), specularColor = (0.7, 0.7, 0.8), shininess = 8.0, mtag = ''metal''\<rparr>,
        \<lparr>diffuseColor = (0.3, 0.3, 0.2), specularColor = (0.9, 0.9, 0.8), shininess = 10.0, mtag = ''glass''\<rparr>,
        \<lparr>diffuseColor = (0.5, 0.5, 0.5), specularColor = (0.7, 0.7, 0.7), shininess = 6.0, mtag = ''tile''\<rparr>,
        \<lparr>diffuseColor = (0.5, 0.5, 0.5), specularColor = (0.73, 0.3, 0.3), shininess = 6.0, mtag = ''stone''\<rparr>]"
  by (simp add: ready_state_def DefineObjectMaterials_catalog SceneManager_def)





subsection \<open>Loading a texture\<close>

lemma CreateGLTexture_undecoded:
  assumes "files s filename = None"
  shows "CreateGLTexture filename tg s =
           Inr (False, emits [stbi_set_flip_vertically_on_load True, stbi_load filename,
                              cout [S ''Could not load image:'', S filename]] s)"
  using assms by (simp add: CreateGLTexture_def Let_def emits_def emit_def)

lemma CreateGLTexture_unsupported:
  assumes "files s filename = Some img" and "colorChannels img \<noteq> 3" and "colorChannels img \<noteq> 4"
  shows "\<exists>s'. CreateGLTexture filename tg s = Inr (False, s')
            \<and> m_textureIDs s' = m_textureIDs s \<and> m_loadedTextures s' = m_loadedTextures s
            \<and> m_objectMaterials s' = m_objectMaterials s"
  using assms by (simp add: CreateGLTexture_def Let_def emits_def emit_def)

lemma CreateGLTexture_registered:
  assumes "files s filename = Some img" and "colorChannels img = 3 \<or> colorChannels img = 4"
    and "0 \<le> m_loadedTextures s" and "nat (m_loadedTextures s) < length (m_textureIDs s)"
  shows "CreateGLTexture filename tg s =
           Inr (True,
             s\<lparr>m_textureIDs := (m_textureIDs s)[nat (m_loadedTextures s) :=
                                   \<lparr>ID = gl_names s (gl_generated s), tag = tg\<rparr>],
               m_loadedTextures := m_loadedTextures s + 1,
               gl_generated := gl_generated s + 1,
               calls := calls s @ CreateGLTexture_calls filename img (gl_names s (gl_generated s))\<rparr>)"
  using assms
  by (auto simp: CreateGLTexture_def register_texture_def Let_def emits_def emit_def
      CreateGLTexture_calls_def)

lemma CreateGLTexture_result:
  assumes "CreateGLTexture filename tg s = Inr (b, s')"
  shows "m_objectMaterials s' = m_objectMaterials s
       \<and> m_pShaderManager s' = m_pShaderManager s \<and> m_basicMeshes s' = m_basicMeshes s
       \<and> (if b
           then (\<exists>img. files s filename = Some img \<and> (colorChannels img = 3 \<or> colorChannels img = 4))
                \<and> 0 \<le> m_loadedTextures s \<and> nat (m_loadedTextures s) < length (m_textureIDs s)
                \<and> m_textureIDs s' = (m_textureIDs s)[nat (m_loadedTextures s) :=
                                        \<lparr>ID = gl_names s (gl_generated s), tag = tg\<rparr>]
                \<and> m_loadedTextures s' = m_loadedTextures s + 1
           else m_textureIDs s' = m_textureIDs s \<and> m_loadedTextures s' = m_loadedTextures s)"
  using assms
  by (auto simp: CreateGLTexture_def register_texture_def Let_def emits_def emit_def
      split: option.splits if_splits)

text \<open>
  Claim C5. When the file does not decode, or decodes to a channel count other than 3
  and 4, \<open>CreateGLTexture\<close> returns false with the texture array and the count as they
  were; more generally every false return leaves them so. A true return happens only
  for a decoded image of 3 or 4 channels, and then the entry at the old count is the
  generated handle with the tag, every other entry is as before, and the count is one
  more. With such an image and a free slot the call does return true.
\<close>

theorem CreateGLTexture_atomic:
  "((files s filename = None
      \<or> (\<exists>img. files s filename = Some img \<and> colorChannels img \<noteq> 3 \<and> colorChannels img \<noteq> 4)) \<longrightarrow>
      (\<exists>s'. CreateGLTexture filename tg s = Inr (False, s')
         \<and> m_textureIDs s' = m_textureIDs s \<and> m_loadedTextures s' = m_loadedTextures s))
   \<and> (\<forall>s'. CreateGLTexture filename tg s = Inr (False, s') \<longrightarrow>
         m_textureIDs s' = m_textureIDs s \<and> m_loadedTextures s' = m_loadedTextures s)
   \<and> (\<forall>s'. CreateGLTexture filename tg s = Inr (True, s') \<longrightarrow>
         (\<exists>img. files s filename = Some img \<and> (colorChannels img = 3 \<or> colorChannels img = 4))
         \<and> 0 \<le> m_loadedTextures s \<and> nat (m_loadedTextures s) < length (m_textureIDs s)
         \<and> m_textureIDs s' = (m_textureIDs s)[nat (m_loadedTextures s) :=
                                 \<lparr>ID = gl_names s (gl_generated s), tag = tg\<rparr>]
         \<and> m_loadedTextures s' = m_loadedTextures s + 1)
   \<and> ((\<exists>img. files s filename = Some img \<and> (colorChannels img = 3 \<or> colorChannels img = 4))
        \<and> 0 \<le> m_loadedTextures s \<and> nat (m_loadedTextures s) < length (m_textureIDs s) \<longrightarrow>
         (\<exists>s'. CreateGLTexture filename tg s = Inr (True, s')))"
proof -
  have undecoded: "(files s filename = None
      \<or> (\<exists>img. files s filename = Some img \<and> colorChannels img \<noteq> 3 \<and> colorChannels img \<noteq> 4)) \<longrightarrow>
      (\<exists>s'. CreateGLTexture filename tg s = Inr (False, s')
         \<and> m_textureIDs s' = m_textureIDs s \<and> m_loadedTextures s' = m_loadedTextures s)"
  proof
    assume "files s filename = None
      \<or> (\<exists>img. files s filename = Some img \<and> colorChannels img \<noteq> 3 \<and> colorChannels img \<noteq> 4)"
    then show "\<exists>s'. CreateGLTexture filename tg s = Inr (False, s')
         \<and> m_textureIDs s' = m_textureIDs s \<and> m_loadedTextures s' = m_loadedTextures s"
    proof
      assume "files s filename = None"
      then show ?thesis by (simp add: CreateGLTexture_undecoded emits_def)
    next
      assume "\<exists>img. files s filename = Some img \<and> colorChannels img \<noteq> 3 \<and> colorChannels img \<noteq> 4"
      then obtain img where "files s filename = Some img" "colorChannels img \<noteq> 3"
        "colorChannels img \<noteq> 4" by blast
      from CreateGLTexture_unsupported[OF this, of tg] show ?thesis by blast
    qed
  qed
  have refused: "\<forall>s'. CreateGLTexture filename tg s = Inr (False, s') \<longrightarrow>
         m_textureIDs s' = m_textureIDs s \<and> m_loadedTextures s' = m_loadedTextures s"
  proof (intro allI impI)
    fix s' assume "CreateGLTexture filename tg s = Inr (False, s')"
    from CreateGLTexture_result[OF this]
    show "m_textureIDs s' = m_textureIDs s \<and> m_loadedTextures s' = m_loadedTextures s"
      by simp
  qed
  have accepted: "\<forall>s'. CreateGLTexture filename tg s = Inr (True, s') \<longrightarrow>
         (\<exists>img. files s filename = Some img \<and> (colorChannels img = 3 \<or> colorChannels img = 4))
         \<and> 0 \<le> m_loadedTextures s \<and> nat (m_loadedTextures s) < length (m_textureIDs s)
         \<and> m_textureIDs s' = (m_textureIDs s)[nat (m_loadedTextures s) :=
                                 \<lparr>ID = gl_names s (gl_generated s), tag = tg\<rparr>]
         \<and> m_loadedTextures s' = m_loadedTextures s + 1"
  proof (intro allI impI)
    fix s' assume "CreateGLTexture filename tg s = Inr (True, s')"
    from CreateGLTexture_result[OF this]
    show "(\<exists>img. files s filename = Some img \<and> (colorChannels img = 3 \<or> colorChannels img = 4))
         \<and> 0 \<le> m_loadedTextures s \<and> nat (m_loadedTextures s) < length (m_textureIDs s)
         \<and> m_textureIDs s' = (m_textureIDs s)[nat (m_loadedTextures s) :=
                                 \<lparr>ID = gl_names s (gl_generated s), tag = tg\<rparr>]
         \<and> m_loadedTextures s' = m_loadedTextures s + 1"
      by simp
  qed
  have succeeds: "(\<exists>img. files s filename = Some img \<and> (colorChannels img = 3 \<or> colorChannels img = 4))
        \<and> 0 \<le> m_loadedTextures s \<and> nat (m_loadedTextures s) < length (m_textureIDs s) \<longrightarrow>
         (\<exists>s'. CreateGLTexture filename tg s = Inr (True, s'))"
  proof
    assume "(\<exists>img. files s filename = Some img \<and> (colorChannels img = 3 \<or> colorChannels img = 4))
        \<and> 0 \<le> m_loadedTextures s \<and> nat (m_loadedTextures s) < length (m_textureIDs s)"
    then obtain img where "files s filename = Some img"
      "colorChannels img = 3 \<or> colorChannels img = 4"
      "0 \<le> m_loadedTextures s" "nat (m_loadedTextures s) < length (m_textureIDs s)" by blast
    from CreateGLTexture_registered[OF this, of tg]
    show "\<exists>s'. CreateGLTexture filename tg s = Inr (True, s')" by blast
  qed
  show ?thesis
    by (rule conjI[OF undecoded conjI[OF refused conjI[OF accepted succeeds]]])
qed

text \<open>
  An instance on the disk above: a missing file and a grey-scale file are refused with
  the catalog untouched; the wall texture is registered in slot 0 under the first name
  of the driver.
\<close>

lemma sixteen_slots: "replicate 16 a = a # a # a # replicate 13 a"
  by (simp add: numeral_eq_Suc)

theorem CreateGLTexture_atomic_witness:
  "flag_of (CreateGLTexture ''textures/missing.png'' ''missing'' with_disk) = Some False
   \<and> catalog_of (CreateGLTexture ''textures/missing.png'' ''missing'' with_disk) = ([], 0)
   \<and> flag_of (CreateGLTexture ''textures/grey.png'' ''grey'' with_disk) = Some False
   \<and> catalog_of (CreateGLTexture ''textures/grey.png'' ''grey'' with_disk) = ([], 0)
   \<and> flag_of (CreateGLTexture ''textures/wall.png'' ''wall'' with_disk) = Some True
   \<and> catalog_of (CreateGLTexture ''textures/wall.png'' ''wall'' with_disk) = ([(1, ''wall'')], 1)"
proof -
  have f: "m_loadedTextures with_disk = 0" "m_textureIDs with_disk = replicate 16 \<lparr>ID = 0, tag = []\<rparr>"
    "files with_disk = disk" "gl_names with_disk (gl_generated with_disk) = 1"
    by (simp_all add: with_disk_def fresh_state_def)
  have d1: "files with_disk ''textures/missing.png'' = None"
    by (simp add: f disk_def scene_textures_def)
  have d2: "\<exists>img. files with_disk ''textures/grey.png'' = Some img
              \<and> colorChannels img \<noteq> 3 \<and> colorChannels img \<noteq> 4"
    by (simp add: f disk_def scene_textures_def)
  have d3: "(\<exists>img. files with_disk ''textures/wall.png'' = Some img
               \<and> (colorChannels img = 3 \<or> colorChannels img = 4))
            \<and> 0 \<le> m_loadedTextures with_disk
            \<and> nat (m_loadedTextures with_disk) < length (m_textureIDs with_disk)"
    by (simp add: f disk_def scene_textures_def)
  from CreateGLTexture_atomic[of with_disk "''textures/missing.png''" "''missing''"] d1
  obtain s1 where s1: "CreateGLTexture ''textures/missing.png'' ''missing'' with_disk = Inr (False, s1)"
    "m_textureIDs s1 = m_textureIDs with_disk" "m_loadedTextures s1 = m_loadedTextures with_disk"
    by blast
  from CreateGLTexture_atomic[of with_disk "''textures/grey.png''" "''grey''"] d2
  obtain s2 where s2: "CreateGLTexture ''textures/grey.png'' ''grey'' with_disk = Inr (False, s2)"
    "m_textureIDs s2 = m_textureIDs with_disk" "m_loadedTextures s2 = m_loadedTextures with_disk"
    by blast
  from CreateGLTexture_atomic[of with_disk "''textures/wall.png''" "''wall''"] d3
  obtain s3 where s3: "CreateGLTexture ''textures/wall.png'' ''wall'' with_disk = Inr (True, s3)"
    by blast
  with CreateGLTexture_atomic[of with_disk "''textures/wall.png''" "''wall''"]
  have s3': "m_textureIDs s3 = (m_textureIDs with_disk)[nat (m_loadedTextures with_disk) :=
                                 \<lparr>ID = gl_names with_disk (gl_generated with_disk), tag = ''wall''\<rparr>]"
    "m_loadedTextures s3 = m_loadedTextures with_disk + 1" by blast+
  from s1 s2 s3 s3' show ?thesis
    by (simp add: flag_of_def catalog_of_def f sixteen_slots)
qed

subsection \<open>Binding and regenerating\<close>

lemma bind_calls_emits: "bind_calls (emits cs s) = bind_calls s"
  by (simp add: fun_eq_iff bind_calls_def emits_def)

lemma BindGLTextures_from_run:
  assumes "0 \<le> i" and "m_loadedTextures s \<le> int (length (m_textureIDs s))"
  shows "BindGLTextures_from i s =
           Inr (emits (concat (map (bind_calls s) [nat i..<nat (m_loadedTextures s)])) s)"
  using assms
proof (induction "nat (m_loadedTextures s - i)" arbitrary: i s)
  case 0
  then have "\<not> i < m_loadedTextures s" by simp
  then show ?case by (subst BindGLTextures_from.simps) (simp add: emits_def)
next
  case (Suc n)
  then have lt: "i < m_loadedTextures s" by linarith
  with Suc.prems have at: "tex_at s i = Inr (m_textureIDs s ! nat i)"
    by (simp add: tex_at_inside)
  let ?s' = "emits [glActiveTexture i, glBindTexture (ID (m_textureIDs s ! nat i))] s"
  have f: "m_loadedTextures ?s' = m_loadedTextures s" "m_textureIDs ?s' = m_textureIDs s"
    by (simp_all add: emits_def)
  from Suc.hyps(2) have n: "n = nat (m_loadedTextures ?s' - (i + 1))" by (simp add: f)
  have ih: "BindGLTextures_from (i + 1) ?s' =
      Inr (emits (concat (map (bind_calls ?s') [nat (i + 1)..<nat (m_loadedTextures ?s')])) ?s')"
    by (rule Suc.hyps(1)[OF n]) (use Suc.prems in \<open>simp_all add: f\<close>)
  from lt Suc.prems have up: "[nat i..<nat (m_loadedTextures s)] =
      nat i # [nat (i + 1)..<nat (m_loadedTextures s)]"
    by (simp add: upt_conv_Cons nat_add_distrib)
  from Suc.prems have first: "bind_calls s (nat i) =
      [glActiveTexture i, glBindTexture (ID (m_textureIDs s ! nat i))]"
    by (simp add: bind_calls_def)
  show ?case
    apply (subst BindGLTextures_from.simps)
    apply (simp only: lt at if_True sum.case ih)
    apply (simp only: bind_calls_emits f up list.map concat.simps first emits_emits)
    done
qed

lemma BindGLTextures_run:
  assumes "m_loadedTextures s \<le> int (length (m_textureIDs s))"
  shows "BindGLTextures s =
           Inr (emits (concat (map (bind_calls s) [0..<nat (m_loadedTextures s)])) s)"
  using BindGLTextures_from_run[of 0 s] assms by (simp add: BindGLTextures_def)

lemma BindGLTextures_from_members:
  "BindGLTextures_from i s = Inr s' \<Longrightarrow> s' = s\<lparr>calls := calls s'\<rparr>"
proof (induction i s rule: BindGLTextures_from.induct)
  case (1 i s)
  show ?case
  proof (cases "i < m_loadedTextures s")
    case False
    with "1.prems" show ?thesis by (subst (asm) BindGLTextures_from.simps) simp
  next
    case True
    show ?thesis
    proof (cases "tex_at s i")
      case (Inl e)
      with True "1.prems" show ?thesis by (subst (asm) BindGLTextures_from.simps) simp
    next
      case (Inr t)
      with True "1.prems"
      have "BindGLTextures_from (i + 1) (emits [glActiveTexture i, glBindTexture (ID t)] s) = Inr s'"
        by (subst (asm) BindGLTextures_from.simps) simp
      from "1.IH"[OF True Inr this] show ?thesis
        by (simp add: emits_def)
    qed
  qed
qed

lemma DestroyGLTextures_from_run:
  assumes "0 \<le> i" and "m_loadedTextures s \<le> int (length (m_textureIDs s))"
  shows "\<exists>s'. DestroyGLTextures_from i s = Inr s'
            \<and> s' = s\<lparr>m_textureIDs := m_textureIDs s', gl_generated := gl_generated s',
                       calls := calls s'\<rparr>
            \<and> calls s' = calls s @ map (\<lambda>k. glGenTextures (gl_names s (gl_generated s + k)))
                                      [0..<nat (m_loadedTextures s) - nat i]
            \<and> gl_generated s' = gl_generated s + (nat (m_loadedTextures s) - nat i)
            \<and> length (m_textureIDs s') = length (m_textureIDs s)
            \<and> (\<forall>j<length (m_textureIDs s). m_textureIDs s' ! j =
                  (if nat i \<le> j \<and> j < nat (m_loadedTextures s)
                   then (m_textureIDs s ! j)\<lparr>ID := gl_names s (gl_generated s + (j - nat i))\<rparr>
                   else m_textureIDs s ! j))"
  using assms
proof (induction "nat (m_loadedTextures s - i)" arbitrary: i s)
  case 0
  then have "\<not> i < m_loadedTextures s" by simp
  moreover from this "0.prems" have "nat (m_loadedTextures s) \<le> nat i" by simp
  ultimately show ?case by (subst DestroyGLTextures_from.simps) auto
next
  case (Suc n)
  then have lt: "i < m_loadedTextures s" by linarith
  with Suc.prems have at: "tex_at s i = Inr (m_textureIDs s ! nat i)"
    by (simp add: tex_at_inside)
  define name where "name = gl_names s (gl_generated s)"
  define s1 where "s1 = emit (glGenTextures name)
      (s\<lparr>m_textureIDs := (m_textureIDs s)[nat i := (m_textureIDs s ! nat i)\<lparr>ID := name\<rparr>],
         gl_generated := gl_generated s + 1\<rparr>)"
  have f: "m_loadedTextures s1 = m_loadedTextures s"
    "m_textureIDs s1 = (m_textureIDs s)[nat i := (m_textureIDs s ! nat i)\<lparr>ID := name\<rparr>]"
    "gl_generated s1 = gl_generated s + 1" "gl_names s1 = gl_names s"
    "calls s1 = calls s @ [glGenTextures name]"
    by (simp_all add: s1_def emit_def)
  have step: "DestroyGLTextures_from i s = DestroyGLTextures_from (i + 1) s1"
    using lt at by (subst DestroyGLTextures_from.simps) (simp add: Let_def s1_def name_def)
  from Suc.hyps(2) have n: "n = nat (m_loadedTextures s1 - (i + 1))" by (simp add: f)
  have "\<exists>s'. DestroyGLTextures_from (i + 1) s1 = Inr s'
            \<and> s' = s1\<lparr>m_textureIDs := m_textureIDs s', gl_generated := gl_generated s',
                       calls := calls s'\<rparr>
            \<and> calls s' = calls s1 @ map (\<lambda>k. glGenTextures (gl_names s1 (gl_generated s1 + k)))
                                      [0..<nat (m_loadedTextures s1) - nat (i + 1)]
            \<and> gl_generated s' = gl_generated s1 + (nat (m_loadedTextures s1) - nat (i + 1))
            \<and> length (m_textureIDs s') = length (m_textureIDs s1)
            \<and> (\<forall>j<length (m_textureIDs s1). m_textureIDs s' ! j =
                  (if nat (i + 1) \<le> j \<and> j < nat (m_loadedTextures s1)
                   then (m_textureIDs s1 ! j)\<lparr>ID := gl_names s1 (gl_generated s1 + (j - nat (i + 1)))\<rparr>
                   else m_textureIDs s1 ! j))"
    by (rule Suc.hyps(1)[OF n]) (use Suc.prems in \<open>simp_all add: f\<close>)
  then obtain s' where r: "DestroyGLTextures_from (i + 1) s1 = Inr s'"
    and m: "s' = s1\<lparr>m_textureIDs := m_textureIDs s', gl_generated := gl_generated s',
                       calls := calls s'\<rparr>"
    and c: "calls s' = calls s1 @ map (\<lambda>k. glGenTextures (gl_names s1 (gl_generated s1 + k)))
                                      [0..<nat (m_loadedTextures s1) - nat (i + 1)]"
    and g: "gl_generated s' = gl_generated s1 + (nat (m_loadedTextures s1) - nat (i + 1))"
    and l: "length (m_textureIDs s') = length (m_textureIDs s1)"
    and e: "\<forall>j<length (m_textureIDs s1). m_textureIDs s' ! j =
                  (if nat (i + 1) \<le> j \<and> j < nat (m_loadedTextures s1)
                   then (m_textureIDs s1 ! j)\<lparr>ID := gl_names s1 (gl_generated s1 + (j - nat (i + 1)))\<rparr>
                   else m_textureIDs s1 ! j)"
    by blast
  from lt Suc.prems have d: "nat (m_loadedTextures s) - nat i = Suc (nat (m_loadedTextures s) - nat (i + 1))"
    and i1: "nat (i + 1) = Suc (nat i)" and ilt: "nat i < nat (m_loadedTextures s)"
    by linarith+
  have m': "s' = s\<lparr>m_textureIDs := m_textureIDs s', gl_generated := gl_generated s',
                       calls := calls s'\<rparr>"
    by (subst m) (simp add: s1_def emit_def)
  have c': "calls s' = calls s @ map (\<lambda>k. glGenTextures (gl_names s (gl_generated s + k)))
                                      [0..<nat (m_loadedTextures s) - nat i]"
    unfolding c f d by (simp add: name_def upt_rec[of 0] map_Suc_upt[symmetric] del: upt_Suc)
  have g': "gl_generated s' = gl_generated s + (nat (m_loadedTextures s) - nat i)"
    unfolding g f d by simp
  have l': "length (m_textureIDs s') = length (m_textureIDs s)"
    unfolding l f by simp
  have e': "\<forall>j<length (m_textureIDs s). m_textureIDs s' ! j =
                  (if nat i \<le> j \<and> j < nat (m_loadedTextures s)
                   then (m_textureIDs s ! j)\<lparr>ID := gl_names s (gl_generated s + (j - nat i))\<rparr>
                   else m_textureIDs s ! j)"
  proof (intro allI impI)
    fix j assume j: "j < length (m_textureIDs s)"
    with e have "m_textureIDs s' ! j =
                  (if nat (i + 1) \<le> j \<and> j < nat (m_loadedTextures s1)
                   then (m_textureIDs s1 ! j)\<lparr>ID := gl_names s1 (gl_generated s1 + (j - nat (i + 1)))\<rparr>
                   else m_textureIDs s1 ! j)" by (simp add: f)
    then have ej: "m_textureIDs s' ! j =
                  (if Suc (nat i) \<le> j \<and> j < nat (m_loadedTextures s)
                   then ((m_textureIDs s)[nat i := (m_textureIDs s ! nat i)\<lparr>ID := name\<rparr>] ! j)
                          \<lparr>ID := gl_names s (gl_generated s + 1 + (j - Suc (nat i)))\<rparr>
                   else (m_textureIDs s)[nat i := (m_textureIDs s ! nat i)\<lparr>ID := name\<rparr>] ! j)"
      unfolding f i1 .
    show "m_textureIDs s' ! j =
                  (if nat i \<le> j \<and> j < nat (m_loadedTextures s)
                   then (m_textureIDs s ! j)\<lparr>ID := gl_names s (gl_generated s + (j - nat i))\<rparr>
                   else m_textureIDs s ! j)"
    proof (cases "j = nat i")
      case True
      with ej j ilt show ?thesis by (simp add: name_def)
    next
      case False
      show ?thesis
      proof (cases "Suc (nat i) \<le> j \<and> j < nat (m_loadedTextures s)")
        case True
        then have "gl_generated s + 1 + (j - Suc (nat i)) = gl_generated s + (j - nat i)"
          by arith
        with ej True False show ?thesis by simp
      next
        case b: False
        with False have c: "\<not> (nat i \<le> j \<and> j < nat (m_loadedTextures s))" by arith
        from ej b False have "m_textureIDs s' ! j = m_textureIDs s ! j" by simp
        with c show ?thesis by (simp only: if_False)
      qed
    qed
  qed
  from step r m' c' g' l' e' show ?case by simp
qed

lemma DestroyGLTextures_from_members:
  "DestroyGLTextures_from i s = Inr s' \<Longrightarrow>
   map tag (m_textureIDs s') = map tag (m_textureIDs s)
   \<and> m_loadedTextures s' = m_loadedTextures s
   \<and> m_objectMaterials s' = m_objectMaterials s"
proof (induction i s rule: DestroyGLTextures_from.induct)
  case (1 i s)
  show ?case
  proof (cases "i < m_loadedTextures s")
    case False
    with "1.prems" show ?thesis by (subst (asm) DestroyGLTextures_from.simps) simp
  next
    case True
    show ?thesis
    proof (cases "tex_at s i")
      case (Inl e)
      with True "1.prems" show ?thesis by (subst (asm) DestroyGLTextures_from.simps) simp
    next
      case (Inr t)
      define name where "name = gl_names s (gl_generated s)"
      from Inr have t: "0 \<le> i" "nat i < length (m_textureIDs s)" "t = m_textureIDs s ! nat i"
        by (auto simp: tex_at_def split: if_splits)
      from True Inr "1.prems"
      have run: "DestroyGLTextures_from (i + 1)
          (emit (glGenTextures name)
             (s\<lparr>m_textureIDs := (m_textureIDs s)[nat i := t\<lparr>ID := name\<rparr>],
                gl_generated := gl_generated s + 1\<rparr>)) = Inr s'"
        by (subst (asm) DestroyGLTextures_from.simps) (simp add: Let_def name_def)
      have "map tag ((m_textureIDs s)[nat i := t\<lparr>ID := name\<rparr>]) = map tag (m_textureIDs s)"
        using t by (simp add: map_update list_update_same_conv)
      with "1.IH"[OF True Inr name_def run] show ?thesis by (simp add: emit_def)
    qed
  qed
qed

text \<open>
  Claim C8. With the count within the array, \<open>DestroyGLTextures\<close> returns after one
  \<open>glGenTextures\<close> for each loaded entry, in index order, and makes no other call: the
  handle of each loaded entry is replaced by the name the driver generates for it, the
  tags, the count, the entries beyond the count and the materials are as before.
\<close>

theorem DestroyGLTextures_generates:
  assumes "m_loadedTextures s \<le> int (length (m_textureIDs s))"
  shows "\<exists>s'. DestroyGLTextures s = Inr s'
           \<and> calls s' = calls s @ map (\<lambda>k. glGenTextures (gl_names s (gl_generated s + k)))
                                     [0..<nat (m_loadedTextures s)]
           \<and> (\<forall>j<nat (m_loadedTextures s).
                 ID (m_textureIDs s' ! j) = gl_names s (gl_generated s + j))
           \<and> map tag (m_textureIDs s') = map tag (m_textureIDs s)
           \<and> drop (nat (m_loadedTextures s)) (m_textureIDs s') =
               drop (nat (m_loadedTextures s)) (m_textureIDs s)
           \<and> m_loadedTextures s' = m_loadedTextures s
           \<and> m_objectMaterials s' = m_objectMaterials s"
proof -
  from DestroyGLTextures_from_run[of 0 s, OF _ assms]
  obtain s' where r: "DestroyGLTextures_from 0 s = Inr s'"
    and c: "calls s' = calls s @ map (\<lambda>k. glGenTextures (gl_names s (gl_generated s + k)))
                                      [0..<nat (m_loadedTextures s)]"
    and l: "length (m_textureIDs s') = length (m_textureIDs s)"
    and e: "\<forall>j<length (m_textureIDs s). m_textureIDs s' ! j =
                  (if j < nat (m_loadedTextures s)
                   then (m_textureIDs s ! j)\<lparr>ID := gl_names s (gl_generated s + j)\<rparr>
                   else m_textureIDs s ! j)"
    by auto
  from assms have le: "nat (m_loadedTextures s) \<le> length (m_textureIDs s)" by linarith
  from e le have ids: "\<forall>j<nat (m_loadedTextures s).
                 ID (m_textureIDs s' ! j) = gl_names s (gl_generated s + j)" by auto
  have dr: "drop (nat (m_loadedTextures s)) (m_textureIDs s') =
               drop (nat (m_loadedTextures s)) (m_textureIDs s)"
    using l e by (intro nth_equalityI) auto
  from DestroyGLTextures_from_members[OF r] r c ids dr show ?thesis
    by (simp add: DestroyGLTextures_def)
qed

text \<open>
  An instance: the three loaded textures with the handles 7, 9, 11 come out with the
  handles 1, 2, 3 the driver generates, and the tags they had.
\<close>

theorem DestroyGLTextures_generates_witness:
  "calls_of (DestroyGLTextures three_textures) = [glGenTextures 1, glGenTextures 2, glGenTextures 3]
   \<and> entries_of (DestroyGLTextures three_textures) = [(1, ''wall''), (2, ''pasta''), (3, ''pasta'')]
   \<and> entries_of (Inr three_textures) = [(7, ''wall''), (9, ''pasta''), (11, ''pasta'')]"
proof -
  have f: "m_loadedTextures three_textures = 3" "calls three_textures = []"
    "gl_generated three_textures = 0" "gl_names three_textures = (\<lambda>k. word_of_nat k + 1)"
    "m_textureIDs three_textures = [\<lparr>ID = 7, tag = ''wall''\<rparr>, \<lparr>ID = 9, tag = ''pasta''\<rparr>,
                                  \<lparr>ID = 11, tag = ''pasta''\<rparr>] @ replicate 13 \<lparr>ID = 0, tag = []\<rparr>"
    by (simp_all add: three_textures_def fresh_state_def)
  have wf: "m_loadedTextures three_textures \<le> int (length (m_textureIDs three_textures))"
    by (simp add: f)
  from DestroyGLTextures_generates[OF wf]
  obtain s' where r: "DestroyGLTextures three_textures = Inr s'"
    and c: "calls s' = calls three_textures @
              map (\<lambda>k. glGenTextures (gl_names three_textures (gl_generated three_textures + k)))
                [0..<nat (m_loadedTextures three_textures)]"
    and i: "\<forall>j<nat (m_loadedTextures three_textures).
                 ID (m_textureIDs s' ! j) =
                 gl_names three_textures (gl_generated three_textures + j)"
    and t: "map tag (m_textureIDs s') = map tag (m_textureIDs three_textures)"
    and n: "m_loadedTextures s' = m_loadedTextures three_textures"
    by blast
  have up: "[0..<3] = [0, 1, 2]" by (simp add: upt_rec)
  from c have c': "calls s' = [glGenTextures 1, glGenTextures 2, glGenTextures 3]"
    by (simp add: f up)
  from t have len: "length (m_textureIDs s') = 16"
    using length_map[of tag "m_textureIDs s'"] by (simp add: f)
  then have tk: "take 3 (m_textureIDs s') =
      [m_textureIDs s' ! 0, m_textureIDs s' ! 1, m_textureIDs s' ! 2]"
    by (intro nth_equalityI) (auto simp: less_Suc_eq numeral_3_eq_3 numeral_2_eq_2 nth_Cons')
  from i have ids: "ID (m_textureIDs s' ! 0) = 1" "ID (m_textureIDs s' ! 1) = 2"
    "ID (m_textureIDs s' ! 2) = 3" by (simp_all add: f)
  have tg: "tag (m_textureIDs s' ! j) = map tag (m_textureIDs three_textures) ! j" if "j < 16" for j
    using that len nth_map[of j "m_textureIDs s'" tag] t by simp
  have tags: "tag (m_textureIDs s' ! 0) = ''wall''" "tag (m_textureIDs s' ! 1) = ''pasta''"
    "tag (m_textureIDs s' ! 2) = ''pasta''"
    using tg[of 0] tg[of 1] tg[of 2] by (simp_all add: f)
  from r c' n tk ids tags show ?thesis
    by (simp add: calls_of_def entries_of_def f)
qed

subsection \<open>Loading the textures of the scene\<close>

lemma load_textures_all:
  assumes "list_all (\<lambda>p. decodes s (fst p)) ps"
    and "0 \<le> m_loadedTextures s"
    and "m_loadedTextures s + int (length ps) \<le> int (length (m_textureIDs s))"
  shows "\<exists>s'. load_textures ps s = Inr s'
           \<and> s' = s\<lparr>m_textureIDs := m_textureIDs s', m_loadedTextures := m_loadedTextures s',
                      gl_generated := gl_generated s', calls := calls s'\<rparr>
           \<and> m_loadedTextures s' = m_loadedTextures s + int (length ps)
           \<and> gl_generated s' = gl_generated s + length ps
           \<and> length (m_textureIDs s') = length (m_textureIDs s)
           \<and> (\<forall>j<length (m_textureIDs s). m_textureIDs s' ! j =
                 (if nat (m_loadedTextures s) \<le> j \<and> j < nat (m_loadedTextures s) + length ps
                  then \<lparr>ID = gl_names s (gl_generated s + (j - nat (m_loadedTextures s))),
                        tag = snd (ps ! (j - nat (m_loadedTextures s)))\<rparr>
                  else m_textureIDs s ! j))"
  using assms
proof (induction ps arbitrary: s)
  case Nil
  then show ?case by auto
next
  case (Cons p ps)
  obtain filename tg where p: "p = (filename, tg)" by (cases p)
  from Cons.prems(1) p obtain img where img: "files s filename = Some img"
    "colorChannels img = 3 \<or> colorChannels img = 4"
    by (auto simp: decodes_def split: option.splits)
  from Cons.prems have free: "nat (m_loadedTextures s) < length (m_textureIDs s)" by simp
  define s1 where "s1 = s\<lparr>m_textureIDs := (m_textureIDs s)[nat (m_loadedTextures s) :=
                                   \<lparr>ID = gl_names s (gl_generated s), tag = tg\<rparr>],
               m_loadedTextures := m_loadedTextures s + 1,
               gl_generated := gl_generated s + 1,
               calls := calls s @ CreateGLTexture_calls filename img (gl_names s (gl_generated s))\<rparr>"
  have c: "CreateGLTexture filename tg s = Inr (True, s1)"
    unfolding s1_def by (rule CreateGLTexture_registered[OF img Cons.prems(2) free])
  have f: "m_loadedTextures s1 = m_loadedTextures s + 1" "gl_generated s1 = gl_generated s + 1"
    "gl_names s1 = gl_names s" "files s1 = files s"
    "m_textureIDs s1 = (m_textureIDs s)[nat (m_loadedTextures s) :=
                                   \<lparr>ID = gl_names s (gl_generated s), tag = tg\<rparr>]"
    by (simp_all add: s1_def)
  have d1: "list_all (\<lambda>p. decodes s1 (fst p)) ps"
    using Cons.prems(1) by (simp add: decodes_def f)
  have "\<exists>s'. load_textures ps s1 = Inr s'
           \<and> s' = s1\<lparr>m_textureIDs := m_textureIDs s', m_loadedTextures := m_loadedTextures s',
                      gl_generated := gl_generated s', calls := calls s'\<rparr>
           \<and> m_loadedTextures s' = m_loadedTextures s1 + int (length ps)
           \<and> gl_generated s' = gl_generated s1 + length ps
           \<and> length (m_textureIDs s') = length (m_textureIDs s1)
           \<and> (\<forall>j<length (m_textureIDs s1). m_textureIDs s' ! j =
                 (if nat (m_loadedTextures s1) \<le> j \<and> j < nat (m_loadedTextures s1) + length ps
                  then \<lparr>ID = gl_names s1 (gl_generated s1 + (j - nat (m_loadedTextures s1))),
                        tag = snd (ps ! (j - nat (m_loadedTextures s1)))\<rparr>
                  else m_textureIDs s1 ! j))"
    by (rule Cons.IH[OF d1]) (use Cons.prems in \<open>simp_all add: f\<close>)
  then obtain s' where r: "load_textures ps s1 = Inr s'"
    and m: "s' = s1\<lparr>m_textureIDs := m_textureIDs s', m_loadedTextures := m_loadedTextures s',
                      gl_generated := gl_generated s', calls := calls s'\<rparr>"
    and n: "m_loadedTextures s' = m_loadedTextures s1 + int (length ps)"
    and g: "gl_generated s' = gl_generated s1 + length ps"
    and l: "length (m_textureIDs s') = length (m_textureIDs s1)"
    and e: "\<forall>j<length (m_textureIDs s1). m_textureIDs s' ! j =
                 (if nat (m_loadedTextures s1) \<le> j \<and> j < nat (m_loadedTextures s1) + length ps
                  then \<lparr>ID = gl_names s1 (gl_generated s1 + (j - nat (m_loadedTextures s1))),
                        tag = snd (ps ! (j - nat (m_loadedTextures s1)))\<rparr>
                  else m_textureIDs s1 ! j)"
    by blast
  define k where "k = nat (m_loadedTextures s)"
  from Cons.prems(2) have k1: "nat (m_loadedTextures s + 1) = Suc k" by (simp add: k_def)
  have run: "load_textures (p # ps) s = Inr s'" by (simp add: p c r)
  have m': "s' = s\<lparr>m_textureIDs := m_textureIDs s', m_loadedTextures := m_loadedTextures s',
                      gl_generated := gl_generated s', calls := calls s'\<rparr>"
    by (subst m) (simp add: s1_def)
  have e': "\<forall>j<length (m_textureIDs s). m_textureIDs s' ! j =
                 (if k \<le> j \<and> j < k + length (p # ps)
                  then \<lparr>ID = gl_names s (gl_generated s + (j - k)),
                        tag = snd ((p # ps) ! (j - k))\<rparr>
                  else m_textureIDs s ! j)"
  proof (intro allI impI)
    fix j assume j: "j < length (m_textureIDs s)"
    with e have ej: "m_textureIDs s' ! j =
                 (if Suc k \<le> j \<and> j < Suc k + length ps
                  then \<lparr>ID = gl_names s (gl_generated s + 1 + (j - Suc k)),
                        tag = snd (ps ! (j - Suc k))\<rparr>
                  else (m_textureIDs s)[k := \<lparr>ID = gl_names s (gl_generated s), tag = tg\<rparr>] ! j)"
      by (simp add: f k1 k_def[symmetric])
    show "m_textureIDs s' ! j =
                 (if k \<le> j \<and> j < k + length (p # ps)
                  then \<lparr>ID = gl_names s (gl_generated s + (j - k)),
                        tag = snd ((p # ps) ! (j - k))\<rparr>
                  else m_textureIDs s ! j)"
    proof (cases "j = k")
      case True
      with ej j show ?thesis by (simp add: p)
    next
      case False
      show ?thesis
      proof (cases "Suc k \<le> j \<and> j < Suc k + length ps")
        case True
        then have a: "gl_generated s + 1 + (j - Suc k) = gl_generated s + (j - k)"
          and b: "(p # ps) ! (j - k) = ps ! (j - Suc k)"
          and c: "k \<le> j \<and> j < k + length (p # ps)"
          by (auto simp: nth_Cons')
        from ej True have "m_textureIDs s' ! j =
            \<lparr>ID = gl_names s (gl_generated s + 1 + (j - Suc k)), tag = snd (ps ! (j - Suc k))\<rparr>"
          by (simp only: if_True simp_thms)
        with a b c show ?thesis by (simp only: if_True simp_thms)
      next
        case b: False
        with False have c: "\<not> (k \<le> j \<and> j < k + length (p # ps))" by auto
        from ej b have "m_textureIDs s' ! j =
            (m_textureIDs s)[k := \<lparr>ID = gl_names s (gl_generated s), tag = tg\<rparr>] ! j"
          by (simp only: if_False)
        with False have "m_textureIDs s' ! j = m_textureIDs s ! j" by simp
        with c show ?thesis by (simp only: if_False)
      qed
    qed
  qed
  from run m' n g l e' show ?case by (simp add: f k_def)
qed

lemma take_as_map_nth: "n \<le> length xs \<Longrightarrow> take n xs = map ((!) xs) [0..<n]"
  by (intro nth_equalityI) auto

lemma load_textures_entries:
  assumes "list_all (\<lambda>p. decodes s (fst p)) ps"
    and "0 \<le> m_loadedTextures s"
    and "m_loadedTextures s + int (length ps) \<le> int (length (m_textureIDs s))"
  shows "\<exists>s'. load_textures ps s = Inr s'
           \<and> s' = s\<lparr>m_textureIDs := m_textureIDs s', m_loadedTextures := m_loadedTextures s',
                      gl_generated := gl_generated s', calls := calls s'\<rparr>
           \<and> m_loadedTextures s' = m_loadedTextures s + int (length ps)
           \<and> length (m_textureIDs s') = length (m_textureIDs s)
           \<and> take (nat (m_loadedTextures s) + length ps) (m_textureIDs s') =
               take (nat (m_loadedTextures s)) (m_textureIDs s) @
               map (\<lambda>(k, p). \<lparr>ID = gl_names s (gl_generated s + k), tag = snd p\<rparr>) (enumerate 0 ps)
           \<and> drop (nat (m_loadedTextures s) + length ps) (m_textureIDs s') =
               drop (nat (m_loadedTextures s) + length ps) (m_textureIDs s)"
proof -
  define n where "n = nat (m_loadedTextures s)"
  from load_textures_all[OF assms] obtain s' where r: "load_textures ps s = Inr s'"
    and m: "s' = s\<lparr>m_textureIDs := m_textureIDs s', m_loadedTextures := m_loadedTextures s',
                      gl_generated := gl_generated s', calls := calls s'\<rparr>"
    and c: "m_loadedTextures s' = m_loadedTextures s + int (length ps)"
    and l: "length (m_textureIDs s') = length (m_textureIDs s)"
    and e: "\<forall>j<length (m_textureIDs s). m_textureIDs s' ! j =
                 (if n \<le> j \<and> j < n + length ps
                  then \<lparr>ID = gl_names s (gl_generated s + (j - n)), tag = snd (ps ! (j - n))\<rparr>
                  else m_textureIDs s ! j)"
    unfolding n_def by blast
  from assms have cap: "n + length ps \<le> length (m_textureIDs s)" by (simp add: n_def)
  have tk: "take (n + length ps) (m_textureIDs s') =
               take n (m_textureIDs s) @
               map (\<lambda>(k, p). \<lparr>ID = gl_names s (gl_generated s + k), tag = snd p\<rparr>) (enumerate 0 ps)"
  proof (intro nth_equalityI allI impI)
    show "length (take (n + length ps) (m_textureIDs s')) =
          length (take n (m_textureIDs s) @
            map (\<lambda>(k, p). \<lparr>ID = gl_names s (gl_generated s + k), tag = snd p\<rparr>) (enumerate 0 ps))"
      using cap l by simp
  next
    fix j assume "j < length (take (n + length ps) (m_textureIDs s'))"
    with cap l have j: "j < n + length ps" "j < length (m_textureIDs s)" by simp_all
    show "take (n + length ps) (m_textureIDs s') ! j =
          (take n (m_textureIDs s) @
            map (\<lambda>(k, p). \<lparr>ID = gl_names s (gl_generated s + k), tag = snd p\<rparr>) (enumerate 0 ps)) ! j"
    proof (cases "j < n")
      case True
      with e j cap show ?thesis by (simp add: nth_append)
    next
      case False
      with j have "j - n < length ps" by simp
      with False e j cap show ?thesis by (simp add: nth_append nth_enumerate_eq)
    qed
  qed
  have dr: "drop (n + length ps) (m_textureIDs s') = drop (n + length ps) (m_textureIDs s)"
    using l e by (intro nth_equalityI) auto
  from r m c l tk dr show ?thesis unfolding n_def by blast
qed

lemma bind_calls_enumerate:
  assumes "n \<le> length (m_textureIDs s)"
  shows "concat (map (bind_calls s) [0..<n]) =
         concat (map (\<lambda>(i, t). [glActiveTexture (int i), glBindTexture (ID t)])
                   (enumerate 0 (take n (m_textureIDs s))))"
proof -
  have "map (bind_calls s) [0..<n] =
        map (\<lambda>(i, t). [glActiveTexture (int i), glBindTexture (ID t)])
          (enumerate 0 (take n (m_textureIDs s)))"
    using assms by (intro nth_equalityI) (auto simp: bind_calls_def nth_enumerate_eq)
  then show ?thesis by simp
qed

lemma scene_textures_enumerated:
  "map (\<lambda>(k, p). \<lparr>ID = g k, tag = snd p\<rparr>) (enumerate 0 scene_textures) =
     [\<lparr>ID = g 0, tag = ''Lid''\<rparr>, \<lparr>ID = g 1, tag = ''Stone''\<rparr>, \<lparr>ID = g 2, tag = ''pasta''\<rparr>,
      \<lparr>ID = g 3, tag = ''glass''\<rparr>, \<lparr>ID = g 4, tag = ''jar''\<rparr>,
      \<lparr>ID = g 5, tag = ''beancontainer''\<rparr>, \<lparr>ID = g 6, tag = ''beancontainer1''\<rparr>,
      \<lparr>ID = g 7, tag = ''painting''\<rparr>, \<lparr>ID = g 8, tag = ''table''\<rparr>,
      \<lparr>ID = g 9, tag = ''wall''\<rparr>, \<lparr>ID = g 10, tag = ''plastic''\<rparr>]"
  by (simp add: scene_textures_def eval_nat_numeral)

subsection \<open>What changes the catalogs\<close>

lemma catalogs_calls: "catalogs (s\<lparr>calls := cs\<rparr>) = catalogs s"
  by (simp add: catalogs_def)

lemma catalogs_emit: "catalogs (emit c s) = catalogs s"
  by (simp add: catalogs_def emit_def)

lemma catalogs_emits: "catalogs (emits cs s) = catalogs s"
  by (simp add: catalogs_def emits_def)

lemma SetTransformations_catalogs: "catalogs (SetTransformations sc rx ry rz pos s) = catalogs s"
  by (simp add: SetTransformations_def Let_def catalogs_emit)

lemma SetShaderColor_catalogs: "catalogs (SetShaderColor r g b a s) = catalogs s"
  by (simp add: SetShaderColor_def Let_def catalogs_emits)

lemma SetTextureUVScale_catalogs: "catalogs (SetTextureUVScale u v s) = catalogs s"
  by (simp add: SetTextureUVScale_def catalogs_emit)

lemma SetShaderTexture_catalogs:
  "SetShaderTexture tg s = Inr s' \<Longrightarrow> catalogs s' = catalogs s"
  by (auto simp: SetShaderTexture_def Let_def catalogs_emit split: if_splits sum.splits)

lemma SetShaderMaterial_catalogs:
  "SetShaderMaterial tg uninit s = Inr s' \<Longrightarrow> catalogs s' = catalogs s"
  by (auto simp: SetShaderMaterial_def catalogs_emits split: if_splits prod.splits)

lemma SetupSceneLights_catalogs:
  "SetupSceneLights fmul s = Inr s' \<Longrightarrow> catalogs s' = catalogs s"
  by (auto simp: SetupSceneLights_def Let_def catalogs_emits split: if_splits)

lemma drawOne_catalogs: "drawOne uninit c s = Inr s' \<Longrightarrow> catalogs s' = catalogs s"
  by (auto simp: drawOne_def Let_def catalogs_emit SetTransformations_catalogs
      dest!: SetShaderMaterial_catalogs SetShaderTexture_catalogs
      split: prod.splits sum.splits)

lemma draw_all_catalogs: "draw_all uninit cs s = Inr s' \<Longrightarrow> catalogs s' = catalogs s"
proof (induction cs arbitrary: s)
  case Nil
  then show ?case by simp
next
  case (Cons c cs)
  then obtain s1 where a: "drawOne uninit c s = Inr s1" and b: "draw_all uninit cs s1 = Inr s'"
    by (auto split: sum.splits)
  from Cons.IH[OF b] drawOne_catalogs[OF a] show ?case by simp
qed

lemma RenderScene_catalogs: "RenderScene uninit s = Inr s' \<Longrightarrow> catalogs s' = catalogs s"
  by (auto simp: RenderScene_def catalogs_emit dest: draw_all_catalogs split: if_splits)

lemma BindGLTextures_catalogs: "BindGLTextures s = Inr s' \<Longrightarrow> catalogs s' = catalogs s"
proof -
  assume "BindGLTextures s = Inr s'"
  then have "s' = s\<lparr>calls := calls s'\<rparr>"
    unfolding BindGLTextures_def by (rule BindGLTextures_from_members)
  then have "catalogs s' = catalogs (s\<lparr>calls := calls s'\<rparr>)" by simp
  then show ?thesis by (simp only: catalogs_calls)
qed

subsection \<open>The model matrix\<close>

lemma rotate_matrix_x: "rotate_matrix a (1, 0, 0) = RotateX a"
  by (simp add: rotate_matrix_def RotateX_def Let_def algebra_simps)

lemma rotate_matrix_y: "rotate_matrix a (0, 1, 0) = RotateY a"
  by (simp add: rotate_matrix_def RotateY_def Let_def algebra_simps)

lemma rotate_matrix_z: "rotate_matrix a (0, 0, 1) = RotateZ a"
  by (simp add: rotate_matrix_def RotateZ_def Let_def algebra_simps)

lemma scale_matrix_Scale: "scale_matrix v = Scale v"
  by (simp add: scale_matrix_def Scale_def)

lemma translate_matrix_Translate: "translate_matrix v = Translate v"
  by (simp add: translate_matrix_def Translate_def)

lemma quarter_turn: "(90::real) * pi / 180 = pi / 2"
  by simp

lemma Model_quarter_turn_z:
  "transform_point (Model (1, 1, 1) 0 0 90 (0, 0, 0)) (1, 0, 0) = (0, 1, 0)"
  by (simp add: Model_def Translate_def RotateX_def RotateY_def RotateZ_def Scale_def
      mat_mul_def columns_def dot4_def transform_point_def mat_vec_def)

lemma Model_scale_translate:
  "transform_point (Model (2, 2, 2) 0 0 0 (1, 0, 0)) (1, 0, 0) = (3, 0, 0)"
  by (simp add: Model_def Translate_def RotateX_def RotateY_def RotateZ_def Scale_def
      mat_mul_def columns_def dot4_def transform_point_def mat_vec_def)

text \<open>
  Claim C4. With a shader manager attached, \<open>SetTransformations\<close> uploads under the
  name \<open>model\<close> the product translation * rotationZ * rotationY * rotationX * scale,
  each rotation built from its angle converted to radians; over the reals this matrix
  is \<open>Translate \<times> RotateZ \<times> RotateY \<times> RotateX \<times> Scale\<close> of the specification.
  Consequently, for scale (1, 1, 1), rotation (0, 0, 90) degrees and translation
  (0, 0, 0) the local point (1, 0, 0) is mapped to (0, 1, 0), exactly so over the
  reals (in single precision the result is this up to rounding).
\<close>

theorem SetTransformations_model_matrix:
  assumes "m_pShaderManager s \<noteq> None"
  shows "SetTransformations scaleXYZ xDegrees yDegrees zDegrees positionXYZ s =
           emit (setMat4Value ''model''
             (mat4_mul (mat4_mul (mat4_mul (mat4_mul (glm_translate positionXYZ)
                                                     (glm_rotate (glm_radians zDegrees) (0, 0, 1)))
                                           (glm_rotate (glm_radians yDegrees) (0, 1, 0)))
                                 (glm_rotate (glm_radians xDegrees) (1, 0, 0)))
                       (glm_scale scaleXYZ))) s
       \<and> mat4_value
             (mat4_mul (mat4_mul (mat4_mul (mat4_mul (glm_translate positionXYZ)
                                                     (glm_rotate (glm_radians zDegrees) (0, 0, 1)))
                                           (glm_rotate (glm_radians yDegrees) (0, 1, 0)))
                                 (glm_rotate (glm_radians xDegrees) (1, 0, 0)))
                       (glm_scale scaleXYZ)) =
           Model scaleXYZ xDegrees yDegrees zDegrees positionXYZ
       \<and> Model scaleXYZ xDegrees yDegrees zDegrees positionXYZ =
           mat_mul (mat_mul (mat_mul (mat_mul (Translate positionXYZ)
                                               (RotateZ (zDegrees * pi / 180)))
                                      (RotateY (yDegrees * pi / 180)))
                             (RotateX (xDegrees * pi / 180)))
                   (Scale scaleXYZ)
       \<and> transform_point
             (mat4_value
               (mat4_mul (mat4_mul (mat4_mul (mat4_mul (glm_translate (0, 0, 0))
                                                       (glm_rotate (glm_radians 90) (0, 0, 1)))
                                             (glm_rotate (glm_radians 0) (0, 1, 0)))
                                   (glm_rotate (glm_radians 0) (1, 0, 0)))
                         (glm_scale (1, 1, 1))))
             (1, 0, 0) = (0, 1, 0)"
proof -
  have upload: "SetTransformations scaleXYZ xDegrees yDegrees zDegrees positionXYZ s =
           emit (setMat4Value ''model''
             (mat4_mul (mat4_mul (mat4_mul (mat4_mul (glm_translate positionXYZ)
                                                     (glm_rotate (glm_radians zDegrees) (0, 0, 1)))
                                           (glm_rotate (glm_radians yDegrees) (0, 1, 0)))
                                 (glm_rotate (glm_radians xDegrees) (1, 0, 0)))
                       (glm_scale scaleXYZ))) s"
    using assms by (auto simp: SetTransformations_def Let_def g_ModelName_def)
  have val: "mat4_value
             (mat4_mul (mat4_mul (mat4_mul (mat4_mul (glm_translate p)
                                                     (glm_rotate (glm_radians rz) (0, 0, 1)))
                                           (glm_rotate (glm_radians ry) (0, 1, 0)))
                                 (glm_rotate (glm_radians rx) (1, 0, 0)))
                       (glm_scale sc)) = Model sc rx ry rz p" for sc rx ry rz p
    by (simp only: mat4_value.simps radians_value.simps rotate_matrix_x rotate_matrix_y
        rotate_matrix_z scale_matrix_Scale translate_matrix_Translate Model_def)
  have point: "transform_point
             (mat4_value
               (mat4_mul (mat4_mul (mat4_mul (mat4_mul (glm_translate (0, 0, 0))
                                                       (glm_rotate (glm_radians 90) (0, 0, 1)))
                                             (glm_rotate (glm_radians 0) (0, 1, 0)))
                                   (glm_rotate (glm_radians 0) (1, 0, 0)))
                         (glm_scale (1, 1, 1))))
             (1, 0, 0) = (0, 1, 0)"
    by (simp only: val Model_quarter_turn_z)
  show ?thesis
    by (intro conjI upload val point) (rule Model_def)
qed

text \<open>
  An instance: on the prepared manager, scale (2, 2, 2), no rotation and translation
  (1, 0, 0) upload a matrix that maps the local point (1, 0, 0) to (3, 0, 0).
\<close>

theorem SetTransformations_model_matrix_witness:
  "calls (SetTransformations (2, 2, 2) 0 0 0 (1, 0, 0) ready_state) =
     [setMat4Value ''model''
        (mat4_mul (mat4_mul (mat4_mul (mat4_mul (glm_translate (1, 0, 0))
                                                (glm_rotate (glm_radians 0) (0, 0, 1)))
                                      (glm_rotate (glm_radians 0) (0, 1, 0)))
                            (glm_rotate (glm_radians 0) (1, 0, 0)))
                  (glm_scale (2, 2, 2)))]
   \<and> transform_point
       (mat4_value
          (mat4_mul (mat4_mul (mat4_mul (mat4_mul (glm_translate (1, 0, 0))
                                                  (glm_rotate (glm_radians 0) (0, 0, 1)))
                                        (glm_rotate (glm_radians 0) (0, 1, 0)))
                              (glm_rotate (glm_radians 0) (1, 0, 0)))
                    (glm_scale (2, 2, 2))))
       (1, 0, 0) = (3, 0, 0)"
proof -
  have sh: "m_pShaderManager ready_state \<noteq> None" by (simp add: ready_state_fields)
  note t = SetTransformations_model_matrix[OF sh, of "(2, 2, 2)" 0 0 0 "(1, 0, 0)"]
  from t have a: "calls (SetTransformations (2, 2, 2) 0 0 0 (1, 0, 0) ready_state) =
     [setMat4Value ''model''
        (mat4_mul (mat4_mul (mat4_mul (mat4_mul (glm_translate (1, 0, 0))
                                                (glm_rotate (glm_radians 0) (0, 0, 1)))
                                      (glm_rotate (glm_radians 0) (0, 1, 0)))
                            (glm_rotate (glm_radians 0) (1, 0, 0)))
                  (glm_scale (2, 2, 2)))]"
    by (simp add: emit_def ready_state_fields)
  from t have b: "mat4_value
          (mat4_mul (mat4_mul (mat4_mul (mat4_mul (glm_translate (1, 0, 0))
                                                  (glm_rotate (glm_radians 0) (0, 0, 1)))
                                        (glm_rotate (glm_radians 0) (0, 1, 0)))
                              (glm_rotate (glm_radians 0) (1, 0, 0)))
                    (glm_scale (2, 2, 2))) = Model (2, 2, 2) 0 0 0 (1, 0, 0)"
    by blast
  show ?thesis unfolding b using a Model_scale_translate by simp
qed

subsection \<open>Loading any list of files\<close>

lemma CreateGLTexture_frame:
  assumes "CreateGLTexture filename tg s = Inr (b, s')"
  shows "files s' = files s \<and> gl_names s' = gl_names s
       \<and> gl_generated s' = (case files s filename of None \<Rightarrow> gl_generated s
                              | Some img \<Rightarrow> Suc (gl_generated s))
       \<and> b = (case files s filename of None \<Rightarrow> False
               | Some img \<Rightarrow> colorChannels img = 3 \<or> colorChannels img = 4)"
  using assms
  by (auto simp: CreateGLTexture_def register_texture_def Let_def emits_def emit_def
      split: option.splits if_splits)

lemma load_textures_result:
  assumes "load_textures ps s = Inr s'"
  shows "m_objectMaterials s' = m_objectMaterials s
       \<and> m_pShaderManager s' = m_pShaderManager s \<and> m_basicMeshes s' = m_basicMeshes s
       \<and> m_loadedTextures s' = m_loadedTextures s +
            int (length (registered_entries (files s) (gl_names s) (gl_generated s) ps))
       \<and> m_textureIDs s' =
            take (nat (m_loadedTextures s)) (m_textureIDs s) @
            registered_entries (files s) (gl_names s) (gl_generated s) ps @
            drop (nat (m_loadedTextures s) +
                  length (registered_entries (files s) (gl_names s) (gl_generated s) ps))
              (m_textureIDs s)
       \<and> (registered_entries (files s) (gl_names s) (gl_generated s) ps \<noteq> [] \<longrightarrow>
            0 \<le> m_loadedTextures s
            \<and> nat (m_loadedTextures s) +
                length (registered_entries (files s) (gl_names s) (gl_generated s) ps)
              \<le> length (m_textureIDs s))"
  using assms
proof (induction ps arbitrary: s)
  case Nil
  then show ?case by simp
next
  case (Cons p ps)
  obtain filename tg where p: "p = (filename, tg)" by (cases p)
  from Cons.prems p obtain b s1 where c: "CreateGLTexture filename tg s = Inr (b, s1)"
    and r: "load_textures ps s1 = Inr s'"
    by (auto split: sum.splits)
  note res = CreateGLTexture_result[OF c]
  note fr = CreateGLTexture_frame[OF c]
  note ih = Cons.IH[OF r]
  define n where "n = nat (m_loadedTextures s)"
  show ?case
  proof (cases b)
    case False
    with res have same: "m_textureIDs s1 = m_textureIDs s" "m_loadedTextures s1 = m_loadedTextures s"
      "m_objectMaterials s1 = m_objectMaterials s" "m_pShaderManager s1 = m_pShaderManager s"
      "m_basicMeshes s1 = m_basicMeshes s" by simp_all
    from False fr have e: "registered_entries (files s) (gl_names s) (gl_generated s) (p # ps) =
        registered_entries (files s1) (gl_names s1) (gl_generated s1) ps"
      by (auto simp: p split: option.splits)
    from ih show ?thesis unfolding e same by simp
  next
    case True
    with res have ok: "0 \<le> m_loadedTextures s" "n < length (m_textureIDs s)"
      and arr1: "m_textureIDs s1 = (m_textureIDs s)[n := \<lparr>ID = gl_names s (gl_generated s), tag = tg\<rparr>]"
      and n1: "m_loadedTextures s1 = m_loadedTextures s + 1"
      and same: "m_objectMaterials s1 = m_objectMaterials s" "m_pShaderManager s1 = m_pShaderManager s"
      "m_basicMeshes s1 = m_basicMeshes s"
      by (simp_all add: n_def)
    define E1 where "E1 = registered_entries (files s1) (gl_names s1) (gl_generated s1) ps"
    from True fr have e: "registered_entries (files s) (gl_names s) (gl_generated s) (p # ps) =
        \<lparr>ID = gl_names s (gl_generated s), tag = tg\<rparr> # E1"
      by (auto simp: p E1_def split: option.splits)
    from ok have nn: "nat (m_loadedTextures s + 1) = Suc n" by (simp add: n_def)
    from ok have tk: "take (Suc n) (m_textureIDs s1) =
        take n (m_textureIDs s) @ [\<lparr>ID = gl_names s (gl_generated s), tag = tg\<rparr>]"
      unfolding arr1 by (simp add: take_Suc_conv_app_nth)
    have dr: "drop (Suc (n + k)) (m_textureIDs s1) = drop (Suc (n + k)) (m_textureIDs s)" for k
      unfolding arr1 by simp
    have len: "length (m_textureIDs s1) = length (m_textureIDs s)" unfolding arr1 by simp
    from ih have a: "m_objectMaterials s' = m_objectMaterials s"
      "m_pShaderManager s' = m_pShaderManager s" "m_basicMeshes s' = m_basicMeshes s"
      and b: "m_loadedTextures s' = m_loadedTextures s + int (length (\<lparr>ID = gl_names s (gl_generated s), tag = tg\<rparr> # E1))"
      and c: "m_textureIDs s' = take n (m_textureIDs s) @
            (\<lparr>ID = gl_names s (gl_generated s), tag = tg\<rparr> # E1) @
            drop (n + length (\<lparr>ID = gl_names s (gl_generated s), tag = tg\<rparr> # E1)) (m_textureIDs s)"
      and d: "E1 \<noteq> [] \<longrightarrow> Suc n + length E1 \<le> length (m_textureIDs s)"
      unfolding E1_def[symmetric] same n1 by (simp_all add: nn tk dr len)
    from ok d have d': "n + length (\<lparr>ID = gl_names s (gl_generated s), tag = tg\<rparr> # E1)
        \<le> length (m_textureIDs s)" by (cases "E1 = []") simp_all
    from a b c d' ok show ?thesis unfolding e n_def[symmetric] by simp
  qed
qed

lemma load_textures_returns:
  assumes "0 \<le> m_loadedTextures s"
    and "nat (m_loadedTextures s) +
           length (registered_entries (files s) (gl_names s) (gl_generated s) ps)
         \<le> length (m_textureIDs s)"
  shows "\<exists>s'. load_textures ps s = Inr s'"
  using assms
proof (induction ps arbitrary: s)
  case Nil
  then show ?case by simp
next
  case (Cons p ps)
  obtain filename tg where p: "p = (filename, tg)" by (cases p)
  have step: "\<exists>b s1. CreateGLTexture filename tg s = Inr (b, s1)"
  proof (cases "files s filename")
    case None
    from CreateGLTexture_undecoded[OF this] show ?thesis by blast
  next
    case (Some img)
    show ?thesis
    proof (cases "colorChannels img = 3 \<or> colorChannels img = 4")
      case False
      with CreateGLTexture_unsupported[OF Some, of tg] show ?thesis by blast
    next
      case True
      with Cons.prems Some p have "nat (m_loadedTextures s) < length (m_textureIDs s)" by simp
      from CreateGLTexture_registered[OF Some True Cons.prems(1) this] show ?thesis by blast
    qed
  qed
  then obtain b s1 where c: "CreateGLTexture filename tg s = Inr (b, s1)" by blast
  note res = CreateGLTexture_result[OF c]
  note fr = CreateGLTexture_frame[OF c]
  have "\<exists>s'. load_textures ps s1 = Inr s'"
  proof (rule Cons.IH)
    from res Cons.prems(1) show "0 \<le> m_loadedTextures s1" by (cases b) simp_all
  next
    show "nat (m_loadedTextures s1) +
           length (registered_entries (files s1) (gl_names s1) (gl_generated s1) ps)
         \<le> length (m_textureIDs s1)"
    proof (cases b)
      case False
      with fr have "registered_entries (files s) (gl_names s) (gl_generated s) (p # ps) =
        registered_entries (files s1) (gl_names s1) (gl_generated s1) ps"
        by (auto simp: p split: option.splits)
      with False res Cons.prems(2) show ?thesis by simp
    next
      case True
      with fr have "registered_entries (files s) (gl_names s) (gl_generated s) (p # ps) =
        \<lparr>ID = gl_names s (gl_generated s), tag = tg\<rparr> #
        registered_entries (files s1) (gl_names s1) (gl_generated s1) ps"
        by (auto simp: p split: option.splits)
      with True res Cons.prems show ?thesis by (simp add: nat_add_distrib)
    qed
  qed
  with c show ?case by (auto simp: p)
qed

subsection \<open>The textures of the scene, whatever the files\<close>

lemma registered_entries_tags:
  "map tag (registered_entries fs names g ps) =
     map snd (filter (\<lambda>p. case fs (fst p) of None \<Rightarrow> False
                            | Some img \<Rightarrow> colorChannels img = 3 \<or> colorChannels img = 4) ps)"
  by (induction fs names g ps rule: registered_entries.induct) (auto split: option.splits)

lemma scene_entries_tags:
  "map tag (scene_entries s) = map snd (filter (\<lambda>p. decodes s (fst p)) scene_textures)"
  by (simp add: scene_entries_def registered_entries_tags decodes_def)

lemma scene_entries_all_decode:
  assumes "\<forall>f\<in>set (map fst scene_textures).
             \<exists>img. files s f = Some img \<and> (colorChannels img = 3 \<or> colorChannels img = 4)"
  shows "scene_entries s =
           [\<lparr>ID = gl_names s (gl_generated s + 0), tag = ''Lid''\<rparr>,
            \<lparr>ID = gl_names s (gl_generated s + 1), tag = ''Stone''\<rparr>,
            \<lparr>ID = gl_names s (gl_generated s + 2), tag = ''pasta''\<rparr>,
            \<lparr>ID = gl_names s (gl_generated s + 3), tag = ''glass''\<rparr>,
            \<lparr>ID = gl_names s (gl_generated s + 4), tag = ''jar''\<rparr>,
            \<lparr>ID = gl_names s (gl_generated s + 5), tag = ''beancontainer''\<rparr>,
            \<lparr>ID = gl_names s (gl_generated s + 6), tag = ''beancontainer1''\<rparr>,
            \<lparr>ID = gl_names s (gl_generated s + 7), tag = ''painting''\<rparr>,
            \<lparr>ID = gl_names s (gl_generated s + 8), tag = ''table''\<rparr>,
            \<lparr>ID = gl_names s (gl_generated s + 9), tag = ''wall''\<rparr>,
            \<lparr>ID = gl_names s (gl_generated s + 10), tag = ''plastic''\<rparr>]"
proof -
  have all: "registered_entries (files s) names g ps =
      map (\<lambda>(k, p). \<lparr>ID = names (g + k), tag = snd p\<rparr>) (enumerate 0 ps)"
    if "\<forall>f\<in>set (map fst ps). \<exists>img. files s f = Some img
            \<and> (colorChannels img = 3 \<or> colorChannels img = 4)" for names g ps
    using that
  proof (induction ps arbitrary: g)
    case Nil
    then show ?case by simp
  next
    case (Cons p ps)
    obtain filename tg where p: "p = (filename, tg)" by (cases p)
    from Cons.prems p obtain img where i: "files s filename = Some img"
      "colorChannels img = 3 \<or> colorChannels img = 4" by auto
    from Cons.prems have "\<forall>f\<in>set (map fst ps). \<exists>img. files s f = Some img
            \<and> (colorChannels img = 3 \<or> colorChannels img = 4)" by simp
    from Cons.IH[OF this, of "Suc g"]
    have "registered_entries (files s) names (Suc g) ps =
        map (\<lambda>(k, p). \<lparr>ID = names (g + k), tag = snd p\<rparr>) (enumerate (Suc 0) ps)"
      by (simp add: enumerate_Suc_eq split_def comp_def)
    with i show ?case by (auto simp: p)
  qed
  show ?thesis
    unfolding scene_entries_def all[OF assms]
    by (rule scene_textures_enumerated[of "\<lambda>k. gl_names s (gl_generated s + k)"])
qed

lemma LoadSceneTextures_all_decode:
  assumes "\<forall>f\<in>set (map fst scene_textures).
             \<exists>img. files s f = Some img \<and> (colorChannels img = 3 \<or> colorChannels img = 4)"
    and "0 \<le> m_loadedTextures s"
    and "m_loadedTextures s + 11 \<le> int (length (m_textureIDs s))"
  shows "\<exists>s1. load_textures scene_textures s = Inr s1
           \<and> m_loadedTextures s1 = m_loadedTextures s + 11
           \<and> take (nat (m_loadedTextures s) + 11) (m_textureIDs s1) =
               take (nat (m_loadedTextures s)) (m_textureIDs s) @
                 [\<lparr>ID = gl_names s (gl_generated s + 0), tag = ''Lid''\<rparr>,
                  \<lparr>ID = gl_names s (gl_generated s + 1), tag = ''Stone''\<rparr>,
                  \<lparr>ID = gl_names s (gl_generated s + 2), tag = ''pasta''\<rparr>,
                  \<lparr>ID = gl_names s (gl_generated s + 3), tag = ''glass''\<rparr>,
                  \<lparr>ID = gl_names s (gl_generated s + 4), tag = ''jar''\<rparr>,
                  \<lparr>ID = gl_names s (gl_generated s + 5), tag = ''beancontainer''\<rparr>,
                  \<lparr>ID = gl_names s (gl_generated s + 6), tag = ''beancontainer1''\<rparr>,
                  \<lparr>ID = gl_names s (gl_generated s + 7), tag = ''painting''\<rparr>,
                  \<lparr>ID = gl_names s (gl_generated s + 8), tag = ''table''\<rparr>,
                  \<lparr>ID = gl_names s (gl_generated s + 9), tag = ''wall''\<rparr>,
                  \<lparr>ID = gl_names s (gl_generated s + 10), tag = ''plastic''\<rparr>]
           \<and> drop (nat (m_loadedTextures s) + 11) (m_textureIDs s1) =
               drop (nat (m_loadedTextures s) + 11) (m_textureIDs s)
           \<and> m_objectMaterials s1 = m_objectMaterials s
           \<and> LoadSceneTextures s =
               Inr (s1\<lparr>calls := calls s1 @ concat (map (\<lambda>i.
                      [glActiveTexture (int i), glBindTexture (ID (m_textureIDs s1 ! i))])
                      [0..<nat (m_loadedTextures s1)])\<rparr>)"
proof -
  have len: "length scene_textures = 11" by (simp add: scene_textures_def)
  from assms(1) have d: "list_all (\<lambda>p. decodes s (fst p)) scene_textures"
    by (auto simp: list_all_iff decodes_def)
  from load_textures_entries[OF d assms(2)] assms(3) len
  obtain s1 where r: "load_textures scene_textures s = Inr s1"
    and m: "s1 = s\<lparr>m_textureIDs := m_textureIDs s1, m_loadedTextures := m_loadedTextures s1,
                      gl_generated := gl_generated s1, calls := calls s1\<rparr>"
    and c: "m_loadedTextures s1 = m_loadedTextures s + 11"
    and l: "length (m_textureIDs s1) = length (m_textureIDs s)"
    and tk: "take (nat (m_loadedTextures s) + 11) (m_textureIDs s1) =
               take (nat (m_loadedTextures s)) (m_textureIDs s) @
               map (\<lambda>(k, p). \<lparr>ID = gl_names s (gl_generated s + k), tag = snd p\<rparr>)
                 (enumerate 0 scene_textures)"
    and dr: "drop (nat (m_loadedTextures s) + 11) (m_textureIDs s1) =
               drop (nat (m_loadedTextures s) + 11) (m_textureIDs s)"
    by auto
  from m have mats: "m_objectMaterials s1 = m_objectMaterials s"
    by (metis state.select_convs(5) state.surjective state.update_convs(3,4,8,9))
  from c l assms(3) have wf: "m_loadedTextures s1 \<le> int (length (m_textureIDs s1))" by simp
  have b: "LoadSceneTextures s =
      Inr (emits (concat (map (bind_calls s1) [0..<nat (m_loadedTextures s1)])) s1)"
    by (simp add: LoadSceneTextures_def r BindGLTextures_run[OF wf])
  have bc: "bind_calls s1 = (\<lambda>i. [glActiveTexture (int i), glBindTexture (ID (m_textureIDs s1 ! i))])"
    by (simp add: fun_eq_iff bind_calls_def)
  from r c tk dr mats b show ?thesis
    unfolding scene_textures_enumerated[of "\<lambda>k. gl_names s (gl_generated s + k)"] bc emits_def
    by blast
qed

lemma LoadSceneTextures_returns:
  assumes "0 \<le> m_loadedTextures s"
    and "nat (m_loadedTextures s) + length (scene_entries s) \<le> length (m_textureIDs s)"
  shows "\<exists>s1. load_textures scene_textures s = Inr s1
           \<and> m_loadedTextures s1 = m_loadedTextures s + int (length (scene_entries s))
           \<and> m_textureIDs s1 =
               take (nat (m_loadedTextures s)) (m_textureIDs s) @ scene_entries s @
               drop (nat (m_loadedTextures s) + length (scene_entries s)) (m_textureIDs s)
           \<and> m_objectMaterials s1 = m_objectMaterials s
           \<and> m_pShaderManager s1 = m_pShaderManager s \<and> m_basicMeshes s1 = m_basicMeshes s
           \<and> LoadSceneTextures s =
               Inr (s1\<lparr>calls := calls s1 @ concat (map (\<lambda>i.
                      [glActiveTexture (int i), glBindTexture (ID (m_textureIDs s1 ! i))])
                      [0..<nat (m_loadedTextures s1)])\<rparr>)"
proof -
  from load_textures_returns[of s scene_textures] assms
  obtain s1 where r: "load_textures scene_textures s = Inr s1"
    by (auto simp: scene_entries_def)
  note res = load_textures_result[OF r, folded scene_entries_def]
  from res assms have wf: "m_loadedTextures s1 \<le> int (length (m_textureIDs s1))" by simp
  have b: "LoadSceneTextures s =
      Inr (emits (concat (map (bind_calls s1) [0..<nat (m_loadedTextures s1)])) s1)"
    by (simp add: LoadSceneTextures_def r BindGLTextures_run[OF wf])
  have bc: "bind_calls s1 = (\<lambda>i. [glActiveTexture (int i), glBindTexture (ID (m_textureIDs s1 ! i))])"
    by (simp add: fun_eq_iff bind_calls_def)
  from r res b show ?thesis unfolding bc emits_def by blast
qed

lemma LoadSceneTextures_result:
  assumes "LoadSceneTextures s = Inr s'"
  shows "m_objectMaterials s' = m_objectMaterials s
       \<and> m_pShaderManager s' = m_pShaderManager s \<and> m_basicMeshes s' = m_basicMeshes s
       \<and> m_loadedTextures s' = m_loadedTextures s + int (length (scene_entries s))
       \<and> m_textureIDs s' =
            take (nat (m_loadedTextures s)) (m_textureIDs s) @ scene_entries s @
            drop (nat (m_loadedTextures s) + length (scene_entries s)) (m_textureIDs s)"
proof -
  from assms obtain s1 where r: "load_textures scene_textures s = Inr s1"
    and b: "BindGLTextures s1 = Inr s'"
    by (auto simp: LoadSceneTextures_def split: sum.splits)
  note res = load_textures_result[OF r, folded scene_entries_def]
  from b have "s' = s1\<lparr>calls := calls s'\<rparr>"
    unfolding BindGLTextures_def by (rule BindGLTextures_from_members)
  then have "m_objectMaterials s' = m_objectMaterials s1" "m_pShaderManager s' = m_pShaderManager s1"
    "m_basicMeshes s' = m_basicMeshes s1" "m_loadedTextures s' = m_loadedTextures s1"
    "m_textureIDs s' = m_textureIDs s1"
    by (metis state.select_convs state.surjective state.update_convs(9))+
  with res show ?thesis by simp
qed

text \<open>
  Claim C6, as the code has it. \<open>LoadSceneTextures\<close> drops the result of every
  \<open>CreateGLTexture\<close>, so what it registers depends on the files. Starting from a count
  that is not negative and with enough free slots, it returns and has registered,
  above the entries already loaded and in the order of its list, one entry for each of
  the eleven files that decodes to an image of 3 or 4 channels; a file that fails is
  skipped and changes nothing in the catalog, so the entries after it sit one slot
  lower. The tags registered are the tags of the files that load. When all eleven
  files load, these are exactly eleven entries with the tags Lid, Stone, pasta, glass,
  jar, beancontainer, beancontainer1, painting, table, wall, plastic in this order and
  the handles the driver generates. Then, as its last calls, it binds the entry at
  every index below the new count to the texture unit of that index, in index order.
\<close>

theorem LoadSceneTextures_registers:
  assumes "0 \<le> m_loadedTextures s"
  shows "(nat (m_loadedTextures s) + length (scene_entries s) \<le> length (m_textureIDs s) \<longrightarrow>
           (\<exists>s1. load_textures scene_textures s = Inr s1
              \<and> m_loadedTextures s1 = m_loadedTextures s + int (length (scene_entries s))
              \<and> m_textureIDs s1 =
                  take (nat (m_loadedTextures s)) (m_textureIDs s) @ scene_entries s @
                  drop (nat (m_loadedTextures s) + length (scene_entries s)) (m_textureIDs s)
              \<and> m_objectMaterials s1 = m_objectMaterials s
              \<and> LoadSceneTextures s =
                  Inr (s1\<lparr>calls := calls s1 @ concat (map (\<lambda>i.
                         [glActiveTexture (int i), glBindTexture (ID (m_textureIDs s1 ! i))])
                         [0..<nat (m_loadedTextures s1)])\<rparr>)))
       \<and> map tag (scene_entries s) =
           map snd (filter (\<lambda>p. case files s (fst p) of None \<Rightarrow> False
                                  | Some img \<Rightarrow> colorChannels img = 3 \<or> colorChannels img = 4)
                      scene_textures)
       \<and> ((\<forall>f\<in>set (map fst scene_textures).
              \<exists>img. files s f = Some img \<and> (colorChannels img = 3 \<or> colorChannels img = 4)) \<longrightarrow>
           scene_entries s =
             [\<lparr>ID = gl_names s (gl_generated s + 0), tag = ''Lid''\<rparr>,
              \<lparr>ID = gl_names s (gl_generated s + 1), tag = ''Stone''\<rparr>,
              \<lparr>ID = gl_names s (gl_generated s + 2), tag = ''pasta''\<rparr>,
              \<lparr>ID = gl_names s (gl_generated s + 3), tag = ''glass''\<rparr>,
              \<lparr>ID = gl_names s (gl_generated s + 4), tag = ''jar''\<rparr>,
              \<lparr>ID = gl_names s (gl_generated s + 5), tag = ''beancontainer''\<rparr>,
              \<lparr>ID = gl_names s (gl_generated s + 6), tag = ''beancontainer1''\<rparr>,
              \<lparr>ID = gl_names s (gl_generated s + 7), tag = ''painting''\<rparr>,
              \<lparr>ID = gl_names s (gl_generated s + 8), tag = ''table''\<rparr>,
              \<lparr>ID = gl_names s (gl_generated s + 9), tag = ''wall''\<rparr>,
              \<lparr>ID = gl_names s (gl_generated s + 10), tag = ''plastic''\<rparr>])
       \<and> ((\<forall>f\<in>set (map fst scene_textures).
              \<exists>img. files s f = Some img \<and> (colorChannels img = 3 \<or> colorChannels img = 4))
            \<and> m_loadedTextures s + 11 \<le> int (length (m_textureIDs s)) \<longrightarrow>
           (\<exists>s1. load_textures scene_textures s = Inr s1
           \<and> m_loadedTextures s1 = m_loadedTextures s + 11
           \<and> take (nat (m_loadedTextures s) + 11) (m_textureIDs s1) =
               take (nat (m_loadedTextures s)) (m_textureIDs s) @
                 [\<lparr>ID = gl_names s (gl_generated s + 0), tag = ''Lid''\<rparr>,
                  \<lparr>ID = gl_names s (gl_generated s + 1), tag = ''Stone''\<rparr>,
                  \<lparr>ID = gl_names s (gl_generated s + 2), tag = ''pasta''\<rparr>,
                  \<lparr>ID = gl_names s (gl_generated s + 3), tag = ''glass''\<rparr>,
                  \<lparr>ID = gl_names s (gl_generated s + 4), tag = ''jar''\<rparr>,
                  \<lparr>ID = gl_names s (gl_generated s + 5), tag = ''beancontainer''\<rparr>,
                  \<lparr>ID = gl_names s (gl_generated s + 6), tag = ''beancontainer1''\<rparr>,
                  \<lparr>ID = gl_names s (gl_generated s + 7), tag = ''painting''\<rparr>,
                  \<lparr>ID = gl_names s (gl_generated s + 8), tag = ''table''\<rparr>,
                  \<lparr>ID = gl_names s (gl_generated s + 9), tag = ''wall''\<rparr>,
                  \<lparr>ID = gl_names s (gl_generated s + 10), tag = ''plastic''\<rparr>]
           \<and> drop (nat (m_loadedTextures s) + 11) (m_textureIDs s1) =
               drop (nat (m_loadedTextures s) + 11) (m_textureIDs s)
           \<and> m_objectMaterials s1 = m_objectMaterials s
           \<and> LoadSceneTextures s =
               Inr (s1\<lparr>calls := calls s1 @ concat (map (\<lambda>i.
                      [glActiveTexture (int i), glBindTexture (ID (m_textureIDs s1 ! i))])
                      [0..<nat (m_loadedTextures s1)])\<rparr>)))"
proof -
  have general: "nat (m_loadedTextures s) + length (scene_entries s) \<le> length (m_textureIDs s) \<longrightarrow>
           (\<exists>s1. load_textures scene_textures s = Inr s1
              \<and> m_loadedTextures s1 = m_loadedTextures s + int (length (scene_entries s))
              \<and> m_textureIDs s1 =
                  take (nat (m_loadedTextures s)) (m_textureIDs s) @ scene_entries s @
                  drop (nat (m_loadedTextures s) + length (scene_entries s)) (m_textureIDs s)
              \<and> m_objectMaterials s1 = m_objectMaterials s
              \<and> LoadSceneTextures s =
                  Inr (s1\<lparr>calls := calls s1 @ concat (map (\<lambda>i.
                         [glActiveTexture (int i), glBindTexture (ID (m_textureIDs s1 ! i))])
                         [0..<nat (m_loadedTextures s1)])\<rparr>))"
    using LoadSceneTextures_returns[OF assms] by blast
  have tags: "map tag (scene_entries s) =
           map snd (filter (\<lambda>p. case files s (fst p) of None \<Rightarrow> False
                                  | Some img \<Rightarrow> colorChannels img = 3 \<or> colorChannels img = 4)
                      scene_textures)"
    by (simp add: scene_entries_def registered_entries_tags)
  have eleven: "(\<forall>f\<in>set (map fst scene_textures).
              \<exists>img. files s f = Some img \<and> (colorChannels img = 3 \<or> colorChannels img = 4)) \<longrightarrow>
           scene_entries s =
             [\<lparr>ID = gl_names s (gl_generated s + 0), tag = ''Lid''\<rparr>,
              \<lparr>ID = gl_names s (gl_generated s + 1), tag = ''Stone''\<rparr>,
              \<lparr>ID = gl_names s (gl_generated s + 2), tag = ''pasta''\<rparr>,
              \<lparr>ID = gl_names s (gl_generated s + 3), tag = ''glass''\<rparr>,
              \<lparr>ID = gl_names s (gl_generated s + 4), tag = ''jar''\<rparr>,
              \<lparr>ID = gl_names s (gl_generated s + 5), tag = ''beancontainer''\<rparr>,
              \<lparr>ID = gl_names s (gl_generated s + 6), tag = ''beancontainer1''\<rparr>,
              \<lparr>ID = gl_names s (gl_generated s + 7), tag = ''painting''\<rparr>,
              \<lparr>ID = gl_names s (gl_generated s + 8), tag = ''table''\<rparr>,
              \<lparr>ID = gl_names s (gl_generated s + 9), tag = ''wall''\<rparr>,
              \<lparr>ID = gl_names s (gl_generated s + 10), tag = ''plastic''\<rparr>]"
    using scene_entries_all_decode by blast
  have full: "(\<forall>f\<in>set (map fst scene_textures).
              \<exists>img. files s f = Some img \<and> (colorChannels img = 3 \<or> colorChannels img = 4))
            \<and> m_loadedTextures s + 11 \<le> int (length (m_textureIDs s)) \<longrightarrow>
           (\<exists>s1. load_textures scene_textures s = Inr s1
           \<and> m_loadedTextures s1 = m_loadedTextures s + 11
           \<and> take (nat (m_loadedTextures s) + 11) (m_textureIDs s1) =
               take (nat (m_loadedTextures s)) (m_textureIDs s) @
                 [\<lparr>ID = gl_names s (gl_generated s + 0), tag = ''Lid''\<rparr>,
                  \<lparr>ID = gl_names s (gl_generated s + 1), tag = ''Stone''\<rparr>,
                  \<lparr>ID = gl_names s (gl_generated s + 2), tag = ''pasta''\<rparr>,
                  \<lparr>ID = gl_names s (gl_generated s + 3), tag = ''glass''\<rparr>,
                  \<lparr>ID = gl_names s (gl_generated s + 4), tag = ''jar''\<rparr>,
                  \<lparr>ID = gl_names s (gl_generated s + 5), tag = ''beancontainer''\<rparr>,
                  \<lparr>ID = gl_names s (gl_generated s + 6), tag = ''beancontainer1''\<rparr>,
                  \<lparr>ID = gl_names s (gl_generated s + 7), tag = ''painting''\<rparr>,
                  \<lparr>ID = gl_names s (gl_generated s + 8), tag = ''table''\<rparr>,
                  \<lparr>ID = gl_names s (gl_generated s + 9), tag = ''wall''\<rparr>,
                  \<lparr>ID = gl_names s (gl_generated s + 10), tag = ''plastic''\<rparr>]
           \<and> drop (nat (m_loadedTextures s) + 11) (m_textureIDs s1) =
               drop (nat (m_loadedTextures s) + 11) (m_textureIDs s)
           \<and> m_objectMaterials s1 = m_objectMaterials s
           \<and> LoadSceneTextures s =
               Inr (s1\<lparr>calls := calls s1 @ concat (map (\<lambda>i.
                      [glActiveTexture (int i), glBindTexture (ID (m_textureIDs s1 ! i))])
                      [0..<nat (m_loadedTextures s1)])\<rparr>))"
    using LoadSceneTextures_all_decode[of s] assms by blast
  show ?thesis by (rule conjI[OF general conjI[OF tags conjI[OF eleven full]]])
qed

text \<open>
  Two instances. On the disk where all eleven files decode, starting from no loaded
  texture, the eleven entries get the driver's names 1 to 11, and the last 22 calls
  bind entry \<open>i\<close> to unit \<open>i\<close>. On the disk where \<open>Lid.png\<close> is missing and \<open>jar.png\<close>
  is grey-scale, nine entries are registered; the name 4 was generated for the jar and
  is in no entry.
\<close>

theorem LoadSceneTextures_registers_witness:
  "(returned (LoadSceneTextures with_disk)
   \<and> count_of (LoadSceneTextures with_disk) = 11
   \<and> entries_of (LoadSceneTextures with_disk) =
       [(1, ''Lid''), (2, ''Stone''), (3, ''pasta''), (4, ''glass''), (5, ''jar''),
        (6, ''beancontainer''), (7, ''beancontainer1''), (8, ''painting''), (9, ''table''),
        (10, ''wall''), (11, ''plastic'')]
   \<and> drop (length (calls_of (LoadSceneTextures with_disk)) - 22)
        (calls_of (LoadSceneTextures with_disk)) =
       [glActiveTexture 0, glBindTexture 1, glActiveTexture 1, glBindTexture 2,
        glActiveTexture 2, glBindTexture 3, glActiveTexture 3, glBindTexture 4,
        glActiveTexture 4, glBindTexture 5, glActiveTexture 5, glBindTexture 6,
        glActiveTexture 6, glBindTexture 7, glActiveTexture 7, glBindTexture 8,
        glActiveTexture 8, glBindTexture 9, glActiveTexture 9, glBindTexture 10,
        glActiveTexture 10, glBindTexture 11])
   \<and> count_of (LoadSceneTextures two_files_fail) = 9
   \<and> entries_of (LoadSceneTextures two_files_fail) =
       [(1, ''Stone''), (2, ''pasta''), (3, ''glass''), (5, ''beancontainer''),
        (6, ''beancontainer1''), (7, ''painting''), (8, ''table''), (9, ''wall''),
        (10, ''plastic'')]"
proof -
  have f: "m_loadedTextures with_disk = 0" "length (m_textureIDs with_disk) = 16"
    "files with_disk = disk" "gl_generated with_disk = 0"
    "gl_names with_disk = (\<lambda>k. word_of_nat k + 1)"
    by (simp_all add: with_disk_def fresh_state_def)
  have h1: "\<forall>f\<in>set (map fst scene_textures).
             \<exists>img. files with_disk f = Some img \<and> (colorChannels img = 3 \<or> colorChannels img = 4)"
    by (simp add: f disk_def scene_textures_def)
  have h2: "0 \<le> m_loadedTextures with_disk"
    and h3: "m_loadedTextures with_disk + 11 \<le> int (length (m_textureIDs with_disk))"
    by (simp_all add: f)
  from LoadSceneTextures_registers[OF h2] h1 h3
  have "\<exists>s1. load_textures scene_textures with_disk = Inr s1
           \<and> m_loadedTextures s1 = m_loadedTextures with_disk + 11
           \<and> take (nat (m_loadedTextures with_disk) + 11) (m_textureIDs s1) =
               take (nat (m_loadedTextures with_disk)) (m_textureIDs with_disk) @
                 [\<lparr>ID = gl_names with_disk (gl_generated with_disk + 0), tag = ''Lid''\<rparr>,
                  \<lparr>ID = gl_names with_disk (gl_generated with_disk + 1), tag = ''Stone''\<rparr>,
                  \<lparr>ID = gl_names with_disk (gl_generated with_disk + 2), tag = ''pasta''\<rparr>,
                  \<lparr>ID = gl_names with_disk (gl_generated with_disk + 3), tag = ''glass''\<rparr>,
                  \<lparr>ID = gl_names with_disk (gl_generated with_disk + 4), tag = ''jar''\<rparr>,
                  \<lparr>ID = gl_names with_disk (gl_generated with_disk + 5), tag = ''beancontainer''\<rparr>,
                  \<lparr>ID = gl_names with_disk (gl_generated with_disk + 6), tag = ''beancontainer1''\<rparr>,
                  \<lparr>ID = gl_names with_disk (gl_generated with_disk + 7), tag = ''painting''\<rparr>,
                  \<lparr>ID = gl_names with_disk (gl_generated with_disk + 8), tag = ''table''\<rparr>,
                  \<lparr>ID = gl_names with_disk (gl_generated with_disk + 9), tag = ''wall''\<rparr>,
                  \<lparr>ID = gl_names with_disk (gl_generated with_disk + 10), tag = ''plastic''\<rparr>]
           \<and> drop (nat (m_loadedTextures with_disk) + 11) (m_textureIDs s1) =
               drop (nat (m_loadedTextures with_disk) + 11) (m_textureIDs with_disk)
           \<and> m_objectMaterials s1 = m_objectMaterials with_disk
           \<and> LoadSceneTextures with_disk =
               Inr (s1\<lparr>calls := calls s1 @ concat (map (\<lambda>i.
                      [glActiveTexture (int i), glBindTexture (ID (m_textureIDs s1 ! i))])
                      [0..<nat (m_loadedTextures s1)])\<rparr>)"
    by blast
  then obtain s1 where c: "m_loadedTextures s1 = 11"
    and tk: "take 11 (m_textureIDs s1) =
       [\<lparr>ID = 1, tag = ''Lid''\<rparr>, \<lparr>ID = 2, tag = ''Stone''\<rparr>, \<lparr>ID = 3, tag = ''pasta''\<rparr>,
        \<lparr>ID = 4, tag = ''glass''\<rparr>, \<lparr>ID = 5, tag = ''jar''\<rparr>, \<lparr>ID = 6, tag = ''beancontainer''\<rparr>,
        \<lparr>ID = 7, tag = ''beancontainer1''\<rparr>, \<lparr>ID = 8, tag = ''painting''\<rparr>,
        \<lparr>ID = 9, tag = ''table''\<rparr>, \<lparr>ID = 10, tag = ''wall''\<rparr>, \<lparr>ID = 11, tag = ''plastic''\<rparr>]"
    and r: "LoadSceneTextures with_disk =
               Inr (s1\<lparr>calls := calls s1 @ concat (map (\<lambda>i.
                      [glActiveTexture (int i), glBindTexture (ID (m_textureIDs s1 ! i))])
                      [0..<nat (m_loadedTextures s1)])\<rparr>)"
    by (auto simp: f)
  from tk have len: "11 \<le> length (m_textureIDs s1)"
    using length_take[of 11 "m_textureIDs s1"] by simp
  have bc: "bind_calls s1 = (\<lambda>i. [glActiveTexture (int i), glBindTexture (ID (m_textureIDs s1 ! i))])"
    by (simp add: fun_eq_iff bind_calls_def)
  have "concat (map (\<lambda>i. [glActiveTexture (int i), glBindTexture (ID (m_textureIDs s1 ! i))])
          [0..<11]) = concat (map (bind_calls s1) [0..<11])"
    by (simp only: bc)
  also have "\<dots> = concat (map (\<lambda>(i, t). [glActiveTexture (int i), glBindTexture (ID t)])
                   (enumerate 0 (take 11 (m_textureIDs s1))))"
    by (rule bind_calls_enumerate[OF len])
  also have "\<dots> =
       [glActiveTexture 0, glBindTexture 1, glActiveTexture 1, glBindTexture 2,
        glActiveTexture 2, glBindTexture 3, glActiveTexture 3, glBindTexture 4,
        glActiveTexture 4, glBindTexture 5, glActiveTexture 5, glBindTexture 6,
        glActiveTexture 6, glBindTexture 7, glActiveTexture 7, glBindTexture 8,
        glActiveTexture 8, glBindTexture 9, glActiveTexture 9, glBindTexture 10,
        glActiveTexture 10, glBindTexture 11]"
    unfolding tk by simp
  finally have binds: "concat (map (\<lambda>i.
        [glActiveTexture (int i), glBindTexture (ID (m_textureIDs s1 ! i))]) [0..<11]) =
       [glActiveTexture 0, glBindTexture 1, glActiveTexture 1, glBindTexture 2,
        glActiveTexture 2, glBindTexture 3, glActiveTexture 3, glBindTexture 4,
        glActiveTexture 4, glBindTexture 5, glActiveTexture 5, glBindTexture 6,
        glActiveTexture 6, glBindTexture 7, glActiveTexture 7, glBindTexture 8,
        glActiveTexture 8, glBindTexture 9, glActiveTexture 9, glBindTexture 10,
        glActiveTexture 10, glBindTexture 11]" .
  from r c tk binds have first: "returned (LoadSceneTextures with_disk)
   \<and> count_of (LoadSceneTextures with_disk) = 11
   \<and> entries_of (LoadSceneTextures with_disk) =
       [(1, ''Lid''), (2, ''Stone''), (3, ''pasta''), (4, ''glass''), (5, ''jar''),
        (6, ''beancontainer''), (7, ''beancontainer1''), (8, ''painting''), (9, ''table''),
        (10, ''wall''), (11, ''plastic'')]
   \<and> drop (length (calls_of (LoadSceneTextures with_disk)) - 22)
        (calls_of (LoadSceneTextures with_disk)) =
       [glActiveTexture 0, glBindTexture 1, glActiveTexture 1, glBindTexture 2,
        glActiveTexture 2, glBindTexture 3, glActiveTexture 3, glBindTexture 4,
        glActiveTexture 4, glBindTexture 5, glActiveTexture 5, glBindTexture 6,
        glActiveTexture 6, glBindTexture 7, glActiveTexture 7, glBindTexture 8,
        glActiveTexture 8, glBindTexture 9, glActiveTexture 9, glBindTexture 10,
        glActiveTexture 10, glBindTexture 11]"
    by (simp add: returned_def count_of_def entries_of_def calls_of_def)
  have g: "m_loadedTextures two_files_fail = 0" "length (m_textureIDs two_files_fail) = 16"
    "gl_generated two_files_fail = 0" "gl_names two_files_fail = (\<lambda>k. word_of_nat k + 1)"
    by (simp_all add: two_files_fail_def with_disk_def fresh_state_def)
  have e: "scene_entries two_files_fail =
       [\<lparr>ID = 1, tag = ''Stone''\<rparr>, \<lparr>ID = 2, tag = ''pasta''\<rparr>, \<lparr>ID = 3, tag = ''glass''\<rparr>,
        \<lparr>ID = 5, tag = ''beancontainer''\<rparr>, \<lparr>ID = 6, tag = ''beancontainer1''\<rparr>,
        \<lparr>ID = 7, tag = ''painting''\<rparr>, \<lparr>ID = 8, tag = ''table''\<rparr>,
        \<lparr>ID = 9, tag = ''wall''\<rparr>, \<lparr>ID = 10, tag = ''plastic''\<rparr>]"
    by (simp add: scene_entries_def scene_textures_def two_files_fail_def with_disk_def
        fresh_state_def disk_def)
  have k2: "0 \<le> m_loadedTextures two_files_fail"
    and k3: "nat (m_loadedTextures two_files_fail) + length (scene_entries two_files_fail)
             \<le> length (m_textureIDs two_files_fail)"
    by (simp_all add: g e)
  from LoadSceneTextures_registers[OF k2] k3
  have "\<exists>s1. load_textures scene_textures two_files_fail = Inr s1
              \<and> m_loadedTextures s1 =
                  m_loadedTextures two_files_fail + int (length (scene_entries two_files_fail))
              \<and> m_textureIDs s1 =
                  take (nat (m_loadedTextures two_files_fail)) (m_textureIDs two_files_fail) @
                  scene_entries two_files_fail @
                  drop (nat (m_loadedTextures two_files_fail) + length (scene_entries two_files_fail))
                    (m_textureIDs two_files_fail)
              \<and> m_objectMaterials s1 = m_objectMaterials two_files_fail
              \<and> LoadSceneTextures two_files_fail =
                  Inr (s1\<lparr>calls := calls s1 @ concat (map (\<lambda>i.
                         [glActiveTexture (int i), glBindTexture (ID (m_textureIDs s1 ! i))])
                         [0..<nat (m_loadedTextures s1)])\<rparr>)"
    by blast
  then obtain s2 where c2r: "m_loadedTextures s2 =
                  m_loadedTextures two_files_fail + int (length (scene_entries two_files_fail))"
    and a2r: "m_textureIDs s2 =
                  take (nat (m_loadedTextures two_files_fail)) (m_textureIDs two_files_fail) @
                  scene_entries two_files_fail @
                  drop (nat (m_loadedTextures two_files_fail) + length (scene_entries two_files_fail))
                    (m_textureIDs two_files_fail)"
    and r2: "LoadSceneTextures two_files_fail =
               Inr (s2\<lparr>calls := calls s2 @ concat (map (\<lambda>i.
                      [glActiveTexture (int i), glBindTexture (ID (m_textureIDs s2 ! i))])
                      [0..<nat (m_loadedTextures s2)])\<rparr>)"
    by blast
  from c2r have c2: "m_loadedTextures s2 = 9" by (simp add: g e)
  from a2r have a2: "take 9 (m_textureIDs s2) = scene_entries two_files_fail"
    by (simp add: g e)
  from r2 c2 a2 have second: "count_of (LoadSceneTextures two_files_fail) = 9
   \<and> entries_of (LoadSceneTextures two_files_fail) =
       [(1, ''Stone''), (2, ''pasta''), (3, ''glass''), (5, ''beancontainer''),
        (6, ''beancontainer1''), (7, ''painting''), (8, ''table''), (9, ''wall''),
        (10, ''plastic'')]"
    by (simp add: count_of_def entries_of_def e)
  from first second show ?thesis by blast
qed

text \<open>
  The claim as it is written fails when a file is missing: without
  \<open>textures/Lid.png\<close> the call returns with ten entries, the first tagged \<open>Stone\<close>.
\<close>

theorem LoadSceneTextures_registers_counterexample:
  "returned (LoadSceneTextures without_lid)
   \<and> count_of (LoadSceneTextures without_lid) = 10
   \<and> map snd (entries_of (LoadSceneTextures without_lid)) =
       [''Stone'', ''pasta'', ''glass'', ''jar'', ''beancontainer'', ''beancontainer1'',
        ''painting'', ''table'', ''wall'', ''plastic'']"
proof -
  define rest where "rest = tl scene_textures"
  have st: "scene_textures = (''textures/Lid.png'', ''Lid'') # rest"
    and rest: "rest = [(''textures/Stone.png'', ''Stone''), (''textures/Pasta.png'', ''pasta''),
      (''textures/glass.png'', ''glass''), (''textures/jar.png'', ''jar''),
      (''textures/beanContainer.png'', ''beancontainer''),
      (''textures/beanContainer1.png'', ''beancontainer1''),
      (''textures/painting.png'', ''painting''), (''textures/table.png'', ''table''),
      (''textures/wall.png'', ''wall''), (''textures/plastic.png'', ''plastic'')]"
    by (simp_all add: rest_def scene_textures_def)
  define s0 where "s0 = emits [stbi_set_flip_vertically_on_load True, stbi_load ''textures/Lid.png'',
                              cout [S ''Could not load image:'', S ''textures/Lid.png'']] without_lid"
  have f: "m_loadedTextures s0 = 0" "length (m_textureIDs s0) = 16"
    "files s0 = disk(''textures/Lid.png'' := None)"
    by (simp_all add: s0_def emits_def without_lid_def with_disk_def fresh_state_def)
  have "files without_lid ''textures/Lid.png'' = None" by (simp add: without_lid_def)
  from CreateGLTexture_undecoded[OF this, of "''Lid''"]
  have first: "CreateGLTexture ''textures/Lid.png'' ''Lid'' without_lid = Inr (False, s0)"
    by (simp add: s0_def)
  have d: "list_all (\<lambda>p. decodes s0 (fst p)) rest"
    by (simp add: rest decodes_def f disk_def scene_textures_def)
  have "length rest = 10" by (simp add: rest)
  with load_textures_entries[OF d] f
  obtain s1 where r: "load_textures rest s0 = Inr s1"
    and c: "m_loadedTextures s1 = 10"
    and l: "length (m_textureIDs s1) = 16"
    and tk: "take 10 (m_textureIDs s1) =
               map (\<lambda>(k, p). \<lparr>ID = gl_names s0 (gl_generated s0 + k), tag = snd p\<rparr>)
                 (enumerate 0 rest)"
    by auto
  from c l have wf: "m_loadedTextures s1 \<le> int (length (m_textureIDs s1))" by simp
  have run: "LoadSceneTextures without_lid =
      Inr (emits (concat (map (bind_calls s1) [0..<nat (m_loadedTextures s1)])) s1)"
    by (simp add: LoadSceneTextures_def st first r BindGLTextures_run[OF wf])
  from run c tk show ?thesis
    by (simp add: returned_def count_of_def entries_of_def emits_def rest comp_def)
qed

subsection \<open>The catalogs under every operation\<close>

lemma DestroyGLTextures_from_overrun:
  assumes "0 \<le> i" and "nat i \<le> length (m_textureIDs s)"
    and "int (length (m_textureIDs s)) < m_loadedTextures s"
  shows "DestroyGLTextures_from i s = Inl OutOfBounds"
  using assms
proof (induction "length (m_textureIDs s) - nat i" arbitrary: i s)
  case 0
  then have "i < m_loadedTextures s" and "tex_at s i = Inl OutOfBounds"
    by (auto simp: tex_at_def)
  then show ?case by (subst DestroyGLTextures_from.simps) simp
next
  case (Suc n)
  then have lt: "i < m_loadedTextures s" and at: "tex_at s i = Inr (m_textureIDs s ! nat i)"
    by (auto simp: tex_at_def)
  define s1 where "s1 = emit (glGenTextures (gl_names s (gl_generated s)))
      (s\<lparr>m_textureIDs := (m_textureIDs s)[nat i := (m_textureIDs s ! nat i)
                               \<lparr>ID := gl_names s (gl_generated s)\<rparr>],
         gl_generated := gl_generated s + 1\<rparr>)"
  have f: "length (m_textureIDs s1) = length (m_textureIDs s)"
    "m_loadedTextures s1 = m_loadedTextures s"
    by (simp_all add: s1_def emit_def)
  have step: "DestroyGLTextures_from i s = DestroyGLTextures_from (i + 1) s1"
    using lt at by (subst DestroyGLTextures_from.simps) (simp add: Let_def s1_def)
  from Suc.hyps(2) Suc.prems have a: "n = length (m_textureIDs s1) - nat (i + 1)"
    and b: "0 \<le> i + 1" and c: "nat (i + 1) \<le> length (m_textureIDs s1)"
    and d: "int (length (m_textureIDs s1)) < m_loadedTextures s1"
    unfolding f by linarith+
  have "DestroyGLTextures_from (i + 1) s1 = Inl OutOfBounds"
    by (rule Suc.hyps(1)[OF a b c d])
  with step show ?case by simp
qed

lemma DestroyGLTextures_within:
  assumes "DestroyGLTextures s = Inr s'"
  shows "m_loadedTextures s \<le> int (length (m_textureIDs s))"
proof (rule ccontr)
  assume "\<not> m_loadedTextures s \<le> int (length (m_textureIDs s))"
  then have "int (length (m_textureIDs s)) < m_loadedTextures s" by simp
  from DestroyGLTextures_from_overrun[of 0 s, OF _ _ this] assms show False
    by (simp add: DestroyGLTextures_def)
qed

lemma DestroyGLTextures_handles:
  assumes "DestroyGLTextures s = Inr s'"
  shows "length (m_textureIDs s') = length (m_textureIDs s)
       \<and> (\<forall>j<length (m_textureIDs s). m_textureIDs s' ! j =
             (if j < nat (m_loadedTextures s)
              then (m_textureIDs s ! j)\<lparr>ID := gl_names s (gl_generated s + j)\<rparr>
              else m_textureIDs s ! j))"
  using DestroyGLTextures_from_run[of 0 s, OF _ DestroyGLTextures_within[OF assms]] assms
  by (auto simp: DestroyGLTextures_def)

lemma PrepareScene_result:
  assumes "PrepareScene fmul s = Inr s'"
  shows "m_objectMaterials s' = m_objectMaterials s @
               [\<lparr>diffuseColor = (0.8, 0.4, 0.8), specularColor = (0.2, 0.2, 0.2), shininess = 1.0, mtag = ''plastic''\<rparr>,
                \<lparr>diffuseColor = (0.6, 0.5, 0.2), specularColor = (0.1, 0.2, 0.2), shininess = 1.0, mtag = ''wood''\<rparr>,
                \<lparr>diffuseColor = (0.3, 0.3, 0.2), specularColor = (0.7, 0.7, 0.8), shininess = 8.0, mtag = ''metal''\<rparr>,
                \<lparr>diffuseColor = (0.3, 0.3, 0.2), specularColor = (0.9, 0.9, 0.8), shininess = 10.0, mtag = ''glass''\<rparr>,
                \<lparr>diffuseColor = (0.5, 0.5, 0.5), specularColor = (0.7, 0.7, 0.7), shininess = 6.0, mtag = ''tile''\<rparr>,
                \<lparr>diffuseColor = (0.5, 0.5, 0.5), specularColor = (0.73, 0.3, 0.3), shininess = 6.0, mtag = ''stone''\<rparr>]
       \<and> m_loadedTextures s' = m_loadedTextures s + int (length (scene_entries s))
       \<and> m_textureIDs s' =
            take (nat (m_loadedTextures s)) (m_textureIDs s) @ scene_entries s @
            drop (nat (m_loadedTextures s) + length (scene_entries s)) (m_textureIDs s)"
proof -
  from assms obtain s1 s2 where l: "LoadSceneTextures s = Inr s1"
    and g: "SetupSceneLights fmul (DefineObjectMaterials s1) = Inr s2"
    and e: "s' = emits [LoadPlaneMesh, LoadCylinderMesh, LoadBoxMesh, LoadSphereMesh] s2"
    by (auto simp: PrepareScene_def split: sum.splits if_splits)
  from SetupSceneLights_catalogs[OF g] e
  have "catalogs s' = catalogs (DefineObjectMaterials s1)" by (simp add: catalogs_emits)
  then have "m_textureIDs s' = m_textureIDs s1" "m_loadedTextures s' = m_loadedTextures s1"
    "m_objectMaterials s' = m_objectMaterials (DefineObjectMaterials s1)"
    by (simp_all add: catalogs_def DefineObjectMaterials_def Let_def)
  with LoadSceneTextures_result[OF l] show ?thesis
    by (simp add: DefineObjectMaterials_catalog)
qed

lemma PrepareScene_returns:
  assumes "0 \<le> m_loadedTextures s"
    and "nat (m_loadedTextures s) + length (scene_entries s) \<le> length (m_textureIDs s)"
    and "m_pShaderManager s \<noteq> None" and "m_basicMeshes s \<noteq> None"
  shows "\<exists>s'. PrepareScene fmul s = Inr s'"
proof -
  from LoadSceneTextures_returns[OF assms(1,2)]
  obtain s1 where l: "LoadSceneTextures s = Inr s1" by blast
  from LoadSceneTextures_result[OF l] assms
  have p: "m_pShaderManager (DefineObjectMaterials s1) \<noteq> None"
    "m_basicMeshes (DefineObjectMaterials s1) \<noteq> None"
    by (simp_all add: DefineObjectMaterials_def Let_def)
  then show ?thesis
    by (auto simp: PrepareScene_def l SetupSceneLights_def Let_def emits_def)
qed

text \<open>
  Claim C10. The texture array and its count change only in a call of
  \<open>CreateGLTexture\<close> that returns true, which writes the entry at the old count and
  adds one to the count, and in \<open>DestroyGLTextures\<close>, which overwrites the handle of
  every loaded entry in place and keeps the count, every tag and every other entry.
  The material catalog changes only in \<open>DefineObjectMaterials\<close>, which appends the six
  materials and leaves the textures alone. \<open>RenderScene\<close>, \<open>BindGLTextures\<close>, the
  five uploads and \<open>SetupSceneLights\<close> return with the array, the count and the materials
  as they were. The three lookups yield a value only (their bodies assign no member).
  \<open>LoadSceneTextures\<close> and \<open>PrepareScene\<close> are sequences of the calls above and change
  the catalogs by these calls and no more: \<open>LoadSceneTextures\<close> appends the entries of
  the files that load, keeps every entry that was there and leaves the materials,
  a failed load changing nothing; \<open>PrepareScene\<close> does the same to the textures and
  appends the six materials.
\<close>

theorem catalogs_append_only:
  "(\<forall>b s'. CreateGLTexture filename tg s = Inr (b, s') \<longrightarrow>
       m_objectMaterials s' = m_objectMaterials s
       \<and> (if b
          then 0 \<le> m_loadedTextures s \<and> nat (m_loadedTextures s) < length (m_textureIDs s)
               \<and> m_textureIDs s' = (m_textureIDs s)[nat (m_loadedTextures s) :=
                                       \<lparr>ID = gl_names s (gl_generated s), tag = tg\<rparr>]
               \<and> m_loadedTextures s' = m_loadedTextures s + 1
          else catalogs s' = catalogs s))
   \<and> (\<forall>s'. DestroyGLTextures s = Inr s' \<longrightarrow>
         map tag (m_textureIDs s') = map tag (m_textureIDs s)
         \<and> m_loadedTextures s' = m_loadedTextures s
         \<and> m_objectMaterials s' = m_objectMaterials s)
   \<and> catalogs (DefineObjectMaterials s) =
       (m_textureIDs s, m_loadedTextures s,
        m_objectMaterials s @
          [\<lparr>diffuseColor = (0.8, 0.4, 0.8), specularColor = (0.2, 0.2, 0.2), shininess = 1.0, mtag = ''plastic''\<rparr>,
           \<lparr>diffuseColor = (0.6, 0.5, 0.2), specularColor = (0.1, 0.2, 0.2), shininess = 1.0, mtag = ''wood''\<rparr>,
           \<lparr>diffuseColor = (0.3, 0.3, 0.2), specularColor = (0.7, 0.7, 0.8), shininess = 8.0, mtag = ''metal''\<rparr>,
           \<lparr>diffuseColor = (0.3, 0.3, 0.2), specularColor = (0.9, 0.9, 0.8), shininess = 10.0, mtag = ''glass''\<rparr>,
           \<lparr>diffuseColor = (0.5, 0.5, 0.5), specularColor = (0.7, 0.7, 0.7), shininess = 6.0, mtag = ''tile''\<rparr>,
           \<lparr>diffuseColor = (0.5, 0.5, 0.5), specularColor = (0.73, 0.3, 0.3), shininess = 6.0, mtag = ''stone''\<rparr>])
   \<and> (\<forall>s'. RenderScene uninit s = Inr s' \<longrightarrow> catalogs s' = catalogs s)
   \<and> (\<forall>s'. BindGLTextures s = Inr s' \<longrightarrow> catalogs s' = catalogs s)
   \<and> catalogs (SetTransformations sc rx ry rz pos s) = catalogs s
   \<and> catalogs (SetShaderColor r g bl a s) = catalogs s
   \<and> (\<forall>s'. SetShaderTexture textureTag s = Inr s' \<longrightarrow> catalogs s' = catalogs s)
   \<and> catalogs (SetTextureUVScale u v s) = catalogs s
   \<and> (\<forall>s'. SetShaderMaterial materialTag uninit s = Inr s' \<longrightarrow> catalogs s' = catalogs s)
   \<and> (\<forall>s'. SetupSceneLights fmul s = Inr s' \<longrightarrow> catalogs s' = catalogs s)
   \<and> (\<forall>s'. DestroyGLTextures s = Inr s' \<longrightarrow>
         length (m_textureIDs s') = length (m_textureIDs s)
         \<and> (\<forall>j<length (m_textureIDs s). m_textureIDs s' ! j =
               (if j < nat (m_loadedTextures s)
                then (m_textureIDs s ! j)\<lparr>ID := gl_names s (gl_generated s + j)\<rparr>
                else m_textureIDs s ! j)))
   \<and> (\<forall>s'. LoadSceneTextures s = Inr s' \<longrightarrow>
         m_objectMaterials s' = m_objectMaterials s
         \<and> m_loadedTextures s' = m_loadedTextures s + int (length (scene_entries s))
         \<and> m_textureIDs s' =
             take (nat (m_loadedTextures s)) (m_textureIDs s) @ scene_entries s @
             drop (nat (m_loadedTextures s) + length (scene_entries s)) (m_textureIDs s))
   \<and> (\<forall>s'. PrepareScene fmul s = Inr s' \<longrightarrow>
         m_objectMaterials s' = m_objectMaterials s @
               [\<lparr>diffuseColor = (0.8, 0.4, 0.8), specularColor = (0.2, 0.2, 0.2), shininess = 1.0, mtag = ''plastic''\<rparr>,
                \<lparr>diffuseColor = (0.6, 0.5, 0.2), specularColor = (0.1, 0.2, 0.2), shininess = 1.0, mtag = ''wood''\<rparr>,
                \<lparr>diffuseColor = (0.3, 0.3, 0.2), specularColor = (0.7, 0.7, 0.8), shininess = 8.0, mtag = ''metal''\<rparr>,
                \<lparr>diffuseColor = (0.3, 0.3, 0.2), specularColor = (0.9, 0.9, 0.8), shininess = 10.0, mtag = ''glass''\<rparr>,
                \<lparr>diffuseColor = (0.5, 0.5, 0.5), specularColor = (0.7, 0.7, 0.7), shininess = 6.0, mtag = ''tile''\<rparr>,
                \<lparr>diffuseColor = (0.5, 0.5, 0.5), specularColor = (0.73, 0.3, 0.3), shininess = 6.0, mtag = ''stone''\<rparr>]
         \<and> m_loadedTextures s' = m_loadedTextures s + int (length (scene_entries s))
         \<and> m_textureIDs s' =
             take (nat (m_loadedTextures s)) (m_textureIDs s) @ scene_entries s @
             drop (nat (m_loadedTextures s) + length (scene_entries s)) (m_textureIDs s))"
proof -
  have create: "\<forall>b s'. CreateGLTexture filename tg s = Inr (b, s') \<longrightarrow>
       m_objectMaterials s' = m_objectMaterials s
       \<and> (if b
          then 0 \<le> m_loadedTextures s \<and> nat (m_loadedTextures s) < length (m_textureIDs s)
               \<and> m_textureIDs s' = (m_textureIDs s)[nat (m_loadedTextures s) :=
                                       \<lparr>ID = gl_names s (gl_generated s), tag = tg\<rparr>]
               \<and> m_loadedTextures s' = m_loadedTextures s + 1
          else catalogs s' = catalogs s)"
  proof (intro allI impI)
    fix b s' assume "CreateGLTexture filename tg s = Inr (b, s')"
    from CreateGLTexture_result[OF this]
    show "m_objectMaterials s' = m_objectMaterials s
       \<and> (if b
          then 0 \<le> m_loadedTextures s \<and> nat (m_loadedTextures s) < length (m_textureIDs s)
               \<and> m_textureIDs s' = (m_textureIDs s)[nat (m_loadedTextures s) :=
                                       \<lparr>ID = gl_names s (gl_generated s), tag = tg\<rparr>]
               \<and> m_loadedTextures s' = m_loadedTextures s + 1
          else catalogs s' = catalogs s)"
      by (cases b) (simp_all add: catalogs_def)
  qed
  have destroy: "\<forall>s'. DestroyGLTextures s = Inr s' \<longrightarrow>
         map tag (m_textureIDs s') = map tag (m_textureIDs s)
         \<and> m_loadedTextures s' = m_loadedTextures s
         \<and> m_objectMaterials s' = m_objectMaterials s"
    unfolding DestroyGLTextures_def using DestroyGLTextures_from_members by blast
  have materials: "catalogs (DefineObjectMaterials s) =
       (m_textureIDs s, m_loadedTextures s,
        m_objectMaterials s @
          [\<lparr>diffuseColor = (0.8, 0.4, 0.8), specularColor = (0.2, 0.2, 0.2), shininess = 1.0, mtag = ''plastic''\<rparr>,
           \<lparr>diffuseColor = (0.6, 0.5, 0.2), specularColor = (0.1, 0.2, 0.2), shininess = 1.0, mtag = ''wood''\<rparr>,
           \<lparr>diffuseColor = (0.3, 0.3, 0.2), specularColor = (0.7, 0.7, 0.8), shininess = 8.0, mtag = ''metal''\<rparr>,
           \<lparr>diffuseColor = (0.3, 0.3, 0.2), specularColor = (0.9, 0.9, 0.8), shininess = 10.0, mtag = ''glass''\<rparr>,
           \<lparr>diffuseColor = (0.5, 0.5, 0.5), specularColor = (0.7, 0.7, 0.7), shininess = 6.0, mtag = ''tile''\<rparr>,
           \<lparr>diffuseColor = (0.5, 0.5, 0.5), specularColor = (0.73, 0.3, 0.3), shininess = 6.0, mtag = ''stone''\<rparr>])"
    by (simp add: catalogs_def DefineObjectMaterials_def Let_def)
  have render: "\<forall>s'. RenderScene uninit s = Inr s' \<longrightarrow> catalogs s' = catalogs s"
    using RenderScene_catalogs by blast
  have bind: "\<forall>s'. BindGLTextures s = Inr s' \<longrightarrow> catalogs s' = catalogs s"
    using BindGLTextures_catalogs by blast
  have texture: "\<forall>s'. SetShaderTexture textureTag s = Inr s' \<longrightarrow> catalogs s' = catalogs s"
    using SetShaderTexture_catalogs by blast
  have material: "\<forall>s'. SetShaderMaterial materialTag uninit s = Inr s' \<longrightarrow> catalogs s' = catalogs s"
    using SetShaderMaterial_catalogs by blast
  have lights: "\<forall>s'. SetupSceneLights fmul s = Inr s' \<longrightarrow> catalogs s' = catalogs s"
    using SetupSceneLights_catalogs by blast
  have handles: "(\<forall>s'. DestroyGLTextures s = Inr s' \<longrightarrow>
         length (m_textureIDs s') = length (m_textureIDs s)
         \<and> (\<forall>j<length (m_textureIDs s). m_textureIDs s' ! j =
               (if j < nat (m_loadedTextures s)
                then (m_textureIDs s ! j)\<lparr>ID := gl_names s (gl_generated s + j)\<rparr>
                else m_textureIDs s ! j)))"
    using DestroyGLTextures_handles by blast
  have load: "(\<forall>s'. LoadSceneTextures s = Inr s' \<longrightarrow>
         m_objectMaterials s' = m_objectMaterials s
         \<and> m_loadedTextures s' = m_loadedTextures s + int (length (scene_entries s))
         \<and> m_textureIDs s' =
             take (nat (m_loadedTextures s)) (m_textureIDs s) @ scene_entries s @
             drop (nat (m_loadedTextures s) + length (scene_entries s)) (m_textureIDs s))"
    using LoadSceneTextures_result by blast
  have prepare: "(\<forall>s'. PrepareScene fmul s = Inr s' \<longrightarrow>
         m_objectMaterials s' = m_objectMaterials s @
               [\<lparr>diffuseColor = (0.8, 0.4, 0.8), specularColor = (0.2, 0.2, 0.2), shininess = 1.0, mtag = ''plastic''\<rparr>,
                \<lparr>diffuseColor = (0.6, 0.5, 0.2), specularColor = (0.1, 0.2, 0.2), shininess = 1.0, mtag = ''wood''\<rparr>,
                \<lparr>diffuseColor = (0.3, 0.3, 0.2), specularColor = (0.7, 0.7, 0.8), shininess = 8.0, mtag = ''metal''\<rparr>,
                \<lparr>diffuseColor = (0.3, 0.3, 0.2), specularColor = (0.9, 0.9, 0.8), shininess = 10.0, mtag = ''glass''\<rparr>,
                \<lparr>diffuseColor = (0.5, 0.5, 0.5), specularColor = (0.7, 0.7, 0.7), shininess = 6.0, mtag = ''tile''\<rparr>,
                \<lparr>diffuseColor = (0.5, 0.5, 0.5), specularColor = (0.73, 0.3, 0.3), shininess = 6.0, mtag = ''stone''\<rparr>]
         \<and> m_loadedTextures s' = m_loadedTextures s + int (length (scene_entries s))
         \<and> m_textureIDs s' =
             take (nat (m_loadedTextures s)) (m_textureIDs s) @ scene_entries s @
             drop (nat (m_loadedTextures s) + length (scene_entries s)) (m_textureIDs s))"
    using PrepareScene_result by blast
  show ?thesis
    by (intro conjI create destroy materials render bind texture material lights
        SetTransformations_catalogs SetShaderColor_catalogs SetTextureUVScale_catalogs
        handles load prepare)
qed

text \<open>
  An instance on the prepared manager with three textures and six materials (no file
  decodes there), and on the manager with the disk for the loads that succeed.
\<close>

theorem catalogs_append_only_witness:
  "(catalogs_after (RenderScene some_material ready_state) = Some (catalogs ready_state)
   \<and> catalogs_after (BindGLTextures ready_state) = Some (catalogs ready_state)
   \<and> catalogs_after (SetShaderTexture ''wall'' ready_state) = Some (catalogs ready_state)
   \<and> catalogs_after (SetShaderMaterial ''stone'' some_material ready_state) =
       Some (catalogs ready_state)
   \<and> catalogs_after (SetupSceneLights (*) ready_state) = Some (catalogs ready_state)
   \<and> catalogs_after (map_sum id snd
         (CreateGLTexture ''textures/missing.png'' ''missing'' ready_state)) =
       Some (catalogs ready_state)
   \<and> count_of (DestroyGLTextures ready_state) = 3
   \<and> count_of (map_sum id snd (CreateGLTexture ''textures/wall.png'' ''wall'' with_disk)) = 1)
   \<and> map fst (entries_of (DestroyGLTextures ready_state)) = [1, 2, 3]
   \<and> count_of (LoadSceneTextures with_disk) = 11
   \<and> count_of (PrepareScene (*) (SceneManager (Some ShaderManager) with_disk)) = 11
   \<and> map_option (\<lambda>(a, n, m). map mtag m)
         (catalogs_after (PrepareScene (*) (SceneManager (Some ShaderManager) with_disk))) =
       Some [''plastic'', ''wood'', ''metal'', ''glass'', ''tile'', ''stone'']"
proof -
  note T = catalogs_append_only[where s = ready_state and uninit = some_material
      and fmul = "(*)"
      and textureTag = "''wall''" and materialTag = "''stone''"
      and filename = "''textures/missing.png''" and tg = "''missing''"]
  note U = catalogs_append_only[where s = with_disk
      and filename = "''textures/wall.png''" and tg = "''wall''"]
  have wf: "m_loadedTextures ready_state \<le> int (length (m_textureIDs ready_state))"
    by (simp add: ready_state_fields three_textures_def fresh_state_def)
  have sh: "m_pShaderManager ready_state \<noteq> None" and me: "m_basicMeshes ready_state \<noteq> None"
    by (simp_all add: ready_state_fields)
  have nofile: "files ready_state ''textures/missing.png'' = None"
    by (simp add: ready_state_def DefineObjectMaterials_def SceneManager_def Let_def
        three_textures_def fresh_state_def)
  from RenderScene_with_shader[OF me sh wf, of some_material]
  obtain s1 where s1: "RenderScene some_material ready_state = Inr s1" by blast
  from BindGLTextures_run[OF wf]
  obtain s2 where s2: "BindGLTextures ready_state = Inr s2" by blast
  from FindTextureSlot_returns[OF wf, of "''wall''"] sh
  obtain s3 where s3: "SetShaderTexture ''wall'' ready_state = Inr s3"
    by (auto simp: SetShaderTexture_def Let_def FindTextureSlot_emit)
  from sh obtain s4 where s4: "SetShaderMaterial ''stone'' some_material ready_state = Inr s4"
    by (auto simp: SetShaderMaterial_def FindMaterial_eq ready_state_materials)
  from sh obtain s5 where s5: "SetupSceneLights (*) ready_state = Inr s5"
    by (auto simp: SetupSceneLights_def Let_def)
  from CreateGLTexture_undecoded[OF nofile, of "''missing''"]
  obtain s6 where s6: "CreateGLTexture ''textures/missing.png'' ''missing'' ready_state = Inr (False, s6)"
    by blast
  from DestroyGLTextures_from_run[of 0 ready_state, OF _ wf]
  obtain s7 where s7: "DestroyGLTextures ready_state = Inr s7"
    by (auto simp: DestroyGLTextures_def)
  have "files with_disk ''textures/wall.png'' = Some \<lparr>width = 64, height = 64, colorChannels = 3\<rparr>"
    by (simp add: with_disk_def disk_def scene_textures_def)
  from CreateGLTexture_registered[OF this, of "''wall''"]
  obtain s8 where s8: "CreateGLTexture ''textures/wall.png'' ''wall'' with_disk = Inr (True, s8)"
    by (auto simp: with_disk_def fresh_state_def)
  note T1 = T[THEN conjunct1]
  note Tr1 = T[THEN conjunct2]
  note T2 = Tr1[THEN conjunct1]
  note Tr2 = Tr1[THEN conjunct2]
  note T3 = Tr2[THEN conjunct1]
  note Tr3 = Tr2[THEN conjunct2]
  note T4 = Tr3[THEN conjunct1]
  note Tr4 = Tr3[THEN conjunct2]
  note T5 = Tr4[THEN conjunct1]
  note Tr5 = Tr4[THEN conjunct2]
  note T6 = Tr5[THEN conjunct1]
  note Tr6 = Tr5[THEN conjunct2]
  note T7 = Tr6[THEN conjunct1]
  note Tr7 = Tr6[THEN conjunct2]
  note T8 = Tr7[THEN conjunct1]
  note Tr8 = Tr7[THEN conjunct2]
  note T9 = Tr8[THEN conjunct1]
  note Tr9 = Tr8[THEN conjunct2]
  note T10 = Tr9[THEN conjunct1]
  note Tr10 = Tr9[THEN conjunct2]
  note T11 = Tr10[THEN conjunct1]
  note Tr11 = Tr10[THEN conjunct2]
  note T12 = Tr11[THEN conjunct1]
  note Tr12 = Tr11[THEN conjunct2]
  note T13 = Tr12[THEN conjunct1]
  note Tr13 = Tr12[THEN conjunct2]
  note U1 = U[THEN conjunct1]
  note Ur1 = U[THEN conjunct2]
  note U2 = Ur1[THEN conjunct1]
  note Ur2 = Ur1[THEN conjunct2]
  note U3 = Ur2[THEN conjunct1]
  note Ur3 = Ur2[THEN conjunct2]
  note U4 = Ur3[THEN conjunct1]
  note Ur4 = Ur3[THEN conjunct2]
  note U5 = Ur4[THEN conjunct1]
  note Ur5 = Ur4[THEN conjunct2]
  note U6 = Ur5[THEN conjunct1]
  note Ur6 = Ur5[THEN conjunct2]
  note U7 = Ur6[THEN conjunct1]
  note Ur7 = Ur6[THEN conjunct2]
  note U8 = Ur7[THEN conjunct1]
  note Ur8 = Ur7[THEN conjunct2]
  note U9 = Ur8[THEN conjunct1]
  note Ur9 = Ur8[THEN conjunct2]
  note U10 = Ur9[THEN conjunct1]
  note Ur10 = Ur9[THEN conjunct2]
  note U11 = Ur10[THEN conjunct1]
  note Ur11 = Ur10[THEN conjunct2]
  note U12 = Ur11[THEN conjunct1]
  note Ur12 = Ur11[THEN conjunct2]
  note U13 = Ur12[THEN conjunct1]
  note Ur13 = Ur12[THEN conjunct2]
  from T4[THEN spec, THEN mp, OF s1] have c1: "catalogs s1 = catalogs ready_state" .
  from T5[THEN spec, THEN mp, OF s2] have c2: "catalogs s2 = catalogs ready_state" .
  from T8[THEN spec, THEN mp, OF s3] have c3: "catalogs s3 = catalogs ready_state" .
  from T10[THEN spec, THEN mp, OF s4] have c4: "catalogs s4 = catalogs ready_state" .
  from T11[THEN spec, THEN mp, OF s5] have c5: "catalogs s5 = catalogs ready_state" .
  from T1[THEN spec, THEN spec, THEN mp, OF s6]
  have c6: "catalogs s6 = catalogs ready_state" by simp
  from T2[THEN spec, THEN mp, OF s7]
  have c7: "m_loadedTextures s7 = m_loadedTextures ready_state" by simp
  from U1[THEN spec, THEN spec, THEN mp, OF s8]
  have c8: "m_loadedTextures s8 = m_loadedTextures with_disk + 1" by simp
  from s1 s2 s3 s4 s5 s6 s7 s8 c1 c2 c3 c4 c5 c6 c7 c8 have first: "catalogs_after (RenderScene some_material ready_state) = Some (catalogs ready_state)
   \<and> catalogs_after (BindGLTextures ready_state) = Some (catalogs ready_state)
   \<and> catalogs_after (SetShaderTexture ''wall'' ready_state) = Some (catalogs ready_state)
   \<and> catalogs_after (SetShaderMaterial ''stone'' some_material ready_state) =
       Some (catalogs ready_state)
   \<and> catalogs_after (SetupSceneLights (*) ready_state) = Some (catalogs ready_state)
   \<and> catalogs_after (map_sum id snd
         (CreateGLTexture ''textures/missing.png'' ''missing'' ready_state)) =
       Some (catalogs ready_state)
   \<and> count_of (DestroyGLTextures ready_state) = 3
   \<and> count_of (map_sum id snd (CreateGLTexture ''textures/wall.png'' ''wall'' with_disk)) = 1"
    by (simp add: catalogs_after_def count_of_def ready_state_fields with_disk_def fresh_state_def)
  have rf: "gl_generated ready_state = 0" "gl_names ready_state = (\<lambda>k. word_of_nat k + 1)"
    "length (m_textureIDs ready_state) = 16"
    by (simp_all add: ready_state_def DefineObjectMaterials_def SceneManager_def Let_def
        three_textures_def fresh_state_def)
  from T12[THEN spec, THEN mp, OF s7]
  have h: "length (m_textureIDs s7) = length (m_textureIDs ready_state)"
    "\<forall>j<length (m_textureIDs ready_state). m_textureIDs s7 ! j =
        (if j < nat (m_loadedTextures ready_state)
         then (m_textureIDs ready_state ! j)
                \<lparr>ID := gl_names ready_state (gl_generated ready_state + j)\<rparr>
         else m_textureIDs ready_state ! j)"
    by simp_all
  from h(1) have "take 3 (m_textureIDs s7) = map ((!) (m_textureIDs s7)) [0..<3]"
    by (intro take_as_map_nth) (simp add: rf)
  also have "[0..<3] = [0, 1, 2]" by (simp add: upt_rec)
  finally have tk7: "take 3 (m_textureIDs s7) =
      [m_textureIDs s7 ! 0, m_textureIDs s7 ! 1, m_textureIDs s7 ! 2]" by simp
  from h(2)[rule_format, of 0] h(2)[rule_format, of 1] h(2)[rule_format, of 2]
  have "ID (m_textureIDs s7 ! 0) = 1" "ID (m_textureIDs s7 ! 1) = 2"
    "ID (m_textureIDs s7 ! 2) = 3"
    by (simp_all add: rf ready_state_fields three_textures_def fresh_state_def)
  with s7 c7 tk7 have second: "map fst (entries_of (DestroyGLTextures ready_state)) = [1, 2, 3]"
    by (simp add: entries_of_def ready_state_fields)
  let ?p = "SceneManager (Some ShaderManager) with_disk"
  have pf: "m_loadedTextures ?p = 0" "length (m_textureIDs ?p) = 16" "m_objectMaterials ?p = []"
    "m_pShaderManager ?p \<noteq> None" "m_basicMeshes ?p \<noteq> None"
    by (simp_all add: SceneManager_def with_disk_def fresh_state_def)
  have pe: "length (scene_entries ?p) = 11"
    by (simp add: scene_entries_def scene_textures_def SceneManager_def with_disk_def
        fresh_state_def disk_def)
  have we: "length (scene_entries with_disk) = 11"
    by (simp add: scene_entries_def scene_textures_def with_disk_def fresh_state_def disk_def)
  from LoadSceneTextures_returns[of with_disk] we
  obtain s9 where s9: "LoadSceneTextures with_disk = Inr s9"
    by (auto simp: with_disk_def fresh_state_def)
  from PrepareScene_returns[of ?p "(*)"] pf pe
  obtain s10 where s10: "PrepareScene (*) ?p = Inr s10" by auto
  note V = catalogs_append_only[where s = "?p" and fmul = "(*)"]
  note V1 = V[THEN conjunct1]
  note Vr1 = V[THEN conjunct2]
  note V2 = Vr1[THEN conjunct1]
  note Vr2 = Vr1[THEN conjunct2]
  note V3 = Vr2[THEN conjunct1]
  note Vr3 = Vr2[THEN conjunct2]
  note V4 = Vr3[THEN conjunct1]
  note Vr4 = Vr3[THEN conjunct2]
  note V5 = Vr4[THEN conjunct1]
  note Vr5 = Vr4[THEN conjunct2]
  note V6 = Vr5[THEN conjunct1]
  note Vr6 = Vr5[THEN conjunct2]
  note V7 = Vr6[THEN conjunct1]
  note Vr7 = Vr6[THEN conjunct2]
  note V8 = Vr7[THEN conjunct1]
  note Vr8 = Vr7[THEN conjunct2]
  note V9 = Vr8[THEN conjunct1]
  note Vr9 = Vr8[THEN conjunct2]
  note V10 = Vr9[THEN conjunct1]
  note Vr10 = Vr9[THEN conjunct2]
  note V11 = Vr10[THEN conjunct1]
  note Vr11 = Vr10[THEN conjunct2]
  note V12 = Vr11[THEN conjunct1]
  note Vr12 = Vr11[THEN conjunct2]
  note V13 = Vr12[THEN conjunct1]
  note Vr13 = Vr12[THEN conjunct2]
  from U13[THEN spec, THEN mp, OF s9] have c9: "m_loadedTextures s9 =
      m_loadedTextures with_disk + int (length (scene_entries with_disk))" by simp
  from Vr13[THEN spec, THEN mp, OF s10]
  have c10: "m_loadedTextures s10 = m_loadedTextures ?p + int (length (scene_entries ?p))"
    and m10: "m_objectMaterials s10 = m_objectMaterials ?p @
       [\<lparr>diffuseColor = (0.8, 0.4, 0.8), specularColor = (0.2, 0.2, 0.2), shininess = 1.0, mtag = ''plastic''\<rparr>,
        \<lparr>diffuseColor = (0.6, 0.5, 0.2), specularColor = (0.1, 0.2, 0.2), shininess = 1.0, mtag = ''wood''\<rparr>,
        \<lparr>diffuseColor = (0.3, 0.3, 0.2), specularColor = (0.7, 0.7, 0.8), shininess = 8.0, mtag = ''metal''\<rparr>,
        \<lparr>diffuseColor = (0.3, 0.3, 0.2), specularColor = (0.9, 0.9, 0.8), shininess = 10.0, mtag = ''glass''\<rparr>,
        \<lparr>diffuseColor = (0.5, 0.5, 0.5), specularColor = (0.7, 0.7, 0.7), shininess = 6.0, mtag = ''tile''\<rparr>,
        \<lparr>diffuseColor = (0.5, 0.5, 0.5), specularColor = (0.73, 0.3, 0.3), shininess = 6.0, mtag = ''stone''\<rparr>]"
    by simp_all
  from s9 c9 we have third: "count_of (LoadSceneTextures with_disk) = 11"
    by (simp add: count_of_def with_disk_def fresh_state_def)
  from s10 c10 m10 pf pe
  have fourth: "count_of (PrepareScene (*) (SceneManager (Some ShaderManager) with_disk)) = 11
     \<and> map_option (\<lambda>(a, n, m). map mtag m)
         (catalogs_after (PrepareScene (*) (SceneManager (Some ShaderManager) with_disk))) =
       Some [''plastic'', ''wood'', ''metal'', ''glass'', ''tile'', ''stone'']"
    by (simp add: count_of_def catalogs_after_def catalogs_def)
  from first second third fourth show ?thesis by blast
qed

end
